theory Spec2Isabelle
  imports Main "HOL-Library.AList" "HOL-Library.Word"
begin

section \<open>The PairDrop signalling server (server/ws-server.js)\<close>

text \<open>
  The source file defines the class \<^verbatim>\<open>PairDropWsServer\<close> twice: lines 7-547 and lines
  555-1146. The two definitions agree except in \<^verbatim>\<open>_send\<close>, \<^verbatim>\<open>_signalAndRelay\<close>,
  \<^verbatim>\<open>_disconnect\<close>, \<^verbatim>\<open>_keepAlive\<close>, \<^verbatim>\<open>_onRoomSecrets\<close>, the \<^verbatim>\<open>close\<close> listener of
  \<^verbatim>\<open>_onConnection\<close>, and logging. Every function below takes the \<open>revision\<close> it embeds.

  Conventions of the embedding.
  \<^item> A \<^verbatim>\<open>Peer\<close> object is a reference (\<open>ref\<close>) into \<open>heap\<close>; two objects may carry the same
    \<^verbatim>\<open>id\<close> (a client that reconnects keeps its id).
  \<^item> A room (an object used as a dictionary from peer id to Peer) is an association list
    in insertion order, which is the order of \<^verbatim>\<open>for ... in\<close> and \<^verbatim>\<open>Object.keys\<close> on keys
    that are not array indices; assignment is \<open>AList.update\<close>, \<^verbatim>\<open>delete\<close> is \<open>AList.delete\<close>.
    \<^verbatim>\<open>this._rooms\<close>, \<^verbatim>\<open>this._roomSecrets\<close> and \<^verbatim>\<open>this._keepAliveTimers\<close> are maps over their
    own keys; property names inherited from \<^verbatim>\<open>Object.prototype\<close> are not modelled.
  \<^item> Everything the server does to the outside (\<^verbatim>\<open>socket.send\<close>, \<^verbatim>\<open>socket.terminate\<close>,
    \<^verbatim>\<open>setTimeout\<close>, \<^verbatim>\<open>clearTimeout\<close>) is appended to \<open>trace\<close>, in program order.
    Logging (\<^verbatim>\<open>console.*\<close>) is dropped.
  \<^item> What a handler reads from the outside (\<^verbatim>\<open>Date.now()\<close>, \<^verbatim>\<open>rateLimitReached()\<close>, random
    strings and integers) is an argument of the handler.
\<close>

subsection \<open>JSON values and JavaScript coercions\<close>

text \<open>JSON numbers are restricted to integers.\<close>

datatype json =
    JNull
  | JBool bool
  | JNum int
  | JStr string
  | JArr "json list"
  | JObj "(string \<times> json) list"

text \<open>JavaScript truthiness of a parsed JSON value.\<close>

fun truthy :: "json \<Rightarrow> bool" where
  "truthy JNull = False"
| "truthy (JBool b) = b"
| "truthy (JNum n) = (n \<noteq> 0)"
| "truthy (JStr s) = (s \<noteq> [])"
| "truthy (JArr xs) = True"
| "truthy (JObj m) = True"

text \<open>Truthiness of a property that may be absent (\<^verbatim>\<open>undefined\<close>).\<close>

definition truthyField :: "json option \<Rightarrow> bool" where
  "truthyField v = (case v of None \<Rightarrow> False | Some j \<Rightarrow> truthy j)"

fun digitChar :: "nat \<Rightarrow> char" where
  "digitChar n = char_of (48 + n)"

fun decimal :: "nat \<Rightarrow> string" where
  "decimal n = (if n < 10 then [digitChar n] else decimal (n div 10) @ [digitChar (n mod 10)])"

declare decimal.simps [simp del]

definition decimalInt :: "int \<Rightarrow> string" where
  "decimalInt i = (if i < 0 then CHR ''-'' # decimal (nat (- i)) else decimal (nat i))"

fun joinComma :: "string list \<Rightarrow> string" where
  "joinComma [] = []"
| "joinComma [s] = s"
| "joinComma (s # t # ss) = s @ '','' @ joinComma (t # ss)"

text \<open>
  \<^verbatim>\<open>String(v)\<close>, the coercion applied when a value is used as a property key or
  handed to \<^verbatim>\<open>RegExp.prototype.test\<close>. An array joins its elements with commas,
  \<^verbatim>\<open>null\<close> elements printing as the empty string. Integers print in decimal (JavaScript
  does so below \<open>10^21\<close>).
\<close>

fun jsString :: "json \<Rightarrow> string" where
  "jsString JNull = ''null''"
| "jsString (JBool b) = (if b then ''true'' else ''false'')"
| "jsString (JNum n) = decimalInt n"
| "jsString (JStr s) = s"
| "jsString (JArr xs) = joinComma (map (\<lambda>x. if x = JNull then [] else jsString x) xs)"
| "jsString (JObj m) = ''[object Object]''"

text \<open>The property key a possibly absent value coerces to.\<close>

definition propertyKey :: "json option \<Rightarrow> string" where
  "propertyKey v = (case v of None \<Rightarrow> ''undefined'' | Some j \<Rightarrow> jsString j)"

text \<open>\<^verbatim>\<open>sender.pairKey\<close> is a string or \<^verbatim>\<open>null\<close>; as a property key \<^verbatim>\<open>null\<close> is \<^verbatim>\<open>"null"\<close>.\<close>

definition nullableKey :: "string option \<Rightarrow> string" where
  "nullableKey v = (case v of None \<Rightarrow> ''null'' | Some s \<Rightarrow> s)"

text \<open>
  \<^verbatim>\<open>String.prototype.trim\<close> on the characters a \<open>string\<close> can hold: tab, line feed,
  vertical tab, form feed, carriage return, space and no-break space are white space.
\<close>

definition isSpace :: "char \<Rightarrow> bool" where
  "isSpace c = (of_char c \<in> {9, 10, 11, 12, 13, 32, 160 :: nat})"

definition trim :: "string \<Rightarrow> string" where
  "trim s = rev (dropWhile isSpace (rev (dropWhile isSpace s)))"

subsection \<open>Peers (server/peer.js is not among the sources)\<close>

type_synonym ref = nat
type_synonym byte = "8 word"

record peer =
  peer_id :: string
  ip :: string
  name :: json
  rtcSupported :: bool
  readyState :: nat
  roomSecrets :: "string list"
  publicRoomId :: "string option"
  pairKey :: "string option"

text \<open>
  Modelled from the spec: \<^verbatim>\<open>Peer.isValidUuid\<close> (peer.js is missing). The spec calls a
  peer id "UUID-shaped, 36 ASCII characters"; taken as the canonical textual form, groups
  of 8, 4, 4, 4 and 12 lower-case hexadecimal digits separated by hyphens.
\<close>

definition uuidClass :: "char \<Rightarrow> char" where
  "uuidClass c =
     (if c \<in> set ''0123456789abcdef'' then CHR ''x''
      else if c = CHR ''-'' then CHR ''-'' else CHR ''?'')"

definition isValidUuid :: "string \<Rightarrow> bool" where
  "isValidUuid s = (map uuidClass s = ''xxxxxxxx-xxxx-xxxx-xxxx-xxxxxxxxxxxx'')"

text \<open>
  Modelled from the spec: \<^verbatim>\<open>Peer.getInfo\<close> (peer.js is missing). The spec names its result
  PeerInfo without listing the fields; taken as the peer's id, name and rtcSupported.
\<close>

definition getInfo :: "peer \<Rightarrow> json" where
  "getInfo p =
     JObj [(''id'', JStr (peer_id p)), (''name'', name p), (''rtcSupported'', JBool (rtcSupported p))]"

text \<open>
  Modelled from the spec: \<^verbatim>\<open>Peer.addRoomSecret\<close> and \<^verbatim>\<open>Peer.removeRoomSecret\<close> (peer.js is
  missing). The spec's data model: \<open>roomSecrets\<close> is the "ordered sequence of secrets this
  peer currently occupies (insertion order preserved; duplicates forbidden)".
\<close>

definition addRoomSecret :: "string \<Rightarrow> peer \<Rightarrow> peer" where
  "addRoomSecret roomSecret p =
     (if roomSecret \<in> set (roomSecrets p) then p
      else p\<lparr>roomSecrets := roomSecrets p @ [roomSecret]\<rparr>)"

definition removeRoomSecret :: "string \<Rightarrow> peer \<Rightarrow> peer" where
  "removeRoomSecret roomSecret p = p\<lparr>roomSecrets := removeAll roomSecret (roomSecrets p)\<rparr>"

subsection \<open>Server state\<close>

datatype revision = Rev1 | Rev2

text \<open>
  What the instance is configured with and the library values the code reads:
  \<^verbatim>\<open>this._conf.wsFallback\<close>, \<^verbatim>\<open>this._conf.rtcConfig\<close>, the two properties \<^verbatim>\<open>readyState\<close> and
  \<^verbatim>\<open>OPEN\<close> of \<^verbatim>\<open>this._wss\<close> that the first \<^verbatim>\<open>_send\<close> compares (\<open>None\<close> is \<^verbatim>\<open>undefined\<close>),
  \<^verbatim>\<open>Buffer.prototype.toString('utf8')\<close> and \<^verbatim>\<open>hasher.hashCodeSalted\<close> (helper.js is missing).
\<close>

record env =
  wsFallback :: bool
  rtcConfig :: "(string \<times> json) list"
  wssReadyState :: "nat option"
  wssOPEN :: "nat option"
  utf8 :: "byte list \<Rightarrow> string"
  hashCodeSalted :: "string \<Rightarrow> json"

record keepAliveTimer =
  timer :: "ref option"
  lastBeat :: int

datatype effect =
    Send ref json
  | SendBinary ref "byte list"
  | Terminate ref
  | SetTimeout ref nat
  | ClearTimeout ref

text \<open>
  \<open>rooms\<close> is \<^verbatim>\<open>this._rooms\<close>, \<open>pairKeys\<close> is \<^verbatim>\<open>this._roomSecrets\<close> (pair key to room secret and
  creator; renamed because a Peer has a field \<open>roomSecrets\<close> too), \<open>keepAliveTimers\<close> is
  \<^verbatim>\<open>this._keepAliveTimers\<close>. A \<open>timer\<close> is \<open>None\<close> for the initial \<^verbatim>\<open>0\<close> and \<open>Some p\<close> for
  the handle of a timeout that will call \<^verbatim>\<open>_keepAlive(p)\<close>.
\<close>

record server =
  rooms :: "string \<rightharpoonup> (string \<times> ref) list"
  pairKeys :: "string \<rightharpoonup> (string \<times> ref)"
  keepAliveTimers :: "string \<rightharpoonup> keepAliveTimer"
  heap :: "ref \<Rightarrow> peer"
  trace :: "effect list"
  nextRef :: ref

definition emit :: "effect \<Rightarrow> server \<Rightarrow> server" where
  "emit e \<sigma> = \<sigma>\<lparr>trace := trace \<sigma> @ [e]\<rparr>"

definition updatePeer :: "ref \<Rightarrow> (peer \<Rightarrow> peer) \<Rightarrow> server \<Rightarrow> server" where
  "updatePeer p f \<sigma> = \<sigma>\<lparr>heap := (heap \<sigma>)(p := f (heap \<sigma> p))\<rparr>"

subsection \<open>Sending\<close>

text \<open>
  \<^verbatim>\<open>_send(peer, message)\<close>; \<open>None\<close> is a falsy \<^verbatim>\<open>peer\<close>. The first definition returns when
  \<^verbatim>\<open>this._wss.readyState !== this._wss.OPEN\<close>, the second when the peer's socket is not
  open (\<^verbatim>\<open>readyState !== 1\<close>). The trace keeps the message before \<^verbatim>\<open>JSON.stringify\<close>.
\<close>

definition send :: "revision \<Rightarrow> env \<Rightarrow> ref option \<Rightarrow> json \<Rightarrow> server \<Rightarrow> server" where
  "send rv e peer message \<sigma> =
     (case peer of
        None \<Rightarrow> \<sigma>
      | Some p \<Rightarrow>
          (case rv of
             Rev1 \<Rightarrow> if wssReadyState e \<noteq> wssOPEN e then \<sigma> else emit (Send p message) \<sigma>
           | Rev2 \<Rightarrow> if readyState (heap \<sigma> p) \<noteq> 1 then \<sigma> else emit (Send p message) \<sigma>))"

subsection \<open>Room registry primitives\<close>

definition peerLeftMsg :: "string \<Rightarrow> string \<Rightarrow> string \<Rightarrow> bool \<Rightarrow> json" where
  "peerLeftMsg pid roomType roomId disconnect =
     JObj [(''type'', JStr ''peer-left''), (''peerId'', JStr pid), (''roomType'', JStr roomType),
           (''roomId'', JStr roomId), (''disconnect'', JBool disconnect)]"

definition peerJoinedMsg :: "json \<Rightarrow> string \<Rightarrow> string \<Rightarrow> json" where
  "peerJoinedMsg info roomType roomId =
     JObj [(''type'', JStr ''peer-joined''), (''peer'', info), (''roomType'', JStr roomType),
           (''roomId'', JStr roomId)]"

definition peersMsg :: "json list \<Rightarrow> string \<Rightarrow> string \<Rightarrow> json" where
  "peersMsg infos roomType roomId =
     JObj [(''type'', JStr ''peers''), (''peers'', JArr infos), (''roomType'', JStr roomType),
           (''roomId'', JStr roomId)]"

text \<open>
  \<^verbatim>\<open>_leaveRoom(peer, roomType, roomId, disconnect)\<close>. The notification loop runs over the
  keys of the room after the removal and looks each one up.
\<close>

definition leaveRoom :: "revision \<Rightarrow> env \<Rightarrow> ref \<Rightarrow> string \<Rightarrow> string \<Rightarrow> bool \<Rightarrow> server \<Rightarrow> server" where
  "leaveRoom rv e peer roomType roomId disconnect \<sigma> =
     (case rooms \<sigma> roomId of
        None \<Rightarrow> \<sigma>
      | Some room \<Rightarrow>
          (case map_of room (peer_id (heap \<sigma> peer)) of
             None \<Rightarrow> \<sigma>
           | Some _ \<Rightarrow>
               (let room' = AList.delete (peer_id (heap \<sigma> peer)) room in
                if room' = [] then \<sigma>\<lparr>rooms := (rooms \<sigma>)(roomId := None)\<rparr>
                else fold (\<lambda>otherPeerId.
                             send rv e (map_of room' otherPeerId)
                               (peerLeftMsg (peer_id (heap \<sigma> peer)) roomType roomId disconnect))
                          (map fst room')
                          (\<sigma>\<lparr>rooms := (rooms \<sigma>)(roomId \<mapsto> room')\<rparr>))))"

text \<open>\<^verbatim>\<open>_notifyPeers(peer, roomType, roomId)\<close>.\<close>

definition notifyPeers :: "revision \<Rightarrow> env \<Rightarrow> ref \<Rightarrow> string \<Rightarrow> string \<Rightarrow> server \<Rightarrow> server" where
  "notifyPeers rv e peer roomType roomId \<sigma> =
     (case rooms \<sigma> roomId of
        None \<Rightarrow> \<sigma>
      | Some room \<Rightarrow>
          (let others = filter (\<lambda>otherPeerId. otherPeerId \<noteq> peer_id (heap \<sigma> peer)) (map fst room);
               \<sigma>1 = fold (\<lambda>otherPeerId.
                             send rv e (map_of room otherPeerId)
                               (peerJoinedMsg (getInfo (heap \<sigma> peer)) roomType roomId))
                          others \<sigma>;
               otherPeers = concat (map (\<lambda>otherPeerId.
                                           case map_of room otherPeerId of
                                             None \<Rightarrow> []
                                           | Some other \<Rightarrow> [getInfo (heap \<sigma> other)])
                                        others)
           in send rv e (Some peer) (peersMsg otherPeers roomType roomId) \<sigma>1))"

text \<open>
  \<^verbatim>\<open>_joinRoom(peer, roomType, roomId)\<close>. The last assignment finds the room present, because
  the second step created it if it was absent.
\<close>

definition joinRoom :: "revision \<Rightarrow> env \<Rightarrow> ref \<Rightarrow> string \<Rightarrow> string \<Rightarrow> server \<Rightarrow> server" where
  "joinRoom rv e peer roomType roomId \<sigma> =
     (let \<sigma>1 = (if (case rooms \<sigma> roomId of
                        None \<Rightarrow> False
                      | Some room \<Rightarrow> map_of room (peer_id (heap \<sigma> peer)) \<noteq> None)
                 then leaveRoom rv e peer roomType roomId False \<sigma> else \<sigma>);
          \<sigma>2 = (if rooms \<sigma>1 roomId = None then \<sigma>1\<lparr>rooms := (rooms \<sigma>1)(roomId \<mapsto> [])\<rparr> else \<sigma>1);
          \<sigma>3 = notifyPeers rv e peer roomType roomId \<sigma>2
      in case rooms \<sigma>3 roomId of
           None \<Rightarrow> \<sigma>3
         | Some room \<Rightarrow>
             \<sigma>3\<lparr>rooms := (rooms \<sigma>3)(roomId \<mapsto> AList.update (peer_id (heap \<sigma>3 peer)) peer room)\<rparr>)"

subsection \<open>The three kinds of room\<close>

definition joinIpRoom :: "revision \<Rightarrow> env \<Rightarrow> ref \<Rightarrow> server \<Rightarrow> server" where
  "joinIpRoom rv e peer \<sigma> = joinRoom rv e peer ''ip'' (ip (heap \<sigma> peer)) \<sigma>"

definition joinSecretRoom :: "revision \<Rightarrow> env \<Rightarrow> ref \<Rightarrow> string \<Rightarrow> server \<Rightarrow> server" where
  "joinSecretRoom rv e peer roomSecret \<sigma> =
     updatePeer peer (addRoomSecret roomSecret) (joinRoom rv e peer ''secret'' roomSecret \<sigma>)"

definition leaveIpRoom :: "revision \<Rightarrow> env \<Rightarrow> ref \<Rightarrow> bool \<Rightarrow> server \<Rightarrow> server" where
  "leaveIpRoom rv e peer disconnect \<sigma> =
     leaveRoom rv e peer ''ip'' (ip (heap \<sigma> peer)) disconnect \<sigma>"

definition leaveSecretRoom :: "revision \<Rightarrow> env \<Rightarrow> ref \<Rightarrow> string \<Rightarrow> bool \<Rightarrow> server \<Rightarrow> server" where
  "leaveSecretRoom rv e peer roomSecret disconnect \<sigma> =
     updatePeer peer (removeRoomSecret roomSecret)
       (leaveRoom rv e peer ''secret'' roomSecret disconnect \<sigma>)"

text \<open>\<^verbatim>\<open>_leavePublicRoom\<close>: a falsy \<^verbatim>\<open>publicRoomId\<close> is \<^verbatim>\<open>null\<close> or the empty string.\<close>

definition leavePublicRoom :: "revision \<Rightarrow> env \<Rightarrow> ref \<Rightarrow> bool \<Rightarrow> server \<Rightarrow> server" where
  "leavePublicRoom rv e peer disconnect \<sigma> =
     (case publicRoomId (heap \<sigma> peer) of
        None \<Rightarrow> \<sigma>
      | Some r \<Rightarrow>
          if r = [] then \<sigma>
          else updatePeer peer (\<lambda>p. p\<lparr>publicRoomId := None\<rparr>)
                 (leaveRoom rv e peer ''public-id'' r disconnect \<sigma>))"

definition joinPublicRoom :: "revision \<Rightarrow> env \<Rightarrow> ref \<Rightarrow> string \<Rightarrow> server \<Rightarrow> server" where
  "joinPublicRoom rv e peer publicRoomId' \<sigma> =
     updatePeer peer (\<lambda>p. p\<lparr>publicRoomId := Some publicRoomId'\<rparr>)
       (joinRoom rv e peer ''public-id'' publicRoomId' (leavePublicRoom rv e peer False \<sigma>))"

text \<open>\<^verbatim>\<open>_joinSecretRooms\<close>: the loop runs over the list it was given.\<close>

definition joinSecretRooms :: "revision \<Rightarrow> env \<Rightarrow> ref \<Rightarrow> string list \<Rightarrow> server \<Rightarrow> server" where
  "joinSecretRooms rv e peer secrets \<sigma> = fold (joinSecretRoom rv e peer) secrets \<sigma>"

text \<open>
  \<^verbatim>\<open>_leaveAllSecretRooms\<close>: the loop counts \<open>i\<close> upwards and reads \<^verbatim>\<open>peer.roomSecrets.length\<close>
  and \<^verbatim>\<open>peer.roomSecrets[i]\<close> afresh in every round, while \<^verbatim>\<open>_leaveSecretRoom\<close> takes the
  secret it leaves out of that very array.
\<close>

function leaveAllSecretRoomsFrom ::
  "revision \<Rightarrow> env \<Rightarrow> nat \<Rightarrow> ref \<Rightarrow> bool \<Rightarrow> server \<Rightarrow> server" where
  "leaveAllSecretRoomsFrom rv e i peer disconnect \<sigma> =
     (if i < length (roomSecrets (heap \<sigma> peer))
      then leaveAllSecretRoomsFrom rv e (i + 1) peer disconnect
             (leaveSecretRoom rv e peer (roomSecrets (heap \<sigma> peer) ! i) disconnect \<sigma>)
      else \<sigma>)"
  by pat_completeness auto
termination
proof (relation "measure (\<lambda>(rv, e, i, peer, disconnect, \<sigma>::server). length (roomSecrets (heap \<sigma> peer)) - i)")
  show "wf (measure (\<lambda>(rv::revision, e::env, i, peer::ref, disconnect::bool, \<sigma>::server).
               length (roomSecrets (heap \<sigma> peer)) - i))"
    by simp
next
  fix rv :: revision and e :: env and i peer :: nat and disconnect :: bool and \<sigma> :: server
  assume less: "i < length (roomSecrets (heap \<sigma> peer))"
  define s where "s = roomSecrets (heap \<sigma> peer) ! i"
  have fold_heap: "heap (fold (\<lambda>k. send rv e (f k) msg) ks \<tau>) = heap \<tau>" for f msg ks \<tau>
    by (induction ks arbitrary: \<tau>)
       (simp_all add: send_def emit_def split: option.splits revision.splits)
  have "heap (leaveRoom rv e peer ''secret'' s disconnect \<sigma>) = heap \<sigma>"
    by (simp add: leaveRoom_def Let_def fold_heap split: option.splits)
  then have after: "roomSecrets (heap (leaveSecretRoom rv e peer s disconnect \<sigma>) peer)
                      = removeAll s (roomSecrets (heap \<sigma> peer))"
    by (simp add: leaveSecretRoom_def updatePeer_def removeRoomSecret_def)
  define n where "n = length (roomSecrets (heap \<sigma> peer))"
  define m where "m = length (removeAll s (roomSecrets (heap \<sigma> peer)))"
  have "m \<le> n"
    unfolding m_def n_def by (induction "roomSecrets (heap \<sigma> peer)") (auto intro: le_SucI)
  moreover have "i < n"
    using less by (simp add: n_def)
  ultimately have "m - Suc i < n - i"
    by arith
  then show "((rv, e, i + 1, peer, disconnect,
               leaveSecretRoom rv e peer (roomSecrets (heap \<sigma> peer) ! i) disconnect \<sigma>),
              (rv, e, i, peer, disconnect, \<sigma>))
             \<in> measure (\<lambda>(rv, e, i, peer, disconnect, \<sigma>::server).
                          length (roomSecrets (heap \<sigma> peer)) - i)"
    unfolding m_def n_def using after by (simp add: s_def)
qed

declare leaveAllSecretRoomsFrom.simps [simp del]

definition leaveAllSecretRooms :: "revision \<Rightarrow> env \<Rightarrow> ref \<Rightarrow> bool \<Rightarrow> server \<Rightarrow> server" where
  "leaveAllSecretRooms rv e peer disconnect \<sigma> = leaveAllSecretRoomsFrom rv e 0 peer disconnect \<sigma>"

subsection \<open>Pair-key directory\<close>

text \<open>\<^verbatim>\<open>_removePairKey(pairKey)\<close>, on the property key the argument coerces to.\<close>

definition removePairKey :: "string \<Rightarrow> server \<Rightarrow> server" where
  "removePairKey key \<sigma> =
     (case pairKeys \<sigma> key of
        None \<Rightarrow> \<sigma>
      | Some entry \<Rightarrow>
          (updatePeer (snd entry) (\<lambda>p. p\<lparr>pairKey := None\<rparr>) \<sigma>)\<lparr>pairKeys := (pairKeys \<sigma>)(key := None)\<rparr>)"

text \<open>
  \<^verbatim>\<open>_createPairKey(creator, roomSecret)\<close>. The list holds the successive results of
  \<^verbatim>\<open>crypto.randomInt(1000000, 1999999)\<close>; the key is the decimal numeral without its first
  character. \<open>None\<close>: every draw of the list was taken and the loop has not ended.
\<close>

fun createPairKey :: "nat list \<Rightarrow> ref \<Rightarrow> string \<Rightarrow> server \<Rightarrow> (string \<times> server) option" where
  "createPairKey [] creator roomSecret \<sigma> = None"
| "createPairKey (n # ns) creator roomSecret \<sigma> =
     (let key = drop 1 (decimal n)
      in if pairKeys \<sigma> key \<noteq> None then createPairKey ns creator roomSecret \<sigma>
         else Some (key, \<sigma>\<lparr>pairKeys := (pairKeys \<sigma>)(key \<mapsto> (roomSecret, creator))\<rparr>))"

subsection \<open>Keep-alive and disconnect\<close>

definition cancelKeepAlive :: "ref \<Rightarrow> server \<Rightarrow> server" where
  "cancelKeepAlive peer \<sigma> =
     (case keepAliveTimers \<sigma> (peer_id (heap \<sigma> peer)) of
        None \<Rightarrow> \<sigma>
      | Some k \<Rightarrow> (case timer k of None \<Rightarrow> \<sigma> | Some t \<Rightarrow> emit (ClearTimeout t) \<sigma>))"

text \<open>\<^verbatim>\<open>_setKeepAliveTimerToNow\<close>: a \<^verbatim>\<open>lastBeat\<close> of 0 is falsy.\<close>

definition setKeepAliveTimerToNow :: "int \<Rightarrow> ref \<Rightarrow> server \<Rightarrow> server" where
  "setKeepAliveTimerToNow now' peer \<sigma> =
     (case keepAliveTimers \<sigma> (peer_id (heap \<sigma> peer)) of
        None \<Rightarrow> \<sigma>
      | Some k \<Rightarrow>
          if lastBeat k = 0 then \<sigma>
          else \<sigma>\<lparr>keepAliveTimers := (keepAliveTimers \<sigma>)(peer_id (heap \<sigma> peer) \<mapsto> k\<lparr>lastBeat := now'\<rparr>)\<rparr>)"

text \<open>
  \<^verbatim>\<open>_disconnect(sender)\<close>. The first definition always terminates the socket, the second
  only when it is open.
\<close>

definition disconnect :: "revision \<Rightarrow> env \<Rightarrow> ref \<Rightarrow> server \<Rightarrow> server" where
  "disconnect rv e sender \<sigma> =
     (let \<sigma>1 = removePairKey (nullableKey (pairKey (heap \<sigma> sender))) \<sigma>;
          \<sigma>2 = updatePeer sender (\<lambda>p. p\<lparr>pairKey := None\<rparr>) \<sigma>1;
          \<sigma>3 = cancelKeepAlive sender \<sigma>2;
          \<sigma>4 = \<sigma>3\<lparr>keepAliveTimers := (keepAliveTimers \<sigma>3)(peer_id (heap \<sigma>3 sender) := None)\<rparr>;
          \<sigma>5 = leaveIpRoom rv e sender True \<sigma>4;
          \<sigma>6 = leaveAllSecretRooms rv e sender True \<sigma>5;
          \<sigma>7 = leavePublicRoom rv e sender True \<sigma>6
      in case rv of
           Rev1 \<Rightarrow> emit (Terminate sender) \<sigma>7
         | Rev2 \<Rightarrow> if readyState (heap \<sigma>7 sender) = 1 then emit (Terminate sender) \<sigma>7 else \<sigma>7)"

definition onDisconnect :: "revision \<Rightarrow> env \<Rightarrow> ref \<Rightarrow> server \<Rightarrow> server" where
  "onDisconnect rv e sender \<sigma> = disconnect rv e sender \<sigma>"

text \<open>The factor of \<^verbatim>\<open>timeout\<close> in the test of \<^verbatim>\<open>_keepAlive\<close>: 2 at line 526, 3 at line 1124.\<close>

definition beatFactor :: "revision \<Rightarrow> int" where
  "beatFactor rv = (case rv of Rev1 \<Rightarrow> 2 | Rev2 \<Rightarrow> 3)"

definition pingMsg :: json where
  "pingMsg = JObj [(''type'', JStr ''ping'')]"

text \<open>
  \<^verbatim>\<open>_keepAlive(peer)\<close>; \<open>now'\<close> is \<^verbatim>\<open>Date.now()\<close>, read once for the call. The record is
  present at the test, because the step before created it if it was absent.
\<close>

definition keepAlive :: "revision \<Rightarrow> env \<Rightarrow> int \<Rightarrow> ref \<Rightarrow> server \<Rightarrow> server" where
  "keepAlive rv e now' peer \<sigma> =
     (let \<sigma>1 = cancelKeepAlive peer \<sigma>;
          timeout = 2000;
          pid = peer_id (heap \<sigma>1 peer);
          \<sigma>2 = (if keepAliveTimers \<sigma>1 pid = None
                 then \<sigma>1\<lparr>keepAliveTimers := (keepAliveTimers \<sigma>1)(pid \<mapsto> \<lparr>timer = None, lastBeat = now'\<rparr>)\<rparr>
                 else \<sigma>1)
      in case keepAliveTimers \<sigma>2 pid of
           None \<Rightarrow> \<sigma>2
         | Some k \<Rightarrow>
             if now' - lastBeat k > beatFactor rv * timeout then disconnect rv e peer \<sigma>2
             else (let \<sigma>3 = send rv e (Some peer) pingMsg \<sigma>2;
                       \<sigma>4 = emit (SetTimeout peer (nat timeout)) \<sigma>3
                   in \<sigma>4\<lparr>keepAliveTimers := (keepAliveTimers \<sigma>4)(pid \<mapsto> k\<lparr>timer := Some peer\<rparr>)\<rparr>))"

subsection \<open>Relay\<close>

text \<open>\<^verbatim>\<open>Buffer.prototype.slice(a, b)\<close> and \<^verbatim>\<open>slice(a)\<close> for indices that are not negative.\<close>

definition slice :: "nat \<Rightarrow> nat \<Rightarrow> byte list \<Rightarrow> byte list" where
  "slice a b buf = take (b - a) (drop a buf)"

definition sliceFrom :: "nat \<Rightarrow> byte list \<Rightarrow> byte list" where
  "sliceFrom a buf = drop a buf"

text \<open>\<^verbatim>\<open>_relayBinaryMessage(sender, binaryData)\<close>, the same in both definitions.\<close>

definition relayBinaryMessage :: "env \<Rightarrow> ref \<Rightarrow> byte list \<Rightarrow> server \<Rightarrow> server" where
  "relayBinaryMessage e sender binaryData \<sigma> =
     (if \<not> wsFallback e then \<sigma>
      else
        (let recipientId = utf8 e (slice 0 36 binaryData);
             roomType = utf8 e (slice 36 37 binaryData);
             room = (if roomType = ''i'' then ip (heap \<sigma> sender)
                     else trim (utf8 e (slice 37 101 binaryData)))
         in if isValidUuid recipientId
            then (case rooms \<sigma> room of
                    None \<Rightarrow> \<sigma>
                  | Some members \<Rightarrow>
                      (case map_of members recipientId of
                         None \<Rightarrow> \<sigma>
                       | Some recipient \<Rightarrow>
                           if readyState (heap \<sigma> recipient) = 1
                           then emit (SendBinary recipient (sliceFrom 101 binaryData)) \<sigma>
                           else \<sigma>))
            else \<sigma>))"

definition senderTag :: "peer \<Rightarrow> json" where
  "senderTag p = JObj [(''id'', JStr (peer_id p)), (''rtcSupported'', JBool (rtcSupported p))]"

text \<open>The message after \<^verbatim>\<open>delete message.to\<close> and \<^verbatim>\<open>message.sender = {...}\<close>.\<close>

definition relayed :: "peer \<Rightarrow> (string \<times> json) list \<Rightarrow> json" where
  "relayed p message = JObj (AList.update ''sender'' (senderTag p) (AList.delete ''to'' message))"

text \<open>
  \<^verbatim>\<open>_signalAndRelay(sender, message)\<close>. \<^verbatim>\<open>message.to\<close> and \<^verbatim>\<open>message.roomId\<close> are used as
  property keys and \<^verbatim>\<open>message.to\<close> is handed to the regular expression of
  \<^verbatim>\<open>isValidUuid\<close>, hence the coercions. The first definition hands an absent recipient to
  \<^verbatim>\<open>_send\<close>, the second returns on it.
\<close>

definition signalAndRelay :: "revision \<Rightarrow> env \<Rightarrow> ref \<Rightarrow> (string \<times> json) list \<Rightarrow> server \<Rightarrow> server" where
  "signalAndRelay rv e sender message \<sigma> =
     (let room = (if map_of message ''roomType'' = Some (JStr ''ip'') then ip (heap \<sigma> sender)
                  else propertyKey (map_of message ''roomId''));
          to = map_of message ''to''
      in if truthyField to \<and> isValidUuid (propertyKey to)
         then (case rooms \<sigma> room of
                 None \<Rightarrow> \<sigma>
               | Some members \<Rightarrow>
                   (case rv of
                      Rev1 \<Rightarrow> send rv e (map_of members (propertyKey to))
                                (relayed (heap \<sigma> sender) message) \<sigma>
                    | Rev2 \<Rightarrow>
                        (case map_of members (propertyKey to) of
                           None \<Rightarrow> \<sigma>
                         | Some recipient \<Rightarrow>
                             send rv e (Some recipient) (relayed (heap \<sigma> sender) message) \<sigma>)))
         else \<sigma>)"

subsection \<open>Handlers of the text messages\<close>

text \<open>
  \<open>TypeError\<close>: the JavaScript throws. \<open>OutsideModel\<close>: a protocol field that the handler
  stores or sends back is absent or carries a JSON type other than the protocol's (a
  string, or a list of strings); such frames are not modelled. \<open>DrawsExhausted\<close>: see
  \<open>createPairKey\<close>. \<open>UnknownPeer\<close>: an input names a Peer that was never constructed.
\<close>

datatype error = TypeError | OutsideModel | DrawsExhausted | UnknownPeer

fun stringsOf :: "json list \<Rightarrow> string list option" where
  "stringsOf [] = Some []"
| "stringsOf (JStr s # xs) = map_option ((#) s) (stringsOf xs)"
| "stringsOf (_ # xs) = None"

text \<open>The regular expression \<^verbatim>\<open>/^[\x00-\x7F]{64,256}$/\<close> of \<^verbatim>\<open>_onRoomSecrets\<close>.\<close>

definition isRoomSecret :: "string \<Rightarrow> bool" where
  "isRoomSecret s = (64 \<le> length s \<and> length s \<le> 256 \<and> list_all (\<lambda>c. (of_char c :: nat) \<le> 127) s)"

text \<open>
  \<^verbatim>\<open>_onRoomSecrets\<close>. The second definition also returns on an empty filtered list, on
  which the loop of \<^verbatim>\<open>_joinSecretRooms\<close> does nothing. A truthy value that is not an array
  has no \<^verbatim>\<open>filter\<close>.
\<close>

definition onRoomSecrets ::
  "revision \<Rightarrow> env \<Rightarrow> ref \<Rightarrow> (string \<times> json) list \<Rightarrow> server \<Rightarrow> error + server" where
  "onRoomSecrets rv e sender message \<sigma> =
     (case map_of message ''roomSecrets'' of
        None \<Rightarrow> Inr \<sigma>
      | Some v \<Rightarrow>
          if \<not> truthy v then Inr \<sigma>
          else (case v of
                  JArr xs \<Rightarrow>
                    (case stringsOf xs of
                       None \<Rightarrow> Inl OutsideModel
                     | Some secrets \<Rightarrow>
                         Inr (joinSecretRooms rv e sender (filter isRoomSecret secrets) \<sigma>))
                | _ \<Rightarrow> Inl TypeError))"

definition secretRoomDeletedMsg :: "string \<Rightarrow> json" where
  "secretRoomDeletedMsg roomSecret =
     JObj [(''type'', JStr ''secret-room-deleted''), (''roomSecret'', JStr roomSecret)]"

text \<open>
  \<^verbatim>\<open>_deleteSecretRoom(roomSecret)\<close>. The \<^verbatim>\<open>for ... in\<close> runs over the keys the room had when
  the loop began; a round removes only the key it visits (in a room every key is the id
  of its value), so no key is skipped.
\<close>

definition deleteSecretRoom :: "revision \<Rightarrow> env \<Rightarrow> string \<Rightarrow> server \<Rightarrow> server" where
  "deleteSecretRoom rv e roomSecret \<sigma> =
     (case rooms \<sigma> roomSecret of
        None \<Rightarrow> \<sigma>
      | Some room \<Rightarrow>
          fold (\<lambda>peerId \<tau>.
                  case map_of room peerId of
                    None \<Rightarrow> \<tau>
                  | Some peer \<Rightarrow>
                      send rv e (Some peer) (secretRoomDeletedMsg roomSecret)
                        (leaveSecretRoom rv e peer roomSecret True \<tau>))
               (map fst room) \<sigma>)"

text \<open>\<^verbatim>\<open>_onRoomSecretsDeleted\<close>: reading \<^verbatim>\<open>length\<close> of an absent or null list throws.\<close>

definition onRoomSecretsDeleted ::
  "revision \<Rightarrow> env \<Rightarrow> ref \<Rightarrow> (string \<times> json) list \<Rightarrow> server \<Rightarrow> error + server" where
  "onRoomSecretsDeleted rv e sender message \<sigma> =
     (case map_of message ''roomSecrets'' of
        None \<Rightarrow> Inl TypeError
      | Some JNull \<Rightarrow> Inl TypeError
      | Some (JArr xs) \<Rightarrow>
          (case stringsOf xs of
             None \<Rightarrow> Inl OutsideModel
           | Some secrets \<Rightarrow> Inr (fold (deleteSecretRoom rv e) secrets \<sigma>))
      | Some _ \<Rightarrow> Inl OutsideModel)"

definition pairDeviceInitiatedMsg :: "string \<Rightarrow> string \<Rightarrow> json" where
  "pairDeviceInitiatedMsg roomSecret key =
     JObj [(''type'', JStr ''pair-device-initiated''), (''roomSecret'', JStr roomSecret),
           (''pairKey'', JStr key)]"

text \<open>
  \<^verbatim>\<open>_onPairDeviceInitiate\<close>; \<open>roomSecret\<close> is the result of \<^verbatim>\<open>randomizer.getRandomString(256)\<close>
  (helper.js is missing) and \<open>draws\<close> feeds \<open>createPairKey\<close>.
\<close>

definition onPairDeviceInitiate ::
  "revision \<Rightarrow> env \<Rightarrow> string \<Rightarrow> nat list \<Rightarrow> ref \<Rightarrow> server \<Rightarrow> error + server" where
  "onPairDeviceInitiate rv e roomSecret draws sender \<sigma> =
     (case createPairKey draws sender roomSecret \<sigma> of
        None \<Rightarrow> Inl DrawsExhausted
      | Some (key, \<sigma>1) \<Rightarrow>
          (let \<sigma>2 = (case pairKey (heap \<sigma>1 sender) of
                        None \<Rightarrow> \<sigma>1
                      | Some old \<Rightarrow> if old = [] then \<sigma>1 else removePairKey old \<sigma>1);
               \<sigma>3 = updatePeer sender (\<lambda>p. p\<lparr>pairKey := Some key\<rparr>) \<sigma>2;
               \<sigma>4 = send rv e (Some sender) (pairDeviceInitiatedMsg roomSecret key) \<sigma>3
           in Inr (joinSecretRoom rv e sender roomSecret \<sigma>4)))"

definition pairDeviceJoinedMsg :: "string \<Rightarrow> string \<Rightarrow> json" where
  "pairDeviceJoinedMsg roomSecret pid =
     JObj [(''type'', JStr ''pair-device-joined''), (''roomSecret'', JStr roomSecret),
           (''peerId'', JStr pid)]"

definition rateLimitMsg :: json where
  "rateLimitMsg = JObj [(''type'', JStr ''join-key-rate-limit'')]"

definition keyInvalidMsg :: json where
  "keyInvalidMsg = JObj [(''type'', JStr ''pair-device-join-key-invalid'')]"

text \<open>
  \<^verbatim>\<open>_onPairDeviceJoin\<close>; \<open>limited\<close> is the result of \<^verbatim>\<open>sender.rateLimitReached()\<close> (peer.js is
  missing). \<^verbatim>\<open>message.pairKey\<close> is only ever used as a property key.
\<close>

definition onPairDeviceJoin ::
  "revision \<Rightarrow> env \<Rightarrow> bool \<Rightarrow> ref \<Rightarrow> (string \<times> json) list \<Rightarrow> server \<Rightarrow> server" where
  "onPairDeviceJoin rv e limited sender message \<sigma> =
     (if limited then send rv e (Some sender) rateLimitMsg \<sigma>
      else
        (let key = propertyKey (map_of message ''pairKey'')
         in case pairKeys \<sigma> key of
              None \<Rightarrow> send rv e (Some sender) keyInvalidMsg \<sigma>
            | Some entry \<Rightarrow>
                if peer_id (heap \<sigma> sender) = peer_id (heap \<sigma> (snd entry))
                then send rv e (Some sender) keyInvalidMsg \<sigma>
                else
                  (let roomSecret = fst entry;
                       creator = snd entry;
                       \<sigma>1 = removePairKey key \<sigma>;
                       \<sigma>2 = send rv e (Some sender)
                              (pairDeviceJoinedMsg roomSecret (peer_id (heap \<sigma>1 creator))) \<sigma>1;
                       \<sigma>3 = send rv e (Some creator)
                              (pairDeviceJoinedMsg roomSecret (peer_id (heap \<sigma>2 sender))) \<sigma>2;
                       \<sigma>4 = joinSecretRoom rv e sender roomSecret \<sigma>3
                   in removePairKey (nullableKey (pairKey (heap \<sigma>4 sender))) \<sigma>4)))"

definition onPairDeviceCancel :: "revision \<Rightarrow> env \<Rightarrow> ref \<Rightarrow> server \<Rightarrow> server" where
  "onPairDeviceCancel rv e sender \<sigma> =
     (case pairKey (heap \<sigma> sender) of
        None \<Rightarrow> \<sigma>
      | Some key \<Rightarrow>
          if key = [] then \<sigma>
          else send rv e (Some sender)
                 (JObj [(''type'', JStr ''pair-device-canceled''), (''pairKey'', JStr key)])
                 (removePairKey key \<sigma>))"

text \<open>
  \<^verbatim>\<open>_onCreatePublicRoom\<close>; \<open>publicRoomId'\<close> is the result of
  \<^verbatim>\<open>randomizer.getRandomString(5, true).toLowerCase()\<close>.
\<close>

definition onCreatePublicRoom :: "revision \<Rightarrow> env \<Rightarrow> string \<Rightarrow> ref \<Rightarrow> server \<Rightarrow> server" where
  "onCreatePublicRoom rv e publicRoomId' sender \<sigma> =
     joinPublicRoom rv e sender publicRoomId'
       (send rv e (Some sender)
          (JObj [(''type'', JStr ''public-room-created''), (''roomId'', JStr publicRoomId')]) \<sigma>)"

text \<open>\<^verbatim>\<open>_onJoinPublicRoom\<close>; the id is stored in the peer and sent back, so it must be a string.\<close>

definition onJoinPublicRoom ::
  "revision \<Rightarrow> env \<Rightarrow> bool \<Rightarrow> ref \<Rightarrow> (string \<times> json) list \<Rightarrow> server \<Rightarrow> error + server" where
  "onJoinPublicRoom rv e limited sender message \<sigma> =
     (if limited then Inr (send rv e (Some sender) rateLimitMsg \<sigma>)
      else (case map_of message ''publicRoomId'' of
              Some (JStr r) \<Rightarrow>
                if rooms \<sigma> r = None \<and> \<not> truthyField (map_of message ''createIfInvalid'')
                then Inr (send rv e (Some sender)
                            (JObj [(''type'', JStr ''public-room-id-invalid''),
                                   (''publicRoomId'', JStr r)]) \<sigma>)
                else Inr (joinPublicRoom rv e sender r (leavePublicRoom rv e sender False \<sigma>))
            | _ \<Rightarrow> Inl OutsideModel))"

definition onLeavePublicRoom :: "revision \<Rightarrow> env \<Rightarrow> ref \<Rightarrow> server \<Rightarrow> server" where
  "onLeavePublicRoom rv e sender \<sigma> =
     send rv e (Some sender) (JObj [(''type'', JStr ''public-room-left'')])
       (leavePublicRoom rv e sender True \<sigma>)"

text \<open>
  \<^verbatim>\<open>_onRegenerateRoomSecret\<close>; \<open>newRoomSecret\<close> is the result of
  \<^verbatim>\<open>randomizer.getRandomString(256)\<close>. The loop changes no room.
\<close>

definition onRegenerateRoomSecret ::
  "revision \<Rightarrow> env \<Rightarrow> string \<Rightarrow> ref \<Rightarrow> (string \<times> json) list \<Rightarrow> server \<Rightarrow> error + server" where
  "onRegenerateRoomSecret rv e newRoomSecret sender message \<sigma> =
     (case map_of message ''roomSecret'' of
        Some (JStr oldRoomSecret) \<Rightarrow>
          (let \<sigma>1 = (case rooms \<sigma> oldRoomSecret of
                        None \<Rightarrow> \<sigma>
                      | Some room \<Rightarrow>
                          fold (\<lambda>peerId \<tau>.
                                  case map_of room peerId of
                                    None \<Rightarrow> \<tau>
                                  | Some peer \<Rightarrow>
                                      updatePeer peer (removeRoomSecret oldRoomSecret)
                                        (send rv e (Some peer)
                                           (JObj [(''type'', JStr ''room-secret-regenerated''),
                                                  (''oldRoomSecret'', JStr oldRoomSecret),
                                                  (''newRoomSecret'', JStr newRoomSecret)]) \<tau>))
                               (map fst room) \<sigma>)
           in Inr (\<sigma>1\<lparr>rooms := (rooms \<sigma>1)(oldRoomSecret := None)\<rparr>))
      | _ \<Rightarrow> Inl OutsideModel)"

subsection \<open>Connection and dispatch\<close>

text \<open>
  Modelled from the spec: the \<^verbatim>\<open>Peer\<close> constructor (peer.js is missing). A new peer occupies
  no secret room and no public room and has no pair key; its socket is open.
\<close>

definition newPeer :: "string \<Rightarrow> string \<Rightarrow> json \<Rightarrow> bool \<Rightarrow> peer" where
  "newPeer pid ip' name' rtc =
     \<lparr>peer_id = pid, ip = ip', name = name', rtcSupported = rtc, readyState = 1,
      roomSecrets = [], publicRoomId = None, pairKey = None\<rparr>"

definition fieldOf :: "json \<Rightarrow> string \<Rightarrow> json option" where
  "fieldOf j k = (case j of JObj m \<Rightarrow> map_of m k | _ \<Rightarrow> None)"

text \<open>\<^verbatim>\<open>JSON.stringify\<close> leaves out a property whose value is \<^verbatim>\<open>undefined\<close>.\<close>

definition optField :: "string \<Rightarrow> json option \<Rightarrow> (string \<times> json) list" where
  "optField k v = (case v of None \<Rightarrow> [] | Some x \<Rightarrow> [(k, x)])"

definition wsConfigMsg :: "env \<Rightarrow> json" where
  "wsConfigMsg e =
     JObj [(''type'', JStr ''ws-config''),
           (''wsConfig'',
            JObj [(''rtcConfig'',
                   JObj (AList.update ''iceCandidatePoolSize'' (JNum 10)
                          (AList.update ''rtcpMuxPolicy'' (JStr ''require'')
                            (AList.update ''bundlePolicy'' (JStr ''max-bundle'')
                              (AList.update ''iceTransportPolicy'' (JStr ''all'') (rtcConfig e)))))),
                  (''wsFallback'', JBool (wsFallback e)),
                  (''chunkSize'', JNum (10 * 1024 * 1024)),
                  (''maxParallelTransfers'', JNum 8),
                  (''disableThrottling'', JBool True)])]"

definition displayNameMsg :: "env \<Rightarrow> peer \<Rightarrow> json" where
  "displayNameMsg e p =
     JObj ([(''type'', JStr ''display-name'')]
           @ optField ''displayName'' (fieldOf (name p) ''displayName'')
           @ optField ''deviceName'' (fieldOf (name p) ''deviceName'')
           @ [(''peerId'', JStr (peer_id p)), (''peerIdHash'', hashCodeSalted e (peer_id p))])"

text \<open>
  The \<^verbatim>\<open>connection\<close> listener with \<^verbatim>\<open>_onConnection\<close>: the new Peer takes the next free
  reference.
\<close>

definition onConnection ::
  "revision \<Rightarrow> env \<Rightarrow> int \<Rightarrow> string \<Rightarrow> string \<Rightarrow> json \<Rightarrow> bool \<Rightarrow> server \<Rightarrow> server" where
  "onConnection rv e now' pid ip' name' rtc \<sigma> =
     (let peer = nextRef \<sigma>;
          \<sigma>0 = \<sigma>\<lparr>heap := (heap \<sigma>)(peer := newPeer pid ip' name' rtc), nextRef := Suc (nextRef \<sigma>)\<rparr>;
          \<sigma>1 = keepAlive rv e now' peer \<sigma>0;
          \<sigma>2 = send rv e (Some peer) (wsConfigMsg e) \<sigma>1
      in send rv e (Some peer) (displayNameMsg e (heap \<sigma>2 peer)) \<sigma>2)"

text \<open>What one handler execution reads from the outside.\<close>

record ambient =
  dateNow :: int
  rateLimitReached :: bool
  randomString :: string
  randomInts :: "nat list"

definition relayTypes :: "string list" where
  "relayTypes =
     [''request'', ''header'', ''partition'', ''partition-received'', ''progress'',
      ''files-transfer-response'', ''file-transfer-complete'', ''message-transfer-complete'',
      ''text'', ''display-name-changed'', ''ws-chunk'', ''ws-chunk-binary'']"

text \<open>The \<^verbatim>\<open>switch (message.type)\<close> of \<^verbatim>\<open>_onMessage\<close>, which compares with \<^verbatim>\<open>===\<close>.\<close>

definition dispatch ::
  "revision \<Rightarrow> env \<Rightarrow> ambient \<Rightarrow> ref \<Rightarrow> (string \<times> json) list \<Rightarrow> server \<Rightarrow> error + server" where
  "dispatch rv e orc sender message \<sigma> =
     (case map_of message ''type'' of
        Some (JStr t) \<Rightarrow>
          if t = ''disconnect'' then Inr (onDisconnect rv e sender \<sigma>)
          else if t = ''pong'' then Inr (setKeepAliveTimerToNow (dateNow orc) sender \<sigma>)
          else if t = ''join-ip-room'' then Inr (joinIpRoom rv e sender \<sigma>)
          else if t = ''room-secrets'' then onRoomSecrets rv e sender message \<sigma>
          else if t = ''room-secrets-deleted'' then onRoomSecretsDeleted rv e sender message \<sigma>
          else if t = ''pair-device-initiate''
            then onPairDeviceInitiate rv e (randomString orc) (randomInts orc) sender \<sigma>
          else if t = ''pair-device-join''
            then Inr (onPairDeviceJoin rv e (rateLimitReached orc) sender message \<sigma>)
          else if t = ''pair-device-cancel'' then Inr (onPairDeviceCancel rv e sender \<sigma>)
          else if t = ''regenerate-room-secret''
            then onRegenerateRoomSecret rv e (randomString orc) sender message \<sigma>
          else if t = ''create-public-room''
            then Inr (onCreatePublicRoom rv e (randomString orc) sender \<sigma>)
          else if t = ''join-public-room''
            then onJoinPublicRoom rv e (rateLimitReached orc) sender message \<sigma>
          else if t = ''leave-public-room'' then Inr (onLeavePublicRoom rv e sender \<sigma>)
          else if t = ''signal'' then Inr (signalAndRelay rv e sender message \<sigma>)
          else if t \<in> set relayTypes
            then (if wsFallback e then Inr (signalAndRelay rv e sender message \<sigma>) else Inr \<sigma>)
          else Inr \<sigma>
      | _ \<Rightarrow> Inr \<sigma>)"

text \<open>
  A frame is a \<^verbatim>\<open>Buffer\<close> or a text; \<open>Text None\<close> is a text on which \<^verbatim>\<open>JSON.parse\<close> throws
  (caught and dropped). Reading \<^verbatim>\<open>type\<close> of \<^verbatim>\<open>null\<close> throws; of another value that is not
  an object it is \<^verbatim>\<open>undefined\<close>, which matches no case.
\<close>

datatype frame = Binary "byte list" | Text "json option"

definition onMessage ::
  "revision \<Rightarrow> env \<Rightarrow> ambient \<Rightarrow> ref \<Rightarrow> frame \<Rightarrow> server \<Rightarrow> error + server" where
  "onMessage rv e orc sender fr \<sigma> =
     (case fr of
        Binary binaryData \<Rightarrow> Inr (relayBinaryMessage e sender binaryData \<sigma>)
      | Text None \<Rightarrow> Inr \<sigma>
      | Text (Some JNull) \<Rightarrow> Inl TypeError
      | Text (Some (JObj message)) \<Rightarrow> dispatch rv e orc sender message \<sigma>
      | Text (Some _) \<Rightarrow> Inr \<sigma>)"

text \<open>
  The events the server reacts to: a connection (id, ip, name, rtcSupported of the new
  Peer), a frame on a peer's socket, the firing of a keep-alive timeout, the \<^verbatim>\<open>close\<close>
  event of a socket (only the second definition listens to it), and a change of a
  socket's \<^verbatim>\<open>readyState\<close>, which the transport makes.
\<close>

datatype input =
    Connection string string json bool
  | Message ref frame
  | Timeout ref
  | Close ref
  | ReadyState ref nat

definition step :: "revision \<Rightarrow> env \<Rightarrow> ambient \<Rightarrow> input \<Rightarrow> server \<Rightarrow> error + server" where
  "step rv e orc inp \<sigma> =
     (case inp of
        Connection pid ip' name' rtc \<Rightarrow> Inr (onConnection rv e (dateNow orc) pid ip' name' rtc \<sigma>)
      | Message sender fr \<Rightarrow>
          if sender < nextRef \<sigma> then onMessage rv e orc sender fr \<sigma> else Inl UnknownPeer
      | Timeout peer \<Rightarrow>
          if peer < nextRef \<sigma> then Inr (keepAlive rv e (dateNow orc) peer \<sigma>) else Inl UnknownPeer
      | Close peer \<Rightarrow>
          if peer < nextRef \<sigma>
          then (case rv of Rev1 \<Rightarrow> Inr \<sigma> | Rev2 \<Rightarrow> Inr (onDisconnect rv e peer \<sigma>))
          else Inl UnknownPeer
      | ReadyState peer n \<Rightarrow>
          if peer < nextRef \<sigma> then Inr (updatePeer peer (\<lambda>p. p\<lparr>readyState := n\<rparr>) \<sigma>)
          else Inl UnknownPeer)"

text \<open>A run executes handlers one after the other and stops at the first error.\<close>

fun run :: "revision \<Rightarrow> env \<Rightarrow> (ambient \<times> input) list \<Rightarrow> server \<Rightarrow> error + server" where
  "run rv e [] \<sigma> = Inr \<sigma>"
| "run rv e (x # xs) \<sigma> =
     (case step rv e (fst x) (snd x) \<sigma> of Inl err \<Rightarrow> Inl err | Inr \<sigma>' \<Rightarrow> run rv e xs \<sigma>')"

text \<open>The state the constructor leaves: no room, no pair key, no timer, no peer.\<close>

definition initial :: server where
  "initial =
     \<lparr>rooms = Map.empty, pairKeys = Map.empty, keepAliveTimers = Map.empty,
      heap = (\<lambda>_. newPeer [] [] JNull False), trace = [], nextRef = 0\<rparr>"

subsection \<open>Notions used in the statements\<close>

text \<open>The guard of \<^verbatim>\<open>_send\<close> lets a message to \<open>p\<close> through.\<close>

definition canSend :: "revision \<Rightarrow> env \<Rightarrow> server \<Rightarrow> ref \<Rightarrow> bool" where
  "canSend rv e \<sigma> p =
     (case rv of Rev1 \<Rightarrow> wssReadyState e = wssOPEN e | Rev2 \<Rightarrow> readyState (heap \<sigma> p) = 1)"

text \<open>\<^verbatim>\<open>this._rooms[roomId]?.[pid]\<close>: the Peer registered under \<open>pid\<close> in room \<open>roomId\<close>.\<close>

definition lookup :: "server \<Rightarrow> string \<Rightarrow> string \<Rightarrow> ref option" where
  "lookup \<sigma> roomId pid = (case rooms \<sigma> roomId of None \<Rightarrow> None | Some room \<Rightarrow> map_of room pid)"

text \<open>The text messages handed to the socket of \<open>p\<close>, in order.\<close>

definition receivedBy :: "ref \<Rightarrow> effect list \<Rightarrow> json list" where
  "receivedBy p es =
     concat (map (\<lambda>x. case x of Send q m \<Rightarrow> if q = p then [m] else [] | _ \<Rightarrow> []) es)"

subsection \<open>Concrete peers, instances and states for the examples\<close>

definition asciiBytes :: "string \<Rightarrow> byte list" where
  "asciiBytes s = map (\<lambda>c. of_nat (of_char c)) s"

text \<open>A decoder that agrees with UTF-8 on bytes below 128.\<close>

definition asciiString :: "byte list \<Rightarrow> string" where
  "asciiString b = map (\<lambda>w. char_of (unat w)) b"

definition idA :: string where
  "idA = ''aaaaaaaa-aaaa-aaaa-aaaa-aaaaaaaaaaa1''"

definition idB :: string where
  "idB = ''bbbbbbbb-bbbb-bbbb-bbbb-bbbbbbbbbbb1''"

definition secretS :: string where
  "secretS = replicate 64 (CHR ''s'')"

definition secretT :: string where
  "secretT = replicate 64 (CHR ''t'')"

definition envOn :: env where
  "envOn = \<lparr>wsFallback = True, rtcConfig = [], wssReadyState = None, wssOPEN = None,
            utf8 = asciiString, hashCodeSalted = JStr\<rparr>"

definition envOff :: env where
  "envOff = envOn\<lparr>wsFallback := False\<rparr>"

text \<open>Peer 0 is A, every other reference is B; both connected from 10.0.0.1.\<close>

definition twoPeers :: server where
  "twoPeers =
     \<lparr>rooms = Map.empty, pairKeys = Map.empty, keepAliveTimers = Map.empty,
      heap = (\<lambda>r. if r = 0 then newPeer idA ''10.0.0.1'' JNull True
                   else newPeer idB ''10.0.0.1'' JNull True),
      trace = [], nextRef = 2\<rparr>"

text \<open>Both in their IP room.\<close>

definition inIpRoom :: server where
  "inIpRoom = twoPeers\<lparr>rooms := [''10.0.0.1'' \<mapsto> [(idA, 0), (idB, 1)]]\<rparr>"

text \<open>The same with the socket of B closing.\<close>

definition inIpRoomClosing :: server where
  "inIpRoomClosing = updatePeer 1 (\<lambda>p. p\<lparr>readyState := 2\<rparr>) inIpRoom"

text \<open>A has initiated pairing: key 123456 leads to the secret room S, which A occupies.\<close>

definition pairing :: server where
  "pairing =
     (updatePeer 0 (\<lambda>p. p\<lparr>roomSecrets := [secretS], pairKey := Some ''123456''\<rparr>) twoPeers)
       \<lparr>rooms := [secretS \<mapsto> [(idA, 0)]], pairKeys := [''123456'' \<mapsto> (secretS, 0)]\<rparr>"

definition pairingClosing :: server where
  "pairingClosing = updatePeer 0 (\<lambda>p. p\<lparr>readyState := 2\<rparr>) pairing"

definition joinMessage :: "(string \<times> json) list" where
  "joinMessage = [(''type'', JStr ''pair-device-join''), (''pairKey'', JStr ''123456'')]"

text \<open>Scenario 5 of the spec: id of B, \<open>i\<close>, 64 zero bytes, \<open>HELLO\<close>.\<close>

definition helloFrame :: "byte list" where
  "helloFrame = asciiBytes (idB @ ''i'' @ replicate 64 (char_of (0::nat)) @ ''HELLO'')"

text \<open>Scenario 4 of the spec: a signal for B, and one that A addresses to itself.\<close>

definition signalToB :: "(string \<times> json) list" where
  "signalToB = [(''type'', JStr ''signal''), (''roomType'', JStr ''ip''), (''to'', JStr idB),
                (''payload'', JStr ''x'')]"

definition signalToA :: "(string \<times> json) list" where
  "signalToA = [(''type'', JStr ''signal''), (''roomType'', JStr ''ip''), (''to'', JStr idA),
                (''payload'', JStr ''x'')]"

text \<open>The IP room with A alone, and with B alone.\<close>

definition aloneInIpRoom :: server where
  "aloneInIpRoom = twoPeers\<lparr>rooms := [''10.0.0.1'' \<mapsto> [(idA, 0)]]\<rparr>"

definition onlyBInIpRoom :: server where
  "onlyBInIpRoom = twoPeers\<lparr>rooms := [''10.0.0.1'' \<mapsto> [(idB, 1)]]\<rparr>"

text \<open>B alone in the IP room, its socket closing.\<close>

definition onlyBClosing :: server where
  "onlyBClosing = updatePeer 1 (\<lambda>p. p\<lparr>readyState := 2\<rparr>) onlyBInIpRoom"

text \<open>A and B both occupy the secret rooms S and T (each has sent \<open>room-secrets [S, T]\<close>).\<close>

definition inTwoSecretRooms :: server where
  "inTwoSecretRooms =
     twoPeers\<lparr>rooms := [secretS \<mapsto> [(idA, 0), (idB, 1)], secretT \<mapsto> [(idA, 0), (idB, 1)]],
               heap := (\<lambda>r. if r = 0
                              then (newPeer idA ''10.0.0.1'' JNull True)\<lparr>roomSecrets := [secretS, secretT]\<rparr>
                              else (newPeer idB ''10.0.0.1'' JNull True)\<lparr>roomSecrets := [secretS, secretT]\<rparr>)\<rparr>"

text \<open>
  The chain of keep-alive timeouts of one peer when each timeout fires exactly 2000 ms after
  it was set and no other handler runs in between: the first tick is at \<open>t\<close>, at most \<open>n\<close>
  ticks are run, and the result is the time of the tick after which the peer has no
  keep-alive record any more (the tick that disconnected it and set no further timeout).
\<close>

fun disconnectedAt :: "revision \<Rightarrow> env \<Rightarrow> int \<Rightarrow> ref \<Rightarrow> nat \<Rightarrow> server \<Rightarrow> int option" where
  "disconnectedAt rv e t p 0 \<sigma> = None"
| "disconnectedAt rv e t p (Suc n) \<sigma> =
     (let \<sigma>' = keepAlive rv e t p \<sigma>
      in if keepAliveTimers \<sigma>' (peer_id (heap \<sigma>' p)) = None then Some t
         else disconnectedAt rv e (t + 2000) p n \<sigma>')"

text \<open>A has a keep-alive record: a timeout is pending, the last beat was at time 1000.\<close>

definition beating :: server where
  "beating = twoPeers\<lparr>keepAliveTimers := [idA \<mapsto> \<lparr>timer = Some 0, lastBeat = 1000\<rparr>]\<rparr>"

text \<open>No entry of the room registry is an empty room.\<close>

definition noEmptyRoom :: "server \<Rightarrow> bool" where
  "noEmptyRoom \<sigma> = (\<forall>r. rooms \<sigma> r \<noteq> Some [])"

text \<open>What the handlers read from the outside when nothing special happens.\<close>

definition quiet :: ambient where
  "quiet = \<lparr>dateNow = 1000, rateLimitReached = False, randomString = secretS, randomInts = []\<rparr>"

text \<open>A has connected to a fresh server, and then has joined its IP room.\<close>

definition arrived :: server where
  "arrived = onConnection Rev2 envOn 1000 idA ''10.0.0.1'' JNull True initial"

definition firstJoin :: server where
  "firstJoin = joinIpRoom Rev2 envOn 0 arrived"

text \<open>
  The calls that change the membership of rooms: the join and the leave of each of the
  three kinds of room, and \<^verbatim>\<open>_leaveAllSecretRooms\<close>. A \<open>bool\<close> is the \<^verbatim>\<open>disconnect\<close> flag.
\<close>

datatype roomOp =
    JoinIp ref
  | LeaveIp ref bool
  | JoinSecret ref string
  | LeaveSecret ref string bool
  | LeaveAllSecret ref bool
  | JoinPublic ref string
  | LeavePublic ref bool

fun applyRoomOp :: "revision \<Rightarrow> env \<Rightarrow> roomOp \<Rightarrow> server \<Rightarrow> server" where
  "applyRoomOp rv e (JoinIp p) \<sigma> = joinIpRoom rv e p \<sigma>"
| "applyRoomOp rv e (LeaveIp p d) \<sigma> = leaveIpRoom rv e p d \<sigma>"
| "applyRoomOp rv e (JoinSecret p s) \<sigma> = joinSecretRoom rv e p s \<sigma>"
| "applyRoomOp rv e (LeaveSecret p s d) \<sigma> = leaveSecretRoom rv e p s d \<sigma>"
| "applyRoomOp rv e (LeaveAllSecret p d) \<sigma> = leaveAllSecretRooms rv e p d \<sigma>"
| "applyRoomOp rv e (JoinPublic p r) \<sigma> = joinPublicRoom rv e p r \<sigma>"
| "applyRoomOp rv e (LeavePublic p d) \<sigma> = leavePublicRoom rv e p d \<sigma>"

text \<open>
  The call is made for one of the \<open>n\<close> peers that have connected, with a room secret of
  \<open>S\<close> where it names a secret room and a public room id of \<open>R\<close> where it names a public
  room.
\<close>

fun roomOpTyped :: "string set \<Rightarrow> string set \<Rightarrow> nat \<Rightarrow> roomOp \<Rightarrow> bool" where
  "roomOpTyped S R n (JoinIp p) = (p < n)"
| "roomOpTyped S R n (LeaveIp p d) = (p < n)"
| "roomOpTyped S R n (JoinSecret p s) = (p < n \<and> s \<in> S)"
| "roomOpTyped S R n (LeaveSecret p s d) = (p < n \<and> s \<in> S)"
| "roomOpTyped S R n (LeaveAllSecret p d) = (p < n)"
| "roomOpTyped S R n (JoinPublic p r) = (p < n \<and> r \<in> R)"
| "roomOpTyped S R n (LeavePublic p d) = (p < n)"

text \<open>
  Membership symmetry for the peers that have connected, the secrets \<open>S\<close> and the public
  room ids \<open>R\<close>: no two peers have the same id, no IP address is a secret or a public room
  id, a peer holds only secrets of \<open>S\<close> and a public room id of \<open>R\<close>, and it holds one exactly
  when the registry has its id in that room.
\<close>

definition symmetric :: "string set \<Rightarrow> string set \<Rightarrow> server \<Rightarrow> bool" where
  "symmetric S R \<sigma> =
     (\<forall>p<nextRef \<sigma>.
        (\<forall>q<nextRef \<sigma>. peer_id (heap \<sigma> q) = peer_id (heap \<sigma> p) \<longrightarrow> q = p) \<and>
        ip (heap \<sigma> p) \<notin> S \<union> R \<and>
        set (roomSecrets (heap \<sigma> p)) \<subseteq> S \<and>
        (\<forall>r. publicRoomId (heap \<sigma> p) = Some r \<longrightarrow> r \<in> R) \<and>
        (\<forall>s\<in>S. (s \<in> set (roomSecrets (heap \<sigma> p))) = (lookup \<sigma> s (peer_id (heap \<sigma> p)) \<noteq> None)) \<and>
        (\<forall>r\<in>R. (publicRoomId (heap \<sigma> p) = Some r) = (lookup \<sigma> r (peer_id (heap \<sigma> p)) \<noteq> None)))"

text \<open>The message \<^verbatim>\<open>{type: 'room-secrets', roomSecrets: [S]}\<close>.\<close>

definition roomSecretsMessage :: "(string \<times> json) list" where
  "roomSecretsMessage = [(''type'', JStr ''room-secrets''), (''roomSecrets'', JArr [JStr secretS])]"

text \<open>
  A reconnects while its first socket is still open: A joins the secret room S, a second
  Peer with the id of A connects and joins S as well, then the first one disconnects.
\<close>

definition secretJoined :: server where
  "secretJoined = joinSecretRoom Rev2 envOn 0 secretS arrived"

definition reconnected :: server where
  "reconnected = onConnection Rev2 envOn 1000 idA ''10.0.0.1'' JNull True secretJoined"

definition secretRejoined :: server where
  "secretRejoined = joinSecretRoom Rev2 envOn 1 secretS reconnected"

definition oldGone :: server where
  "oldGone = disconnect Rev2 envOn 0 secretRejoined"

text \<open>A public room id, and a sequence of joins and leaves of the peers A and B.\<close>

definition roomA :: string where
  "roomA = ''abcde''"

definition joinsAndLeaves :: "roomOp list" where
  "joinsAndLeaves =
     [JoinSecret 0 secretS, JoinSecret 1 secretS, JoinPublic 1 roomA, LeaveSecret 0 secretS False]"

section \<open>Basic facts\<close>

lemma emit_simps [simp]:
  "rooms (emit x \<sigma>) = rooms \<sigma>" "pairKeys (emit x \<sigma>) = pairKeys \<sigma>"
  "keepAliveTimers (emit x \<sigma>) = keepAliveTimers \<sigma>" "heap (emit x \<sigma>) = heap \<sigma>"
  "nextRef (emit x \<sigma>) = nextRef \<sigma>" "trace (emit x \<sigma>) = trace \<sigma> @ [x]"
  by (simp_all add: emit_def)

lemma updatePeer_simps [simp]:
  "rooms (updatePeer p f \<sigma>) = rooms \<sigma>" "pairKeys (updatePeer p f \<sigma>) = pairKeys \<sigma>"
  "keepAliveTimers (updatePeer p f \<sigma>) = keepAliveTimers \<sigma>"
  "heap (updatePeer p f \<sigma>) = (heap \<sigma>)(p := f (heap \<sigma> p))"
  "nextRef (updatePeer p f \<sigma>) = nextRef \<sigma>" "trace (updatePeer p f \<sigma>) = trace \<sigma>"
  by (simp_all add: updatePeer_def)

lemma send_Some: "send rv e (Some p) m \<sigma> = (if canSend rv e \<sigma> p then emit (Send p m) \<sigma> else \<sigma>)"
  by (simp add: send_def canSend_def split: revision.splits)

lemma send_None [simp]: "send rv e None m \<sigma> = \<sigma>"
  by (simp add: send_def)

lemma send_simps [simp]:
  "rooms (send rv e p m \<sigma>) = rooms \<sigma>" "pairKeys (send rv e p m \<sigma>) = pairKeys \<sigma>"
  "keepAliveTimers (send rv e p m \<sigma>) = keepAliveTimers \<sigma>" "heap (send rv e p m \<sigma>) = heap \<sigma>"
  "nextRef (send rv e p m \<sigma>) = nextRef \<sigma>"
  by (cases p; simp add: send_Some)+

lemma fold_send_simps [simp]:
  "rooms (fold (\<lambda>k. send rv e (f k) m) ks \<sigma>) = rooms \<sigma>"
  "pairKeys (fold (\<lambda>k. send rv e (f k) m) ks \<sigma>) = pairKeys \<sigma>"
  "keepAliveTimers (fold (\<lambda>k. send rv e (f k) m) ks \<sigma>) = keepAliveTimers \<sigma>"
  "heap (fold (\<lambda>k. send rv e (f k) m) ks \<sigma>) = heap \<sigma>"
  "nextRef (fold (\<lambda>k. send rv e (f k) m) ks \<sigma>) = nextRef \<sigma>"
  by (induction ks arbitrary: \<sigma>; simp)+

lemma leaveRoom_simps [simp]:
  "pairKeys (leaveRoom rv e p t r d \<sigma>) = pairKeys \<sigma>"
  "keepAliveTimers (leaveRoom rv e p t r d \<sigma>) = keepAliveTimers \<sigma>"
  "heap (leaveRoom rv e p t r d \<sigma>) = heap \<sigma>"
  "nextRef (leaveRoom rv e p t r d \<sigma>) = nextRef \<sigma>"
  by (simp_all add: leaveRoom_def Let_def split: option.splits)

lemma notifyPeers_simps [simp]:
  "rooms (notifyPeers rv e p t r \<sigma>) = rooms \<sigma>"
  "pairKeys (notifyPeers rv e p t r \<sigma>) = pairKeys \<sigma>"
  "keepAliveTimers (notifyPeers rv e p t r \<sigma>) = keepAliveTimers \<sigma>"
  "heap (notifyPeers rv e p t r \<sigma>) = heap \<sigma>"
  "nextRef (notifyPeers rv e p t r \<sigma>) = nextRef \<sigma>"
  by (simp_all add: notifyPeers_def Let_def split: option.splits)

lemma joinRoom_simps [simp]:
  "pairKeys (joinRoom rv e p t r \<sigma>) = pairKeys \<sigma>"
  "keepAliveTimers (joinRoom rv e p t r \<sigma>) = keepAliveTimers \<sigma>"
  "heap (joinRoom rv e p t r \<sigma>) = heap \<sigma>"
  "nextRef (joinRoom rv e p t r \<sigma>) = nextRef \<sigma>"
  by (simp_all add: joinRoom_def Let_def split: option.splits)

lemma delete_Nil_map_of: "AList.delete k m = [] \<Longrightarrow> k' \<noteq> k \<Longrightarrow> map_of m k' = None"
  by (metis map_of_delete map_of.simps(1))

lemma delete_absent: "map_of m k = None \<Longrightarrow> AList.delete k m = m"
  by (simp add: map_of_eq_None_iff)

lemma rooms_leaveRoom:
  "rooms (leaveRoom rv e p t r d \<sigma>) =
     (case rooms \<sigma> r of
        None \<Rightarrow> rooms \<sigma>
      | Some room \<Rightarrow>
          if map_of room (peer_id (heap \<sigma> p)) = None then rooms \<sigma>
          else if AList.delete (peer_id (heap \<sigma> p)) room = [] then (rooms \<sigma>)(r := None)
          else (rooms \<sigma>)(r \<mapsto> AList.delete (peer_id (heap \<sigma> p)) room))"
  by (auto simp add: leaveRoom_def Let_def split: option.splits)

lemma lookup_leaveRoom:
  "lookup (leaveRoom rv e p t r d \<sigma>) r' k =
     (if r' = r \<and> k = peer_id (heap \<sigma> p) then None else lookup \<sigma> r' k)"
  by (auto simp add: lookup_def rooms_leaveRoom delete_conv' delete_Nil_map_of split: option.splits)

lemma rooms_joinRoom:
  "rooms (joinRoom rv e p t r \<sigma>) =
     (rooms \<sigma>)(r \<mapsto> AList.update (peer_id (heap \<sigma> p)) p
                      (case rooms \<sigma> r of
                         None \<Rightarrow> []
                       | Some room \<Rightarrow> AList.delete (peer_id (heap \<sigma> p)) room))"
  by (auto simp add: joinRoom_def Let_def rooms_leaveRoom fun_eq_iff delete_absent
           split: option.splits)

lemma lookup_joinRoom:
  "lookup (joinRoom rv e p t r \<sigma>) r' k =
     (if r' = r \<and> k = peer_id (heap \<sigma> p) then Some p else lookup \<sigma> r' k)"
  by (auto simp add: lookup_def rooms_joinRoom update_conv' delete_conv' split: option.splits)

lemma removePairKey_simps [simp]:
  "rooms (removePairKey k \<sigma>) = rooms \<sigma>"
  "keepAliveTimers (removePairKey k \<sigma>) = keepAliveTimers \<sigma>"
  "nextRef (removePairKey k \<sigma>) = nextRef \<sigma>" "trace (removePairKey k \<sigma>) = trace \<sigma>"
  "pairKeys (removePairKey k \<sigma>) = (pairKeys \<sigma>)(k := None)"
  by (auto simp add: removePairKey_def split: option.splits)

lemma heap_removePairKey:
  "heap (removePairKey k \<sigma>) =
     (case pairKeys \<sigma> k of
        None \<Rightarrow> heap \<sigma>
      | Some entry \<Rightarrow> (heap \<sigma>)(snd entry := (heap \<sigma> (snd entry))\<lparr>pairKey := None\<rparr>))"
  by (simp add: removePairKey_def split: option.splits)

lemma peer_fields_removePairKey [simp]:
  "peer_id (heap (removePairKey k \<sigma>) p) = peer_id (heap \<sigma> p)"
  "ip (heap (removePairKey k \<sigma>) p) = ip (heap \<sigma> p)"
  "readyState (heap (removePairKey k \<sigma>) p) = readyState (heap \<sigma> p)"
  "roomSecrets (heap (removePairKey k \<sigma>) p) = roomSecrets (heap \<sigma> p)"
  "publicRoomId (heap (removePairKey k \<sigma>) p) = publicRoomId (heap \<sigma> p)"
  "rtcSupported (heap (removePairKey k \<sigma>) p) = rtcSupported (heap \<sigma> p)"
  "name (heap (removePairKey k \<sigma>) p) = name (heap \<sigma> p)"
  by (simp_all add: heap_removePairKey split: option.splits)

lemma canSend_simps [simp]:
  "canSend rv e (removePairKey k \<sigma>) p = canSend rv e \<sigma> p"
  "canSend rv e (send rv' e' q m \<sigma>) p = canSend rv e \<sigma> p"
  "canSend rv e (emit x \<sigma>) p = canSend rv e \<sigma> p"
  "canSend rv e (leaveRoom rv' e' q' t r d \<sigma>) p = canSend rv e \<sigma> p"
  "canSend rv e (joinRoom rv' e' q' t r \<sigma>) p = canSend rv e \<sigma> p"
  by (simp_all add: canSend_def split: revision.splits)

lemma trace_send_prefix: "\<exists>rest. trace (send rv e p m \<sigma>) = trace \<sigma> @ rest"
  by (cases p) (simp_all add: send_Some)

lemma trace_fold_send_prefix:
  "\<exists>rest. trace (fold (\<lambda>k. send rv e (f k) m) ks \<sigma>) = trace \<sigma> @ rest"
proof (induction ks arbitrary: \<sigma>)
  case Nil
  then show ?case by simp
next
  case (Cons k ks)
  obtain r1 where "trace (send rv e (f k) m \<sigma>) = trace \<sigma> @ r1"
    using trace_send_prefix by blast
  moreover obtain r2 where "trace (fold (\<lambda>k. send rv e (f k) m) ks (send rv e (f k) m \<sigma>))
                              = trace (send rv e (f k) m \<sigma>) @ r2"
    using Cons.IH by blast
  ultimately show ?case by simp
qed

lemma trace_leaveRoom_prefix: "\<exists>rest. trace (leaveRoom rv e p t r d \<sigma>) = trace \<sigma> @ rest"
proof -
  have "\<exists>rest. trace (fold (\<lambda>k. send rv e (f k) m) ks (\<sigma>\<lparr>rooms := R\<rparr>)) = trace \<sigma> @ rest"
    for f m ks R
    using trace_fold_send_prefix [of rv e f m ks "\<sigma>\<lparr>rooms := R\<rparr>"] by simp
  then show ?thesis
    by (auto simp add: leaveRoom_def Let_def split: option.splits)
qed

lemma trace_notifyPeers_prefix: "\<exists>rest. trace (notifyPeers rv e p t r \<sigma>) = trace \<sigma> @ rest"
proof (cases "rooms \<sigma> r")
  case None
  then show ?thesis by (simp add: notifyPeers_def)
next
  case (Some room)
  obtain r1 where
    "trace (fold (\<lambda>k. send rv e (map_of room k) (peerJoinedMsg (getInfo (heap \<sigma> p)) t r))
              (filter (\<lambda>k. k \<noteq> peer_id (heap \<sigma> p)) (map fst room)) \<sigma>) = trace \<sigma> @ r1"
    using trace_fold_send_prefix by blast
  then show ?thesis
    using Some by (simp add: notifyPeers_def Let_def send_Some)
qed

lemma trace_joinRoom_prefix: "\<exists>rest. trace (joinRoom rv e p t r \<sigma>) = trace \<sigma> @ rest"
proof -
  define \<sigma>1 where
    "\<sigma>1 = (if (case rooms \<sigma> r of
                  None \<Rightarrow> False
                | Some room \<Rightarrow> map_of room (peer_id (heap \<sigma> p)) \<noteq> None)
           then leaveRoom rv e p t r False \<sigma> else \<sigma>)"
  define \<sigma>2 where
    "\<sigma>2 = (if rooms \<sigma>1 r = None then \<sigma>1\<lparr>rooms := (rooms \<sigma>1)(r \<mapsto> [])\<rparr> else \<sigma>1)"
  have "\<exists>r1. trace \<sigma>1 = trace \<sigma> @ r1"
    using trace_leaveRoom_prefix [of rv e p t r False \<sigma>] by (simp add: \<sigma>1_def)
  then obtain r1 where 1: "trace \<sigma>1 = trace \<sigma> @ r1" ..
  have 2: "trace \<sigma>2 = trace \<sigma>1"
    by (simp add: \<sigma>2_def)
  obtain r3 where 3: "trace (notifyPeers rv e p t r \<sigma>2) = trace \<sigma>2 @ r3"
    using trace_notifyPeers_prefix by blast
  have "trace (joinRoom rv e p t r \<sigma>) = trace (notifyPeers rv e p t r \<sigma>2)"
    by (simp add: joinRoom_def Let_def \<sigma>1_def \<sigma>2_def split: option.splits)
  then show ?thesis
    using 1 2 3 by simp
qed

lemma asciiString_asciiBytes [simp]: "asciiString (asciiBytes s) = s"
  by (induction s) (simp_all add: asciiString_def asciiBytes_def unat_of_nat)

lemma take_asciiBytes: "take n (asciiBytes s) = asciiBytes (take n s)"
  by (simp add: asciiBytes_def take_map)

lemma drop_asciiBytes: "drop n (asciiBytes s) = asciiBytes (drop n s)"
  by (simp add: asciiBytes_def drop_map)

lemma isValidUuid_idA [simp]: "isValidUuid idA"
  by (simp add: isValidUuid_def uuidClass_def idA_def)

lemma isValidUuid_idB [simp]: "isValidUuid idB"
  by (simp add: isValidUuid_def uuidClass_def idB_def)

lemma idA_neq_idB [simp]: "idA \<noteq> idB" "idB \<noteq> idA"
  by (simp_all add: idA_def idB_def)

lemma helloFrame_parts:
  "asciiString (take 36 helloFrame) = idB"
  "asciiString (take 1 (drop 36 helloFrame)) = ''i''"
  "asciiString (take (Suc 0) (drop 36 helloFrame)) = ''i''"
  "drop 101 helloFrame = asciiBytes ''HELLO''"
  by (simp_all add: helloFrame_def take_asciiBytes drop_asciiBytes idB_def)

section \<open>Binary relay\<close>

text \<open>
  Claim C6. For a binary frame \<open>b\<close> from \<open>sender\<close>: the recipient id is the text of bytes
  0 to 35; the byte at offset 36 selects the room, the sender's IP for \<open>i\<close> and otherwise
  (so for \<open>s\<close>) the trimmed text of bytes 37 to 100. With \<open>wsFallback\<close> enabled, if the
  recipient id is UUID-shaped, the room exists and holds a peer under that id, and that
  peer's socket is open, the peer is sent exactly the bytes from offset 101 on as a binary
  frame and nothing else changes. With \<open>wsFallback\<close> disabled the frame is dropped: the
  server state, trace included, stays as it was.
\<close>

theorem relayBinaryMessage_forwards:
  "(\<not> wsFallback e \<longrightarrow> relayBinaryMessage e sender b \<sigma> = \<sigma>) \<and>
   (wsFallback e \<and> isValidUuid (utf8 e (take 36 b)) \<and>
    lookup \<sigma> (if utf8 e (take 1 (drop 36 b)) = ''i'' then ip (heap \<sigma> sender)
              else trim (utf8 e (take 64 (drop 37 b))))
           (utf8 e (take 36 b)) = Some recipient \<and>
    readyState (heap \<sigma> recipient) = 1
    \<longrightarrow> relayBinaryMessage e sender b \<sigma>
          = \<sigma>\<lparr>trace := trace \<sigma> @ [SendBinary recipient (drop 101 b)]\<rparr>)"
  by (auto simp add: relayBinaryMessage_def slice_def sliceFrom_def Let_def emit_def lookup_def
           split: option.splits)

text \<open>
  Scenario 5 of the spec: A sends the id of B, \<open>i\<close>, 64 zero bytes and \<open>HELLO\<close>; B is sent
  exactly \<open>HELLO\<close>. On an instance without \<open>wsFallback\<close> nothing happens.
\<close>

theorem relayBinaryMessage_forwards_witness:
  "relayBinaryMessage envOff 0 helloFrame inIpRoom = inIpRoom \<and>
   relayBinaryMessage envOn 0 helloFrame inIpRoom
     = inIpRoom\<lparr>trace := [SendBinary 1 (asciiBytes ''HELLO'')]\<rparr>"
proof -
  have off: "\<not> wsFallback envOff"
    by (simp add: envOff_def envOn_def)
  have on: "wsFallback envOn \<and> isValidUuid (utf8 envOn (take 36 helloFrame)) \<and>
            lookup inIpRoom (if utf8 envOn (take 1 (drop 36 helloFrame)) = ''i''
                             then ip (heap inIpRoom 0)
                             else trim (utf8 envOn (take 64 (drop 37 helloFrame))))
                   (utf8 envOn (take 36 helloFrame)) = Some 1 \<and>
            readyState (heap inIpRoom 1) = 1"
    by (simp add: envOn_def helloFrame_parts lookup_def inIpRoom_def twoPeers_def newPeer_def)
  have tr: "trace inIpRoom = []"
    by (simp add: inIpRoom_def twoPeers_def)
  show ?thesis
    using relayBinaryMessage_forwards [of envOff 0 helloFrame inIpRoom] off
          relayBinaryMessage_forwards [of envOn 0 helloFrame inIpRoom 1] on
    by (simp add: helloFrame_parts tr)
qed

section \<open>Pairing\<close>

lemma joinMessage_key [simp]: "propertyKey (map_of joinMessage ''pairKey'') = ''123456''"
  by (simp add: joinMessage_def propertyKey_def)

text \<open>
  Claim C1, as stated: whenever the sender's rate limit is not reached, the directory has an
  entry for the key and the sender is not the entry's creator, the handler sends both the
  sender and the creator a \<open>pair-device-joined\<close> message. It fails in the second class
  definition, whose \<^verbatim>\<open>_send\<close> returns when the socket it is to write to is not open: with the
  socket of the creator A closing (\<open>readyState\<close> 2) and B joining with A's key, A is sent
  nothing.
\<close>

theorem onPairDeviceJoin_pairs_counterexample:
  "pairKeys pairingClosing (propertyKey (map_of joinMessage ''pairKey'')) = Some (secretS, 0) \<and>
   peer_id (heap pairingClosing 1) \<noteq> peer_id (heap pairingClosing 0) \<and>
   receivedBy 0 (trace (onPairDeviceJoin Rev2 envOn False 1 joinMessage pairingClosing)) = []"
  by (simp add: pairingClosing_def pairing_def twoPeers_def newPeer_def onPairDeviceJoin_def Let_def
                removePairKey_def send_def joinSecretRoom_def joinRoom_def notifyPeers_def
                receivedBy_def nullableKey_def emit_def updatePeer_def secretS_def)


text \<open>
  Claim C1, amended: if the sender's rate limit is not reached, the directory maps the key
  to \<open>(roomSecret, creator)\<close>, the sender's id differs from the creator's, and the guard of
  \<^verbatim>\<open>_send\<close> lets messages to the sender and to the creator through (first definition:
  \<^verbatim>\<open>this._wss.readyState\<close> equals \<^verbatim>\<open>this._wss.OPEN\<close>; second: the socket is open), then
  \<^verbatim>\<open>_onPairDeviceJoin\<close> removes the key from the directory, first sends the sender
  \<open>pair-device-joined\<close> with the room secret and the creator's id, then sends the creator
  \<open>pair-device-joined\<close> with the room secret and the sender's id, and joins the sender to
  the secret room: the room holds the sender under its id and the secret is among the
  sender's room secrets.
\<close>

theorem onPairDeviceJoin_pairs:
  assumes entry: "pairKeys \<sigma> (propertyKey (map_of message ''pairKey'')) = Some (roomSecret, creator)"
    and ids: "peer_id (heap \<sigma> sender) \<noteq> peer_id (heap \<sigma> creator)"
    and open_sender: "canSend rv e \<sigma> sender"
    and open_creator: "canSend rv e \<sigma> creator"
  shows "pairKeys (onPairDeviceJoin rv e False sender message \<sigma>)
           (propertyKey (map_of message ''pairKey'')) = None \<and>
         (\<exists>rest. trace (onPairDeviceJoin rv e False sender message \<sigma>)
                   = trace \<sigma> @ [Send sender (pairDeviceJoinedMsg roomSecret (peer_id (heap \<sigma> creator))),
                                 Send creator (pairDeviceJoinedMsg roomSecret (peer_id (heap \<sigma> sender)))]
                       @ rest) \<and>
         lookup (onPairDeviceJoin rv e False sender message \<sigma>) roomSecret (peer_id (heap \<sigma> sender))
           = Some sender \<and>
         roomSecret \<in> set (roomSecrets (heap (onPairDeviceJoin rv e False sender message \<sigma>) sender))"
proof -
  define key where "key = propertyKey (map_of message ''pairKey'')"
  define \<sigma>1 where "\<sigma>1 = removePairKey key \<sigma>"
  define \<sigma>2 where
    "\<sigma>2 = send rv e (Some sender) (pairDeviceJoinedMsg roomSecret (peer_id (heap \<sigma>1 creator))) \<sigma>1"
  define \<sigma>3 where
    "\<sigma>3 = send rv e (Some creator) (pairDeviceJoinedMsg roomSecret (peer_id (heap \<sigma>2 sender))) \<sigma>2"
  define \<sigma>4 where "\<sigma>4 = joinSecretRoom rv e sender roomSecret \<sigma>3"
  define \<sigma>5 where "\<sigma>5 = removePairKey (nullableKey (pairKey (heap \<sigma>4 sender))) \<sigma>4"
  have result: "onPairDeviceJoin rv e False sender message \<sigma> = \<sigma>5"
    using entry ids
    by (simp add: onPairDeviceJoin_def Let_def key_def \<sigma>1_def \<sigma>2_def \<sigma>3_def \<sigma>4_def \<sigma>5_def)
  have c1: "canSend rv e \<sigma>1 sender" "canSend rv e \<sigma>1 creator"
    using open_sender open_creator by (simp_all add: \<sigma>1_def)
  have t2: "trace \<sigma>2
              = trace \<sigma> @ [Send sender (pairDeviceJoinedMsg roomSecret (peer_id (heap \<sigma> creator)))]"
    using c1 by (simp add: \<sigma>2_def send_Some) (simp add: \<sigma>1_def)
  have "canSend rv e \<sigma>2 creator"
    using c1 by (simp add: \<sigma>2_def)
  then have t3: "trace \<sigma>3
                   = trace \<sigma>2 @ [Send creator (pairDeviceJoinedMsg roomSecret (peer_id (heap \<sigma> sender)))]"
    by (simp add: \<sigma>3_def send_Some) (simp add: \<sigma>2_def \<sigma>1_def)
  obtain rest where t4: "trace \<sigma>4 = trace \<sigma>3 @ rest"
    using trace_joinRoom_prefix [of rv e sender "''secret''" roomSecret \<sigma>3]
    by (auto simp add: \<sigma>4_def joinSecretRoom_def)
  have t5: "trace \<sigma>5 = trace \<sigma>4"
    by (simp add: \<sigma>5_def)
  have id3: "peer_id (heap \<sigma>3 sender) = peer_id (heap \<sigma> sender)"
    by (simp add: \<sigma>3_def \<sigma>2_def \<sigma>1_def)
  have l4: "lookup \<sigma>4 roomSecret (peer_id (heap \<sigma> sender)) = Some sender"
    using id3 by (simp add: \<sigma>4_def joinSecretRoom_def lookup_def rooms_joinRoom update_conv')
  have l5: "lookup \<sigma>5 roomSecret (peer_id (heap \<sigma> sender)) = Some sender"
    using l4 by (simp add: \<sigma>5_def lookup_def)
  have r4: "roomSecret \<in> set (roomSecrets (heap \<sigma>4 sender))"
    by (simp add: \<sigma>4_def joinSecretRoom_def addRoomSecret_def)
  have r5: "roomSecret \<in> set (roomSecrets (heap \<sigma>5 sender))"
    using r4 by (simp add: \<sigma>5_def)
  have k5: "pairKeys \<sigma>5 key = None"
    by (simp add: \<sigma>5_def \<sigma>4_def joinSecretRoom_def \<sigma>3_def \<sigma>2_def \<sigma>1_def)
  show ?thesis
    unfolding result using k5 t2 t3 t4 t5 l5 r5 by (simp add: key_def)
qed

text \<open>Scenario 2 of the spec: A has initiated pairing with key 123456, B joins with it.\<close>

theorem onPairDeviceJoin_pairs_witness:
  "pairKeys pairing ''123456'' = Some (secretS, 0) \<and>
   pairKeys (onPairDeviceJoin Rev2 envOn False 1 joinMessage pairing) ''123456'' = None \<and>
   (\<exists>rest. trace (onPairDeviceJoin Rev2 envOn False 1 joinMessage pairing)
             = [Send 1 (pairDeviceJoinedMsg secretS idA), Send 0 (pairDeviceJoinedMsg secretS idB)]
                 @ rest) \<and>
   lookup (onPairDeviceJoin Rev2 envOn False 1 joinMessage pairing) secretS idB = Some 1 \<and>
   secretS \<in> set (roomSecrets (heap (onPairDeviceJoin Rev2 envOn False 1 joinMessage pairing) 1))"
proof -
  have entry: "pairKeys pairing (propertyKey (map_of joinMessage ''pairKey'')) = Some (secretS, 0)"
    by (simp add: pairing_def)
  have ids: "peer_id (heap pairing 1) \<noteq> peer_id (heap pairing 0)"
    by (simp add: pairing_def twoPeers_def newPeer_def)
  have opn: "canSend Rev2 envOn pairing 1" "canSend Rev2 envOn pairing 0"
    by (simp_all add: canSend_def pairing_def twoPeers_def newPeer_def)
  have facts: "trace pairing = []" "peer_id (heap pairing 0) = idA" "peer_id (heap pairing 1) = idB"
    by (simp_all add: pairing_def twoPeers_def newPeer_def)
  show ?thesis
    using onPairDeviceJoin_pairs [OF entry ids opn] entry facts by simp
qed




section \<open>Text relay\<close>

lemma ids_nonempty [simp]: "idA \<noteq> []" "idB \<noteq> []"
  by (simp_all add: idA_def idB_def)

lemma signalAndRelay_lookup:
  "signalAndRelay rv e sender message \<sigma> =
     (if truthyField (map_of message ''to'') \<and> isValidUuid (propertyKey (map_of message ''to''))
      then send rv e
             (lookup \<sigma> (if map_of message ''roomType'' = Some (JStr ''ip'') then ip (heap \<sigma> sender)
                         else propertyKey (map_of message ''roomId''))
                     (propertyKey (map_of message ''to'')))
             (relayed (heap \<sigma> sender) message) \<sigma>
      else \<sigma>)"
  by (cases rv) (auto simp add: signalAndRelay_def Let_def lookup_def split: option.splits)

lemma relayBinaryMessage_lookup:
  "relayBinaryMessage e sender b \<sigma> =
     (if wsFallback e \<and> isValidUuid (utf8 e (take 36 b))
      then (case lookup \<sigma> (if utf8 e (take 1 (drop 36 b)) = ''i'' then ip (heap \<sigma> sender)
                            else trim (utf8 e (take 64 (drop 37 b))))
                        (utf8 e (take 36 b)) of
              None \<Rightarrow> \<sigma>
            | Some recipient \<Rightarrow>
                if readyState (heap \<sigma> recipient) = 1
                then emit (SendBinary recipient (drop 101 b)) \<sigma> else \<sigma>)
      else \<sigma>)"
  by (auto simp add: relayBinaryMessage_def slice_def sliceFrom_def Let_def lookup_def
           split: option.splits)

text \<open>
  Claim C5, as stated: if \<open>to\<close> is a valid id and the resolved room holds a peer under it,
  that recipient receives the message. It fails in the second class definition, whose
  \<^verbatim>\<open>_send\<close> returns when the recipient's socket is not open: A signals B through their IP
  room while the socket of B is closing (\<open>readyState\<close> 2), and nothing is sent.
\<close>

theorem signalAndRelay_forwards_counterexample:
  "truthyField (map_of signalToB ''to'') \<and> isValidUuid (propertyKey (map_of signalToB ''to'')) \<and>
   lookup inIpRoomClosing (ip (heap inIpRoomClosing 0)) (propertyKey (map_of signalToB ''to'')) = Some 1 \<and>
   signalAndRelay Rev2 envOn 0 signalToB inIpRoomClosing = inIpRoomClosing"
  by (simp add: signalAndRelay_lookup signalToB_def truthyField_def propertyKey_def lookup_def
                inIpRoomClosing_def inIpRoom_def twoPeers_def newPeer_def send_Some canSend_def)

text \<open>
  Claim C5, amended: for a signal or relay message from \<open>sender\<close> the target room is the
  sender's IP when \<open>roomType\<close> is \<open>ip\<close> and otherwise the property key of \<open>roomId\<close>. If \<open>to\<close>
  is truthy and UUID-shaped, then: when the room holds a recipient under \<open>to\<close> and the guard
  of \<^verbatim>\<open>_send\<close> lets a message to the recipient through (first definition:
  \<^verbatim>\<open>this._wss.readyState\<close> equals \<^verbatim>\<open>this._wss.OPEN\<close>; second: the recipient's socket is open),
  the only effect is that the recipient is sent the message without its \<open>to\<close> field, with
  the field \<open>sender\<close> set to the sender's id and rtcSupported, and with every other field as
  it was; when the room does not exist or holds nobody under \<open>to\<close>, nothing is sent and
  nothing changes.
\<close>

theorem signalAndRelay_forwards:
  assumes room: "room = (if map_of message ''roomType'' = Some (JStr ''ip'') then ip (heap \<sigma> sender)
                         else propertyKey (map_of message ''roomId''))"
    and to: "truthyField (map_of message ''to'')" "isValidUuid (propertyKey (map_of message ''to''))"
  shows "(lookup \<sigma> room (propertyKey (map_of message ''to'')) = Some recipient \<and>
          canSend rv e \<sigma> recipient \<longrightarrow>
            signalAndRelay rv e sender message \<sigma>
              = \<sigma>\<lparr>trace := trace \<sigma> @ [Send recipient (relayed (heap \<sigma> sender) message)]\<rparr> \<and>
            (\<exists>fields. relayed (heap \<sigma> sender) message = JObj fields \<and>
               map_of fields ''to'' = None \<and>
               map_of fields ''sender''
                 = Some (JObj [(''id'', JStr (peer_id (heap \<sigma> sender))),
                               (''rtcSupported'', JBool (rtcSupported (heap \<sigma> sender)))]) \<and>
               (\<forall>k. k \<noteq> ''to'' \<and> k \<noteq> ''sender'' \<longrightarrow> map_of fields k = map_of message k))) \<and>
         (lookup \<sigma> room (propertyKey (map_of message ''to'')) = None \<longrightarrow>
            signalAndRelay rv e sender message \<sigma> = \<sigma>)"
  using assms
  by (auto simp add: signalAndRelay_lookup send_Some emit_def relayed_def senderTag_def
                     update_conv' delete_conv')

text \<open>
  Scenario 4 of the spec: A signals B through the IP room; and the same signal when B is not
  in the room.
\<close>

theorem signalAndRelay_forwards_witness:
  "signalAndRelay Rev2 envOn 0 signalToB inIpRoom
     = inIpRoom\<lparr>trace := [Send 1 (relayed (heap inIpRoom 0) signalToB)]\<rparr> \<and>
   relayed (heap inIpRoom 0) signalToB
     = JObj [(''type'', JStr ''signal''), (''roomType'', JStr ''ip''), (''payload'', JStr ''x''),
             (''sender'', JObj [(''id'', JStr idA), (''rtcSupported'', JBool True)])] \<and>
   signalAndRelay Rev2 envOn 0 signalToB aloneInIpRoom = aloneInIpRoom"
proof -
  have room: "''10.0.0.1'' = (if map_of signalToB ''roomType'' = Some (JStr ''ip'')
                              then ip (heap inIpRoom 0)
                              else propertyKey (map_of signalToB ''roomId''))"
             "''10.0.0.1'' = (if map_of signalToB ''roomType'' = Some (JStr ''ip'')
                              then ip (heap aloneInIpRoom 0)
                              else propertyKey (map_of signalToB ''roomId''))"
    by (simp_all add: signalToB_def inIpRoom_def aloneInIpRoom_def twoPeers_def newPeer_def)
  have to: "truthyField (map_of signalToB ''to'')" "isValidUuid (propertyKey (map_of signalToB ''to''))"
    by (simp_all add: signalToB_def truthyField_def propertyKey_def)
  have there: "lookup inIpRoom ''10.0.0.1'' (propertyKey (map_of signalToB ''to'')) = Some 1 \<and>
               canSend Rev2 envOn inIpRoom 1"
    by (simp add: signalToB_def propertyKey_def lookup_def inIpRoom_def twoPeers_def canSend_def
                  newPeer_def)
  have absent: "lookup aloneInIpRoom ''10.0.0.1'' (propertyKey (map_of signalToB ''to'')) = None"
    by (simp add: signalToB_def propertyKey_def lookup_def aloneInIpRoom_def twoPeers_def)
  have shape: "relayed (heap inIpRoom 0) signalToB
     = JObj [(''type'', JStr ''signal''), (''roomType'', JStr ''ip''), (''payload'', JStr ''x''),
             (''sender'', JObj [(''id'', JStr idA), (''rtcSupported'', JBool True)])]"
    by (simp add: relayed_def senderTag_def signalToB_def inIpRoom_def twoPeers_def newPeer_def)
  have tr: "trace inIpRoom = []"
    by (simp add: inIpRoom_def twoPeers_def)
  show ?thesis
    using signalAndRelay_forwards [OF room(1) to, of 1 Rev2 envOn] there
          signalAndRelay_forwards [OF room(2) to, of 1 Rev2 envOn] absent shape tr
    by simp
qed

section \<open>Relay and the sender's own membership\<close>

text \<open>
  Claim C10, as stated: two server states that differ only in the sender's membership of
  the target room produce the same relay output. It fails for a message the sender
  addresses to itself: A, alone in its IP room, signals its own id and is sent the message;
  without A in the room (the room is then absent) nothing is sent.
\<close>

theorem relay_sender_membership_counterexample:
  "aloneInIpRoom = twoPeers\<lparr>rooms := [''10.0.0.1'' \<mapsto> [(idA, 0)]]\<rparr> \<and>
   peer_id (heap twoPeers 0) = idA \<and>
   trace (signalAndRelay Rev1 envOn 0 signalToA aloneInIpRoom)
     = [Send 0 (relayed (heap twoPeers 0) signalToA)] \<and>
   trace (signalAndRelay Rev1 envOn 0 signalToA twoPeers) = []"
  by (simp add: signalAndRelay_lookup signalToA_def truthyField_def propertyKey_def lookup_def
                aloneInIpRoom_def twoPeers_def newPeer_def send_Some canSend_def envOn_def)

text \<open>
  Claim C10, amended: let two server states have the same peers and the same trace, and let
  every room hold the same Peer under every id other than the sender's (so the states
  differ at most in where the sender is a member). Then a text relay whose \<open>to\<close> is not
  the sender's own id appends the same to the trace in both states, and so does a binary
  relay whose recipient id is not the sender's own id: neither \<^verbatim>\<open>_signalAndRelay\<close> nor
  \<^verbatim>\<open>_relayBinaryMessage\<close> tests that the sender occupies the room.
\<close>

theorem relay_sender_membership:
  assumes same: "heap \<sigma>1 = heap \<sigma>2" "trace \<sigma>1 = trace \<sigma>2"
    and others: "\<forall>r k. k \<noteq> peer_id (heap \<sigma>1 sender) \<longrightarrow> lookup \<sigma>1 r k = lookup \<sigma>2 r k"
  shows "(propertyKey (map_of message ''to'') \<noteq> peer_id (heap \<sigma>1 sender) \<longrightarrow>
            trace (signalAndRelay rv e sender message \<sigma>1)
              = trace (signalAndRelay rv e sender message \<sigma>2)) \<and>
         (utf8 e (take 36 b) \<noteq> peer_id (heap \<sigma>1 sender) \<longrightarrow>
            trace (relayBinaryMessage e sender b \<sigma>1) = trace (relayBinaryMessage e sender b \<sigma>2))"
proof -
  have canSend_eq: "canSend rv e \<sigma>1 p = canSend rv e \<sigma>2 p" for p
    using same by (simp add: canSend_def split: revision.splits)
  have send_eq: "trace (send rv e q m \<sigma>1) = trace (send rv e q m \<sigma>2)" for q m
    using same canSend_eq by (cases q) (simp_all add: send_Some)
  show ?thesis
    using same others send_eq
    by (auto simp add: signalAndRelay_lookup relayBinaryMessage_lookup split: option.splits)
qed


text \<open>A relays to B, once from inside the IP room and once from outside.\<close>

theorem relay_sender_membership_witness:
  "trace (signalAndRelay Rev2 envOn 0 signalToB inIpRoom)
     = trace (signalAndRelay Rev2 envOn 0 signalToB onlyBInIpRoom) \<and>
   trace (relayBinaryMessage envOn 0 helloFrame inIpRoom)
     = trace (relayBinaryMessage envOn 0 helloFrame onlyBInIpRoom)"
proof -
  have same: "heap inIpRoom = heap onlyBInIpRoom" "trace inIpRoom = trace onlyBInIpRoom"
    by (simp_all add: inIpRoom_def onlyBInIpRoom_def)
  have others: "\<forall>r k. k \<noteq> peer_id (heap inIpRoom 0) \<longrightarrow> lookup inIpRoom r k = lookup onlyBInIpRoom r k"
    by (simp add: lookup_def inIpRoom_def onlyBInIpRoom_def twoPeers_def newPeer_def)
  have to: "propertyKey (map_of signalToB ''to'') \<noteq> peer_id (heap inIpRoom 0)"
           "utf8 envOn (take 36 helloFrame) \<noteq> peer_id (heap inIpRoom 0)"
    by (simp_all add: signalToB_def propertyKey_def inIpRoom_def twoPeers_def newPeer_def envOn_def
                      helloFrame_parts)
  show ?thesis
    using relay_sender_membership [OF same others, of signalToB Rev2 envOn helloFrame] to by simp
qed

section \<open>Joining a room again\<close>

lemma receivedBy_append [simp]: "receivedBy p (xs @ ys) = receivedBy p xs @ receivedBy p ys"
  by (simp add: receivedBy_def)

lemma receivedBy_Nil [simp]: "receivedBy p [] = []"
  by (simp add: receivedBy_def)

lemma receivedBy_Send [simp]: "receivedBy p [Send q m] = (if q = p then [m] else [])"
  by (simp add: receivedBy_def)

lemma receivedBy_send:
  "receivedBy p (trace (send rv e q m \<sigma>))
     = receivedBy p (trace \<sigma>) @ (if q = Some p \<and> canSend rv e \<sigma> p then [m] else [])"
  by (cases q) (auto simp add: send_Some)

lemma canSend_fold_send [simp]:
  "canSend rv e (fold (\<lambda>k. send rv' e' (f k) m) ks \<sigma>) p = canSend rv e \<sigma> p"
  by (simp add: canSend_def split: revision.splits)

lemma receivedBy_fold_send:
  "receivedBy p (trace (fold (\<lambda>k. send rv e (f k) m) ks \<sigma>))
     = receivedBy p (trace \<sigma>)
       @ (if canSend rv e \<sigma> p then replicate (length (filter (\<lambda>k. f k = Some p) ks)) m else [])"
proof (induction ks arbitrary: \<sigma>)
  case Nil
  then show ?case by simp
next
  case (Cons k ks)
  show ?case
    by (cases "canSend rv e \<sigma> p"; cases "f k = Some p")
       (simp_all add: Cons.IH receivedBy_send)
qed

lemma filter_eq_single: "distinct ks \<Longrightarrow> k0 \<in> set ks \<Longrightarrow> filter (\<lambda>k. k = k0) ks = [k0]"
proof (induction ks)
  case Nil
  then show ?case by simp
next
  case (Cons k ks)
  show ?case
  proof (cases "k = k0")
    case True
    then have "k0 \<notin> set ks"
      using Cons.prems by simp
    then have "filter (\<lambda>k. k = k0) ks = []"
      by (auto simp add: filter_empty_conv)
    then show ?thesis
      using True by simp
  next
    case False
    then show ?thesis
      using Cons by simp
  qed
qed

lemma filter_unique_key:
  assumes "distinct ks" "k0 \<in> set ks" "\<And>k. P k \<Longrightarrow> k = k0" "P k0"
  shows "length (filter P ks) = 1"
proof -
  have "P = (\<lambda>k. k = k0)"
    using assms(3,4) by (intro ext) blast
  then show ?thesis
    using filter_eq_single [OF assms(1,2)] by simp
qed

lemma receivedBy_fold_send_once:
  assumes "distinct ks" "kO \<in> set ks" "\<And>k. f k = Some p \<Longrightarrow> k = kO" "f kO = Some p"
    and "canSend rv e \<sigma> p"
  shows "receivedBy p (trace (fold (\<lambda>k. send rv e (f k) m) ks \<sigma>)) = receivedBy p (trace \<sigma>) @ [m]"
proof -
  have "length (filter (\<lambda>k. f k = Some p) ks) = 1"
    using assms(1,2) by (rule filter_unique_key) (use assms(3,4) in blast)+
  then show ?thesis
    using assms(5) by (simp add: receivedBy_fold_send)
qed

lemma receivedBy_leaveRoom:
  assumes room: "rooms \<sigma> R = Some room" "distinct (map fst room)"
    and member: "map_of room (peer_id (heap \<sigma> P)) \<noteq> None"
    and other: "map_of room kO = Some other" "\<forall>k. map_of room k = Some other \<longrightarrow> k = kO"
               "kO \<noteq> peer_id (heap \<sigma> P)"
    and opn: "canSend rv e \<sigma> other"
  shows "receivedBy other (trace (leaveRoom rv e P t R d \<sigma>))
           = receivedBy other (trace \<sigma>) @ [peerLeftMsg (peer_id (heap \<sigma> P)) t R d]"
proof -
  define room' where "room' = AList.delete (peer_id (heap \<sigma> P)) room"
  define \<sigma>' where "\<sigma>' = \<sigma>\<lparr>rooms := (rooms \<sigma>)(R \<mapsto> room')\<rparr>"
  have there: "map_of room' kO = Some other"
    using other(1,3) by (simp add: room'_def)
  have nonempty: "room' \<noteq> []"
  proof
    assume "room' = []"
    then show False using there by simp
  qed
  have keys: "distinct (map fst room')" "kO \<in> set (map fst room')"
    using room(2) there by (force simp add: room'_def distinct_delete dest: map_of_SomeD)+
  have "map_of room k = Some other" if "map_of room' k = Some other" for k
    using that by (simp add: room'_def delete_conv' split: if_splits)
  then have uniq: "k = kO" if "map_of room' k = Some other" for k
    using that other(2) by blast
  have "canSend rv e \<sigma>' other"
    using opn by (simp add: \<sigma>'_def canSend_def split: revision.splits)
  then have "receivedBy other
               (trace (fold (\<lambda>k. send rv e (map_of room' k) (peerLeftMsg (peer_id (heap \<sigma> P)) t R d))
                         (map fst room') \<sigma>'))
             = receivedBy other (trace \<sigma>') @ [peerLeftMsg (peer_id (heap \<sigma> P)) t R d]"
    using keys uniq there by (intro receivedBy_fold_send_once) blast+
  moreover have "leaveRoom rv e P t R d \<sigma>
                   = fold (\<lambda>k. send rv e (map_of room' k) (peerLeftMsg (peer_id (heap \<sigma> P)) t R d))
                       (map fst room') \<sigma>'"
    using room(1) member nonempty by (auto simp add: leaveRoom_def Let_def room'_def \<sigma>'_def)
  ultimately show ?thesis
    by (simp add: \<sigma>'_def)
qed

lemma receivedBy_notifyPeers:
  assumes room: "rooms \<sigma> R = Some room" "distinct (map fst room)"
    and other: "map_of room kO = Some other" "\<forall>k. map_of room k = Some other \<longrightarrow> k = kO"
               "kO \<noteq> peer_id (heap \<sigma> P)" "other \<noteq> P"
    and opn: "canSend rv e \<sigma> other"
  shows "receivedBy other (trace (notifyPeers rv e P t R \<sigma>))
           = receivedBy other (trace \<sigma>) @ [peerJoinedMsg (getInfo (heap \<sigma> P)) t R]"
proof -
  define others where "others = filter (\<lambda>k. k \<noteq> peer_id (heap \<sigma> P)) (map fst room)"
  have keys: "distinct others" "kO \<in> set others"
    using room(2) other(1,3) by (force simp add: others_def dest: map_of_SomeD)+
  have "receivedBy other
          (trace (fold (\<lambda>k. send rv e (map_of room k) (peerJoinedMsg (getInfo (heap \<sigma> P)) t R))
                    others \<sigma>))
        = receivedBy other (trace \<sigma>) @ [peerJoinedMsg (getInfo (heap \<sigma> P)) t R]"
    using keys other(1,2) opn by (intro receivedBy_fold_send_once) blast+
  then show ?thesis
    using room(1) other(4) by (simp add: notifyPeers_def Let_def others_def receivedBy_send)
qed


lemma member_lookup:
  "(case rooms \<sigma> r of None \<Rightarrow> False | Some room \<Rightarrow> map_of room k \<noteq> None) = (lookup \<sigma> r k \<noteq> None)"
  by (simp add: lookup_def split: option.splits)

lemma leaveRoom_absent: "lookup \<sigma> r (peer_id (heap \<sigma> p)) = None \<Longrightarrow> leaveRoom rv e p t r d \<sigma> = \<sigma>"
  by (auto simp add: leaveRoom_def lookup_def split: option.splits)

lemma joinRoom_after_leaveRoom:
  "joinRoom rv e p t r (leaveRoom rv e p t r False \<sigma>) = joinRoom rv e p t r \<sigma>"
proof -
  have "(if lookup (leaveRoom rv e p t r False \<sigma>) r (peer_id (heap \<sigma> p)) \<noteq> None
         then leaveRoom rv e p t r False (leaveRoom rv e p t r False \<sigma>)
         else leaveRoom rv e p t r False \<sigma>)
        = (if lookup \<sigma> r (peer_id (heap \<sigma> p)) \<noteq> None then leaveRoom rv e p t r False \<sigma> else \<sigma>)"
    by (simp add: lookup_leaveRoom leaveRoom_absent)
  then show ?thesis
    by (simp add: joinRoom_def member_lookup)
qed

lemma trace_joinRoom:
  "trace (joinRoom rv e p t r \<sigma>)
     = trace (notifyPeers rv e p t r
               (let \<sigma>1 = (if lookup \<sigma> r (peer_id (heap \<sigma> p)) \<noteq> None
                           then leaveRoom rv e p t r False \<sigma> else \<sigma>)
                in if rooms \<sigma>1 r = None then \<sigma>1\<lparr>rooms := (rooms \<sigma>1)(r \<mapsto> [])\<rparr> else \<sigma>1))"
  by (simp add: joinRoom_def member_lookup Let_def split: option.splits)

lemma receivedBy_joinRoom:
  assumes room: "rooms \<sigma> R = Some room" "distinct (map fst room)"
    and other: "map_of room kO = Some other" "\<forall>k. map_of room k = Some other \<longrightarrow> k = kO"
               "kO \<noteq> peer_id (heap \<sigma> P)" "other \<noteq> P"
    and opn: "canSend rv e \<sigma> other"
  shows "receivedBy other (trace (joinRoom rv e P t R \<sigma>))
           = receivedBy other (trace \<sigma>)
             @ (if map_of room (peer_id (heap \<sigma> P)) \<noteq> None
                then [peerLeftMsg (peer_id (heap \<sigma> P)) t R False] else [])
             @ [peerJoinedMsg (getInfo (heap \<sigma> P)) t R]"
proof (cases "map_of room (peer_id (heap \<sigma> P)) = None")
  case True
  then have "lookup \<sigma> R (peer_id (heap \<sigma> P)) = None"
    using room(1) by (simp add: lookup_def)
  then have "trace (joinRoom rv e P t R \<sigma>) = trace (notifyPeers rv e P t R \<sigma>)"
    using room(1) by (simp add: trace_joinRoom)
  then show ?thesis
    using True receivedBy_notifyPeers [OF room other opn] by simp
next
  case False
  define room' where "room' = AList.delete (peer_id (heap \<sigma> P)) room"
  define \<sigma>1 where "\<sigma>1 = leaveRoom rv e P t R False \<sigma>"
  have there: "map_of room' kO = Some other"
    using other(1,3) by (simp add: room'_def)
  have nonempty: "room' \<noteq> []"
  proof
    assume "room' = []"
    then show False using there by simp
  qed
  have rooms1: "rooms \<sigma>1 R = Some room'"
    using room(1) False nonempty by (auto simp add: \<sigma>1_def rooms_leaveRoom room'_def)
  have dist1: "distinct (map fst room')"
    using room(2) by (simp add: room'_def distinct_delete)
  have "map_of room k = Some other" if "map_of room' k = Some other" for k
    using that by (simp add: room'_def delete_conv' split: if_splits)
  then have uniq1: "\<forall>k. map_of room' k = Some other \<longrightarrow> k = kO"
    using other(2) by blast
  have heap1: "heap \<sigma>1 = heap \<sigma>"
    by (simp add: \<sigma>1_def)
  have opn1: "canSend rv e \<sigma>1 other"
    using opn by (simp add: \<sigma>1_def)
  have left: "receivedBy other (trace \<sigma>1)
                = receivedBy other (trace \<sigma>) @ [peerLeftMsg (peer_id (heap \<sigma> P)) t R False]"
    unfolding \<sigma>1_def using False by (intro receivedBy_leaveRoom [OF room _ other(1,2,3) opn]) simp
  have joined: "receivedBy other (trace (notifyPeers rv e P t R \<sigma>1))
                  = receivedBy other (trace \<sigma>1) @ [peerJoinedMsg (getInfo (heap \<sigma> P)) t R]"
    using receivedBy_notifyPeers [OF rooms1 dist1 there uniq1 _ other(4) opn1, of t] other(3)
    by (simp add: heap1)
  have "lookup \<sigma> R (peer_id (heap \<sigma> P)) \<noteq> None"
    using room(1) False by (simp add: lookup_def)
  then have "trace (joinRoom rv e P t R \<sigma>) = trace (notifyPeers rv e P t R \<sigma>1)"
    using rooms1 by (simp add: trace_joinRoom \<sigma>1_def)
  then show ?thesis
    using False left joined by simp
qed

text \<open>
  Claim C2, as stated: any other occupant of the room receives \<open>peer-joined\<close>, \<open>peer-left\<close>,
  \<open>peer-joined\<close> across a peer's join and re-join. It fails in the second class definition,
  whose \<^verbatim>\<open>_send\<close> returns when the socket it is to write to is not open: B occupies the IP
  room with its socket closing, A joins twice, and B is sent nothing.
\<close>

theorem joinRoom_rejoin_counterexample:
  "lookup onlyBClosing ''10.0.0.1'' idB = Some 1 \<and> lookup onlyBClosing ''10.0.0.1'' idA = None \<and>
   peer_id (heap onlyBClosing 0) = idA \<and>
   receivedBy 1 (trace (joinRoom Rev2 envOn 0 ''ip'' ''10.0.0.1''
                         (joinRoom Rev2 envOn 0 ''ip'' ''10.0.0.1'' onlyBClosing))) = []"
  by (simp add: onlyBClosing_def onlyBInIpRoom_def twoPeers_def newPeer_def lookup_def
                joinRoom_def leaveRoom_def notifyPeers_def Let_def send_def emit_def updatePeer_def
                receivedBy_def)

text \<open>
  Claim C2, amended: let room \<open>R\<close> hold the observer \<open>obs\<close> under its id and under no other
  key, and let the peer \<open>P\<close> not be a member. If the guard of \<^verbatim>\<open>_send\<close> lets messages to the
  observer through (first definition: \<^verbatim>\<open>this._wss.readyState\<close> equals \<^verbatim>\<open>this._wss.OPEN\<close>;
  second: the observer's socket is open), then \<open>join(P, R)\<close> followed by a second
  \<open>join(P, R)\<close> adds to what the observer is sent exactly \<open>peer-joined(P)\<close>, \<open>peer-left(P)\<close>
  with \<open>disconnect\<close> false, \<open>peer-joined(P)\<close>, in this order; and the second join is the
  join performed after \<open>leave(P, R)\<close>.
\<close>

theorem joinRoom_rejoin:
  assumes room: "rooms \<sigma> R = Some room" "distinct (map fst room)"
    and observer: "map_of room (peer_id (heap \<sigma> obs)) = Some obs"
                  "\<forall>k. map_of room k = Some obs \<longrightarrow> k = peer_id (heap \<sigma> obs)"
    and newcomer: "map_of room (peer_id (heap \<sigma> P)) = None"
    and opn: "canSend rv e \<sigma> obs"
  shows "receivedBy obs (trace (joinRoom rv e P t R (joinRoom rv e P t R \<sigma>)))
           = receivedBy obs (trace \<sigma>)
             @ [peerJoinedMsg (getInfo (heap \<sigma> P)) t R,
                peerLeftMsg (peer_id (heap \<sigma> P)) t R False,
                peerJoinedMsg (getInfo (heap \<sigma> P)) t R] \<and>
         joinRoom rv e P t R (joinRoom rv e P t R \<sigma>)
           = joinRoom rv e P t R (leaveRoom rv e P t R False (joinRoom rv e P t R \<sigma>))"
proof -
  define idP where "idP = peer_id (heap \<sigma> P)"
  define idO where "idO = peer_id (heap \<sigma> obs)"
  define \<sigma>1 where "\<sigma>1 = joinRoom rv e P t R \<sigma>"
  define room1 where "room1 = AList.update idP P room"
  have ids: "idO \<noteq> idP"
    using observer(1) newcomer by (auto simp add: idO_def idP_def)
  have refs: "obs \<noteq> P"
    using observer(1) newcomer by auto
  have first: "receivedBy obs (trace \<sigma>1)
                 = receivedBy obs (trace \<sigma>) @ [peerJoinedMsg (getInfo (heap \<sigma> P)) t R]"
    unfolding \<sigma>1_def
    using receivedBy_joinRoom [OF room observer _ refs opn, of t] ids newcomer
    by (simp add: idO_def idP_def)
  have rooms1: "rooms \<sigma>1 R = Some room1"
    using room(1) newcomer
    by (simp add: \<sigma>1_def rooms_joinRoom room1_def idP_def delete_absent)
  have dist1: "distinct (map fst room1)"
    using room(2) by (simp add: room1_def distinct_update)
  have there1: "map_of room1 idO = Some obs"
    using observer(1) ids by (simp add: room1_def update_conv' idO_def)
  have "map_of room k = Some obs" if "map_of room1 k = Some obs" for k
    using that refs by (simp add: room1_def update_conv' split: if_splits)
  then have uniq1: "\<forall>k. map_of room1 k = Some obs \<longrightarrow> k = idO"
    using observer(2) by (auto simp add: idO_def)
  have heap1: "heap \<sigma>1 = heap \<sigma>"
    by (simp add: \<sigma>1_def)
  have opn1: "canSend rv e \<sigma>1 obs"
    using opn by (simp add: \<sigma>1_def)
  have member1: "map_of room1 idP \<noteq> None"
    by (simp add: room1_def update_conv')
  have second: "receivedBy obs (trace (joinRoom rv e P t R \<sigma>1))
                  = receivedBy obs (trace \<sigma>1)
                    @ [peerLeftMsg idP t R False] @ [peerJoinedMsg (getInfo (heap \<sigma> P)) t R]"
    using receivedBy_joinRoom [OF rooms1 dist1 there1 uniq1 _ refs opn1, of t] ids member1
    by (simp add: heap1 idP_def)
  show ?thesis
    using first second by (simp add: \<sigma>1_def idP_def joinRoom_after_leaveRoom)
qed

text \<open>B is in the IP room, A joins it twice.\<close>

theorem joinRoom_rejoin_witness:
  "receivedBy 1 (trace (joinRoom Rev2 envOn 0 ''ip'' ''10.0.0.1''
                         (joinRoom Rev2 envOn 0 ''ip'' ''10.0.0.1'' onlyBInIpRoom)))
     = [peerJoinedMsg (getInfo (heap onlyBInIpRoom 0)) ''ip'' ''10.0.0.1'',
        peerLeftMsg idA ''ip'' ''10.0.0.1'' False,
        peerJoinedMsg (getInfo (heap onlyBInIpRoom 0)) ''ip'' ''10.0.0.1'']"
proof -
  have room: "rooms onlyBInIpRoom ''10.0.0.1'' = Some [(idB, 1)]" "distinct (map fst [(idB, 1::nat)])"
    by (simp_all add: onlyBInIpRoom_def)
  have ids: "peer_id (heap onlyBInIpRoom 0) = idA" "peer_id (heap onlyBInIpRoom 1) = idB"
            "peer_id (heap onlyBInIpRoom (Suc 0)) = idB"
    by (simp_all add: onlyBInIpRoom_def twoPeers_def newPeer_def)
  have observer: "map_of [(idB, 1::nat)] (peer_id (heap onlyBInIpRoom 1)) = Some 1"
                 "\<forall>k. map_of [(idB, 1::nat)] k = Some 1 \<longrightarrow> k = peer_id (heap onlyBInIpRoom 1)"
    by (simp_all add: ids)
  have newcomer: "map_of [(idB, 1::nat)] (peer_id (heap onlyBInIpRoom 0)) = None"
    by (simp add: ids)
  have opn: "canSend Rev2 envOn onlyBInIpRoom 1"
    by (simp add: canSend_def onlyBInIpRoom_def twoPeers_def newPeer_def)
  have tr: "trace onlyBInIpRoom = []"
    by (simp add: onlyBInIpRoom_def twoPeers_def)
  show ?thesis
    using joinRoom_rejoin [OF room observer newcomer opn, of "''ip''", THEN conjunct1] ids tr
    by simp
qed

section \<open>Disconnect\<close>

lemma secrets_distinct [simp]: "secretS \<noteq> secretT" "secretT \<noteq> secretS"
  by (simp_all add: secretS_def secretT_def)

lemma leaveSecretRoom_simps [simp]:
  "pairKeys (leaveSecretRoom rv e p s d \<sigma>) = pairKeys \<sigma>"
  "keepAliveTimers (leaveSecretRoom rv e p s d \<sigma>) = keepAliveTimers \<sigma>"
  "nextRef (leaveSecretRoom rv e p s d \<sigma>) = nextRef \<sigma>"
  "heap (leaveSecretRoom rv e p s d \<sigma>) = (heap \<sigma>)(p := removeRoomSecret s (heap \<sigma> p))"
  "rooms (leaveSecretRoom rv e p s d \<sigma>) = rooms (leaveRoom rv e p ''secret'' s d \<sigma>)"
  "trace (leaveSecretRoom rv e p s d \<sigma>) = trace (leaveRoom rv e p ''secret'' s d \<sigma>)"
  by (simp_all add: leaveSecretRoom_def)

lemma removeRoomSecret_fields [simp]:
  "peer_id (removeRoomSecret s p) = peer_id p" "ip (removeRoomSecret s p) = ip p"
  "readyState (removeRoomSecret s p) = readyState p"
  "publicRoomId (removeRoomSecret s p) = publicRoomId p" "pairKey (removeRoomSecret s p) = pairKey p"
  "roomSecrets (removeRoomSecret s p) = removeAll s (roomSecrets p)"
  by (simp_all add: removeRoomSecret_def)

lemma leaveAllSecretRooms_two:
  assumes "roomSecrets (heap \<sigma> p) = [a, b]" "a \<noteq> b"
  shows "leaveAllSecretRooms rv e p d \<sigma> = leaveSecretRoom rv e p a d \<sigma>"
proof -
  have after: "roomSecrets (heap (leaveSecretRoom rv e p a d \<sigma>) p) = [b]"
    using assms by simp
  have "leaveAllSecretRoomsFrom rv e 0 p d \<sigma>
          = leaveAllSecretRoomsFrom rv e 1 p d (leaveSecretRoom rv e p a d \<sigma>)"
    using assms(1) by (subst leaveAllSecretRoomsFrom.simps) simp
  also have "\<dots> = leaveSecretRoom rv e p a d \<sigma>"
    using after by (subst leaveAllSecretRoomsFrom.simps) simp
  finally show ?thesis
    by (simp add: leaveAllSecretRooms_def)
qed

lemma ip_not_secret [simp]:
  "''10.0.0.1'' \<noteq> secretS" "''10.0.0.1'' \<noteq> secretT"
  "secretS \<noteq> ''10.0.0.1''" "secretT \<noteq> ''10.0.0.1''"
proof -
  have "length ''10.0.0.1'' \<noteq> length secretS" "length ''10.0.0.1'' \<noteq> length secretT"
    by (simp_all add: secretS_def secretT_def)
  then show "''10.0.0.1'' \<noteq> secretS" "''10.0.0.1'' \<noteq> secretT"
    "secretS \<noteq> ''10.0.0.1''" "secretT \<noteq> ''10.0.0.1''"
    by metis+
qed

lemma canSend_updates [simp]:
  "canSend rv e (\<sigma>\<lparr>rooms := R\<rparr>) p = canSend rv e \<sigma> p"
  "canSend rv e (\<sigma>\<lparr>pairKeys := K\<rparr>) p = canSend rv e \<sigma> p"
  "canSend rv e (\<sigma>\<lparr>keepAliveTimers := T\<rparr>) p = canSend rv e \<sigma> p"
  "canSend rv e (\<sigma>\<lparr>trace := es\<rparr>) p = canSend rv e \<sigma> p"
  by (simp_all add: canSend_def split: revision.splits)

lemma leavePublicRoom_none: "publicRoomId (heap \<sigma> p) = None \<Longrightarrow> leavePublicRoom rv e p d \<sigma> = \<sigma>"
  by (simp add: leavePublicRoom_def)

lemma disconnect_inTwoSecretRooms:
  "lookup (disconnect rv envOn 0 inTwoSecretRooms) secretT idA = Some 0 \<and>
   roomSecrets (heap (disconnect rv envOn 0 inTwoSecretRooms) 0) = [secretT] \<and>
   trace (disconnect rv envOn 0 inTwoSecretRooms)
     = [Send 1 (peerLeftMsg idA ''secret'' secretS True), Terminate 0]"
proof -
  define \<sigma>1 where "\<sigma>1 = removePairKey (nullableKey (pairKey (heap inTwoSecretRooms 0))) inTwoSecretRooms"
  define \<sigma>2 where "\<sigma>2 = updatePeer 0 (\<lambda>p. p\<lparr>pairKey := None\<rparr>) \<sigma>1"
  define \<sigma>3 where "\<sigma>3 = cancelKeepAlive 0 \<sigma>2"
  define \<sigma>4 where "\<sigma>4 = \<sigma>3\<lparr>keepAliveTimers := (keepAliveTimers \<sigma>3)(peer_id (heap \<sigma>3 0) := None)\<rparr>"
  define \<sigma>5 where "\<sigma>5 = leaveIpRoom rv envOn 0 True \<sigma>4"
  define \<sigma>6 where "\<sigma>6 = leaveAllSecretRooms rv envOn 0 True \<sigma>5"
  define \<sigma>7 where "\<sigma>7 = leavePublicRoom rv envOn 0 True \<sigma>6"
  have s1: "\<sigma>1 = inTwoSecretRooms"
    by (simp add: \<sigma>1_def removePairKey_def inTwoSecretRooms_def twoPeers_def)
  have s3: "\<sigma>3 = \<sigma>2"
    by (simp add: \<sigma>3_def \<sigma>2_def s1 cancelKeepAlive_def inTwoSecretRooms_def twoPeers_def)
  have rooms4: "rooms \<sigma>4 = [secretS \<mapsto> [(idA, 0), (idB, 1)], secretT \<mapsto> [(idA, 0), (idB, 1)]]"
    by (simp add: \<sigma>4_def s3 \<sigma>2_def s1 inTwoSecretRooms_def)
  have peers4: "peer_id (heap \<sigma>4 0) = idA" "ip (heap \<sigma>4 0) = ''10.0.0.1''"
    "roomSecrets (heap \<sigma>4 0) = [secretS, secretT]" "publicRoomId (heap \<sigma>4 0) = None"
    "readyState (heap \<sigma>4 0) = 1" "readyState (heap \<sigma>4 1) = 1" "trace \<sigma>4 = []"
    by (simp_all add: \<sigma>4_def s3 \<sigma>2_def s1 inTwoSecretRooms_def twoPeers_def newPeer_def)
  have "lookup \<sigma>4 ''10.0.0.1'' idA = None"
    by (simp add: lookup_def rooms4)
  then have s5: "\<sigma>5 = \<sigma>4"
    by (simp add: \<sigma>5_def leaveIpRoom_def peers4 leaveRoom_absent)
  have s6: "\<sigma>6 = leaveSecretRoom rv envOn 0 secretS True \<sigma>4"
    unfolding \<sigma>6_def s5 using peers4(3) by (rule leaveAllSecretRooms_two) simp
  have can: "canSend rv envOn \<sigma>4 1"
    using peers4(6) by (simp add: canSend_def envOn_def split: revision.splits)
  have left: "leaveRoom rv envOn 0 ''secret'' secretS True \<sigma>4
                = emit (Send 1 (peerLeftMsg idA ''secret'' secretS True))
                    (\<sigma>4\<lparr>rooms := (rooms \<sigma>4)(secretS \<mapsto> [(idB, 1)])\<rparr>)"
    using can peers4(1) by (simp add: leaveRoom_def rooms4 send_Some Let_def)
  have obs6: "trace \<sigma>6 = [Send 1 (peerLeftMsg idA ''secret'' secretS True)]"
    "lookup \<sigma>6 secretT idA = Some 0" "roomSecrets (heap \<sigma>6 0) = [secretT]"
    "publicRoomId (heap \<sigma>6 0) = None" "readyState (heap \<sigma>6 0) = 1"
    using peers4 by (simp_all add: s6 left lookup_def rooms4)
  have s7: "\<sigma>7 = \<sigma>6"
    by (simp add: \<sigma>7_def leavePublicRoom_none obs6)
  have "disconnect rv envOn 0 inTwoSecretRooms
          = (case rv of
               Rev1 \<Rightarrow> emit (Terminate 0) \<sigma>7
             | Rev2 \<Rightarrow> if readyState (heap \<sigma>7 0) = 1 then emit (Terminate 0) \<sigma>7 else \<sigma>7)"
    unfolding disconnect_def Let_def \<sigma>7_def \<sigma>6_def \<sigma>5_def \<sigma>4_def \<sigma>3_def \<sigma>2_def \<sigma>1_def ..
  then have "disconnect rv envOn 0 inTwoSecretRooms = emit (Terminate 0) \<sigma>6"
    using obs6(5) by (cases rv) (simp_all add: s7)
  then show ?thesis
    using obs6 by (simp add: lookup_def)
qed

text \<open>
  Claim C3 says that \<open>disconnect(P)\<close> leaves every secret room in \<open>P.roomSecrets\<close>, each
  leave emitting \<open>peer-left\<close> to the remaining occupants, before the socket is terminated.
  The loop of \<^verbatim>\<open>_leaveAllSecretRooms\<close> advances its index while \<^verbatim>\<open>_leaveSecretRoom\<close> removes
  the secret just left from the array it runs over, so every second secret is skipped.
  Here A and B occupy the secret rooms S and T and A disconnects: in both class definitions
  B is told only that A left S, A's socket is terminated, and A is still registered in
  room T with T still among its room secrets.
\<close>

theorem disconnect_skips_secret_room:
  "roomSecrets (heap inTwoSecretRooms 0) = [secretS, secretT] \<and>
   lookup inTwoSecretRooms secretT idA = Some 0 \<and>
   lookup (disconnect Rev1 envOn 0 inTwoSecretRooms) secretT idA = Some 0 \<and>
   roomSecrets (heap (disconnect Rev1 envOn 0 inTwoSecretRooms) 0) = [secretT] \<and>
   trace (disconnect Rev1 envOn 0 inTwoSecretRooms)
     = [Send 1 (peerLeftMsg idA ''secret'' secretS True), Terminate 0] \<and>
   lookup (disconnect Rev2 envOn 0 inTwoSecretRooms) secretT idA = Some 0 \<and>
   trace (disconnect Rev2 envOn 0 inTwoSecretRooms)
     = [Send 1 (peerLeftMsg idA ''secret'' secretS True), Terminate 0]"
  using disconnect_inTwoSecretRooms [of Rev1] disconnect_inTwoSecretRooms [of Rev2]
  by (simp add: inTwoSecretRooms_def lookup_def)

section \<open>Keep-alive\<close>

lemma peer_fields_removeRoomSecret_upd [simp]:
  "peer_id (((heap \<sigma>)(p := removeRoomSecret s (heap \<sigma> p))) q) = peer_id (heap \<sigma> q)"
  "ip (((heap \<sigma>)(p := removeRoomSecret s (heap \<sigma> p))) q) = ip (heap \<sigma> q)"
  "readyState (((heap \<sigma>)(p := removeRoomSecret s (heap \<sigma> p))) q) = readyState (heap \<sigma> q)"
  "publicRoomId (((heap \<sigma>)(p := removeRoomSecret s (heap \<sigma> p))) q) = publicRoomId (heap \<sigma> q)"
  "pairKey (((heap \<sigma>)(p := removeRoomSecret s (heap \<sigma> p))) q) = pairKey (heap \<sigma> q)"
  by simp_all

lemma leaveAllSecretRoomsFrom_frame:
  "keepAliveTimers (leaveAllSecretRoomsFrom rv e i p d \<sigma>) = keepAliveTimers \<sigma> \<and>
   pairKeys (leaveAllSecretRoomsFrom rv e i p d \<sigma>) = pairKeys \<sigma> \<and>
   nextRef (leaveAllSecretRoomsFrom rv e i p d \<sigma>) = nextRef \<sigma> \<and>
   peer_id (heap (leaveAllSecretRoomsFrom rv e i p d \<sigma>) q) = peer_id (heap \<sigma> q) \<and>
   ip (heap (leaveAllSecretRoomsFrom rv e i p d \<sigma>) q) = ip (heap \<sigma> q) \<and>
   readyState (heap (leaveAllSecretRoomsFrom rv e i p d \<sigma>) q) = readyState (heap \<sigma> q) \<and>
   publicRoomId (heap (leaveAllSecretRoomsFrom rv e i p d \<sigma>) q) = publicRoomId (heap \<sigma> q) \<and>
   pairKey (heap (leaveAllSecretRoomsFrom rv e i p d \<sigma>) q) = pairKey (heap \<sigma> q)"
proof (induction rv e i p d \<sigma> rule: leaveAllSecretRoomsFrom.induct)
  case (1 rv e i peer disconnect \<sigma>)
  show ?case
  proof (cases "i < length (roomSecrets (heap \<sigma> peer))")
    case True
    then show ?thesis
      using "1.IH" by (subst (1 2 3 4 5 6 7 8) leaveAllSecretRoomsFrom.simps) simp
  next
    case False
    then show ?thesis
      by (subst (1 2 3 4 5 6 7 8) leaveAllSecretRoomsFrom.simps) simp
  qed
qed

lemma leaveAllSecretRooms_simps [simp]:
  "keepAliveTimers (leaveAllSecretRooms rv e p d \<sigma>) = keepAliveTimers \<sigma>"
  "pairKeys (leaveAllSecretRooms rv e p d \<sigma>) = pairKeys \<sigma>"
  "nextRef (leaveAllSecretRooms rv e p d \<sigma>) = nextRef \<sigma>"
  "peer_id (heap (leaveAllSecretRooms rv e p d \<sigma>) q) = peer_id (heap \<sigma> q)"
  "ip (heap (leaveAllSecretRooms rv e p d \<sigma>) q) = ip (heap \<sigma> q)"
  "readyState (heap (leaveAllSecretRooms rv e p d \<sigma>) q) = readyState (heap \<sigma> q)"
  "publicRoomId (heap (leaveAllSecretRooms rv e p d \<sigma>) q) = publicRoomId (heap \<sigma> q)"
  "pairKey (heap (leaveAllSecretRooms rv e p d \<sigma>) q) = pairKey (heap \<sigma> q)"
  by (simp_all add: leaveAllSecretRooms_def leaveAllSecretRoomsFrom_frame)

lemma leaveIpRoom_simps [simp]:
  "keepAliveTimers (leaveIpRoom rv e p d \<sigma>) = keepAliveTimers \<sigma>"
  "pairKeys (leaveIpRoom rv e p d \<sigma>) = pairKeys \<sigma>"
  "nextRef (leaveIpRoom rv e p d \<sigma>) = nextRef \<sigma>"
  "heap (leaveIpRoom rv e p d \<sigma>) = heap \<sigma>"
  by (simp_all add: leaveIpRoom_def)

lemma leavePublicRoom_simps [simp]:
  "keepAliveTimers (leavePublicRoom rv e p d \<sigma>) = keepAliveTimers \<sigma>"
  "pairKeys (leavePublicRoom rv e p d \<sigma>) = pairKeys \<sigma>"
  "nextRef (leavePublicRoom rv e p d \<sigma>) = nextRef \<sigma>"
  "peer_id (heap (leavePublicRoom rv e p d \<sigma>) q) = peer_id (heap \<sigma> q)"
  "ip (heap (leavePublicRoom rv e p d \<sigma>) q) = ip (heap \<sigma> q)"
  "readyState (heap (leavePublicRoom rv e p d \<sigma>) q) = readyState (heap \<sigma> q)"
  "roomSecrets (heap (leavePublicRoom rv e p d \<sigma>) q) = roomSecrets (heap \<sigma> q)"
  "pairKey (heap (leavePublicRoom rv e p d \<sigma>) q) = pairKey (heap \<sigma> q)"
  by (simp_all add: leavePublicRoom_def split: option.splits)

lemma cancelKeepAlive_simps [simp]:
  "keepAliveTimers (cancelKeepAlive p \<sigma>) = keepAliveTimers \<sigma>"
  "pairKeys (cancelKeepAlive p \<sigma>) = pairKeys \<sigma>"
  "nextRef (cancelKeepAlive p \<sigma>) = nextRef \<sigma>"
  "heap (cancelKeepAlive p \<sigma>) = heap \<sigma>"
  "rooms (cancelKeepAlive p \<sigma>) = rooms \<sigma>"
  by (simp_all add: cancelKeepAlive_def split: option.splits)

lemma disconnect_frame [simp]:
  "keepAliveTimers (disconnect rv e p \<sigma>) = (keepAliveTimers \<sigma>)(peer_id (heap \<sigma> p) := None)"
  "nextRef (disconnect rv e p \<sigma>) = nextRef \<sigma>"
  "peer_id (heap (disconnect rv e p \<sigma>) q) = peer_id (heap \<sigma> q)"
  "ip (heap (disconnect rv e p \<sigma>) q) = ip (heap \<sigma> q)"
  "readyState (heap (disconnect rv e p \<sigma>) q) = readyState (heap \<sigma> q)"
  by (simp_all add: disconnect_def Let_def split: revision.splits)


lemma keepAlive_unfold:
  assumes "keepAliveTimers \<sigma> (peer_id (heap \<sigma> p)) = Some k"
  shows "keepAlive rv e t p \<sigma> =
           (if t - lastBeat k > beatFactor rv * 2000 then disconnect rv e p (cancelKeepAlive p \<sigma>)
            else (emit (SetTimeout p 2000) (send rv e (Some p) pingMsg (cancelKeepAlive p \<sigma>)))
                   \<lparr>keepAliveTimers := (keepAliveTimers \<sigma>)(peer_id (heap \<sigma> p) \<mapsto> k\<lparr>timer := Some p\<rparr>)\<rparr>)"
  using assms by (simp add: keepAlive_def Let_def)

lemma beatFactor_cases: "beatFactor rv = 2 \<or> beatFactor rv = 3"
  by (simp add: beatFactor_def split: revision.splits)

lemma disconnectedAt_step:
  assumes "keepAliveTimers \<tau> (peer_id (heap \<tau> p)) = Some k"
  shows "disconnectedAt rv e u p (Suc n) \<tau> =
           (if u - lastBeat k > beatFactor rv * 2000 then Some u
            else disconnectedAt rv e (u + 2000) p n (keepAlive rv e u p \<tau>))"
    and "\<not> u - lastBeat k > beatFactor rv * 2000 \<Longrightarrow>
           keepAliveTimers (keepAlive rv e u p \<tau>) (peer_id (heap (keepAlive rv e u p \<tau>) p))
             = Some (k\<lparr>timer := Some p\<rparr>)"
  using assms by (simp_all add: keepAlive_unfold [OF assms] Let_def send_Some)

lemma disconnectedAt_reaches:
  assumes "keepAliveTimers \<tau> (peer_id (heap \<tau> p)) = Some k"
    and "u \<le> lastBeat k + beatFactor rv * 2000 + 2000"
    and "lastBeat k + beatFactor rv * 2000 < u + 2000 * (int n - 1)"
  shows "\<exists>T. disconnectedAt rv e u p n \<tau> = Some T \<and>
             lastBeat k + beatFactor rv * 2000 < T \<and> T \<le> lastBeat k + beatFactor rv * 2000 + 2000"
  using assms
proof (induction n arbitrary: u \<tau> k)
  case 0
  then show ?case by simp
next
  case (Suc n)
  show ?case
  proof (cases "u - lastBeat k > beatFactor rv * 2000")
    case True
    then show ?thesis
      using Suc.prems
      by (simp add: disconnectedAt_step(1) [OF Suc.prems(1)] del: disconnectedAt.simps)
  next
    case False
    define \<tau>' where "\<tau>' = keepAlive rv e u p \<tau>"
    have rec: "keepAliveTimers \<tau>' (peer_id (heap \<tau>' p)) = Some (k\<lparr>timer := Some p\<rparr>)"
      unfolding \<tau>'_def using False by (rule disconnectedAt_step(2) [OF Suc.prems(1)])
    have "\<exists>T. disconnectedAt rv e (u + 2000) p n \<tau>' = Some T \<and>
              lastBeat (k\<lparr>timer := Some p\<rparr>) + beatFactor rv * 2000 < T \<and>
              T \<le> lastBeat (k\<lparr>timer := Some p\<rparr>) + beatFactor rv * 2000 + 2000"
      using False Suc.prems(2,3) by (intro Suc.IH [OF rec]) simp_all
    then show ?thesis
      using False
      by (simp add: disconnectedAt_step(1) [OF Suc.prems(1)] \<tau>'_def del: disconnectedAt.simps)
  qed
qed

text \<open>
  Claim C4, as stated: a tick disconnects the peer when \<open>now - lastBeat\<close> exceeds twice the
  period, that is 4 seconds. It fails in the second class definition, which compares with
  three times the period (line 1124): 5 seconds after the last beat the tick cancels the
  pending timeout, sends a ping and sets the next timeout.
\<close>

theorem keepAlive_tick_counterexample:
  "keepAliveTimers beating (peer_id (heap beating 0)) = Some \<lparr>timer = Some 0, lastBeat = 1000\<rparr> \<and>
   (6000::int) - 1000 > 2 * 2000 \<and>
   trace (keepAlive Rev2 envOn 6000 0 beating) = [ClearTimeout 0, Send 0 pingMsg, SetTimeout 0 2000]"
  by (simp add: keepAlive_def Let_def beating_def twoPeers_def newPeer_def cancelKeepAlive_def
                beatFactor_def send_Some canSend_def)

text \<open>
  Claim C4, amended. The factor of the period (2000 ms) in the test is 2 in the first class
  definition and 3 in the second. For a peer with a keep-alive record: a tick at \<open>now'\<close>
  disconnects the peer and sets no timeout if \<open>now' - lastBeat\<close> exceeds factor times 2000,
  and otherwise hands \<open>{type: 'ping'}\<close> to \<^verbatim>\<open>_send\<close>, sets the next timeout of 2000 ms and
  records its handle; a pong sets \<open>lastBeat\<close> to the current time (when \<open>lastBeat\<close> is not
  0). If the ticks are exactly 2000 ms apart, the first of them is at most 2000 ms after the
  last beat, and nothing else runs in between, then within five ticks the peer is
  disconnected, at a tick \<open>T\<close> with factor times 2000 < \<open>T - lastBeat\<close> \<open>\<le>\<close> (factor + 1) times
  2000: within 3 periods of its last pong in the first definition, within 4 in the second.
\<close>

theorem keepAlive_tick:
  assumes beat: "keepAliveTimers \<sigma> (peer_id (heap \<sigma> p)) = Some k"
    and first: "lastBeat k \<le> t" "t \<le> lastBeat k + 2000"
  shows "beatFactor Rev1 = 2 \<and> beatFactor Rev2 = 3 \<and>
         keepAlive rv e now' p \<sigma> =
           (if now' - lastBeat k > beatFactor rv * 2000 then disconnect rv e p (cancelKeepAlive p \<sigma>)
            else (emit (SetTimeout p 2000) (send rv e (Some p) pingMsg (cancelKeepAlive p \<sigma>)))
                   \<lparr>keepAliveTimers := (keepAliveTimers \<sigma>)(peer_id (heap \<sigma> p) \<mapsto> k\<lparr>timer := Some p\<rparr>)\<rparr>) \<and>
         (lastBeat k \<noteq> 0 \<longrightarrow>
            keepAliveTimers (setKeepAliveTimerToNow now' p \<sigma>) (peer_id (heap \<sigma> p))
              = Some (k\<lparr>lastBeat := now'\<rparr>)) \<and>
         (\<exists>T. disconnectedAt rv e t p 5 \<sigma> = Some T \<and>
              beatFactor rv * 2000 < T - lastBeat k \<and> T - lastBeat k \<le> (beatFactor rv + 1) * 2000)"
proof -
  have pong: "lastBeat k \<noteq> 0 \<longrightarrow>
            keepAliveTimers (setKeepAliveTimerToNow now' p \<sigma>) (peer_id (heap \<sigma> p))
              = Some (k\<lparr>lastBeat := now'\<rparr>)"
    using beat by (simp add: setKeepAliveTimerToNow_def)
  have "t \<le> lastBeat k + beatFactor rv * 2000 + 2000"
       "lastBeat k + beatFactor rv * 2000 < t + 2000 * (int 5 - 1)"
    using first beatFactor_cases [of rv] by auto
  then obtain T where "disconnectedAt rv e t p 5 \<sigma> = Some T"
    "lastBeat k + beatFactor rv * 2000 < T" "T \<le> lastBeat k + beatFactor rv * 2000 + 2000"
    using disconnectedAt_reaches [OF beat] by blast
  then have live: "\<exists>T. disconnectedAt rv e t p 5 \<sigma> = Some T \<and>
              beatFactor rv * 2000 < T - lastBeat k \<and> T - lastBeat k \<le> (beatFactor rv + 1) * 2000"
    by (auto simp add: algebra_simps)
  show ?thesis
    using pong live keepAlive_unfold [OF beat] by (simp add: beatFactor_def)
qed

text \<open>
  Last beat at 1000: a tick at 6000 disconnects in the first definition; with ticks from
  2000 on, the peer is disconnected by 7000 in the first definition and by 9000 in the second.
\<close>

theorem keepAlive_tick_witness:
  "keepAlive Rev1 envOn 6000 0 beating = disconnect Rev1 envOn 0 (cancelKeepAlive 0 beating) \<and>
   (\<exists>T. disconnectedAt Rev1 envOn 2000 0 5 beating = Some T \<and> 4000 < T - 1000 \<and> T - 1000 \<le> 6000) \<and>
   (\<exists>T. disconnectedAt Rev2 envOn 2000 0 5 beating = Some T \<and> 6000 < T - 1000 \<and> T - 1000 \<le> 8000)"
proof -
  have beat: "keepAliveTimers beating (peer_id (heap beating 0)) = Some \<lparr>timer = Some 0, lastBeat = 1000\<rparr>"
    by (simp add: beating_def twoPeers_def newPeer_def)
  have first: "lastBeat \<lparr>timer = Some (0::nat), lastBeat = 1000\<rparr> \<le> 2000"
              "(2000::int) \<le> lastBeat \<lparr>timer = Some (0::nat), lastBeat = 1000\<rparr> + 2000"
    by simp_all
  show ?thesis
    using keepAlive_tick [OF beat first, of Rev1 envOn 6000] keepAlive_tick [OF beat first, of Rev2 envOn 6000]
    by (simp add: beatFactor_def)
qed

section \<open>No empty room\<close>

text \<open>
  Every handler keeps the registry free of empty rooms: \<^verbatim>\<open>_joinRoom\<close> creates a room only
  to put the joining peer into it, and \<^verbatim>\<open>_leaveRoom\<close> deletes the entry when the room has
  become empty.
\<close>

lemma noEmptyRoom_cong: "rooms \<tau> = rooms \<sigma> \<Longrightarrow> noEmptyRoom \<tau> = noEmptyRoom \<sigma>"
  by (simp add: noEmptyRoom_def)

lemma fold_preserves:
  assumes "\<And>x s. P s \<Longrightarrow> P (f x s)" "P s"
  shows "P (fold f xs s)"
  using assms(2) by (induction xs arbitrary: s) (simp_all add: assms(1))

lemma noEmptyRoom_basic [simp]:
  "noEmptyRoom (emit x \<sigma>) = noEmptyRoom \<sigma>"
  "noEmptyRoom (send rv e q m \<sigma>) = noEmptyRoom \<sigma>"
  "noEmptyRoom (updatePeer p f \<sigma>) = noEmptyRoom \<sigma>"
  "noEmptyRoom (removePairKey k \<sigma>) = noEmptyRoom \<sigma>"
  "noEmptyRoom (cancelKeepAlive p \<sigma>) = noEmptyRoom \<sigma>"
  "noEmptyRoom (\<sigma>\<lparr>keepAliveTimers := T\<rparr>) = noEmptyRoom \<sigma>"
  "noEmptyRoom (\<sigma>\<lparr>pairKeys := K\<rparr>) = noEmptyRoom \<sigma>"
  "noEmptyRoom (\<sigma>\<lparr>heap := H\<rparr>) = noEmptyRoom \<sigma>"
  "noEmptyRoom (\<sigma>\<lparr>heap := H, nextRef := n\<rparr>) = noEmptyRoom \<sigma>"
  by (simp_all add: noEmptyRoom_def)

lemma noEmptyRoom_leaveRoom: "noEmptyRoom \<sigma> \<Longrightarrow> noEmptyRoom (leaveRoom rv e p t r d \<sigma>)"
  by (simp add: noEmptyRoom_def rooms_leaveRoom split: option.splits)

lemma noEmptyRoom_joinRoom: "noEmptyRoom \<sigma> \<Longrightarrow> noEmptyRoom (joinRoom rv e p t r \<sigma>)"
  by (simp add: noEmptyRoom_def rooms_joinRoom)

lemma noEmptyRoom_kinds:
  assumes "noEmptyRoom \<sigma>"
  shows "noEmptyRoom (joinIpRoom rv e p \<sigma>)" "noEmptyRoom (joinSecretRoom rv e p s \<sigma>)"
    "noEmptyRoom (leaveIpRoom rv e p d \<sigma>)" "noEmptyRoom (leaveSecretRoom rv e p s d \<sigma>)"
    "noEmptyRoom (leavePublicRoom rv e p d \<sigma>)" "noEmptyRoom (joinPublicRoom rv e p r \<sigma>)"
proof -
  show "noEmptyRoom (joinIpRoom rv e p \<sigma>)"
    using assms by (simp add: joinIpRoom_def noEmptyRoom_joinRoom)
  show "noEmptyRoom (joinSecretRoom rv e p s \<sigma>)"
    using assms by (simp add: joinSecretRoom_def noEmptyRoom_joinRoom)
  show "noEmptyRoom (leaveIpRoom rv e p d \<sigma>)"
    using assms by (simp add: leaveIpRoom_def noEmptyRoom_leaveRoom)
  show "noEmptyRoom (leaveSecretRoom rv e p s d \<sigma>)"
    using assms by (simp add: leaveSecretRoom_def noEmptyRoom_leaveRoom)
  show left: "noEmptyRoom (leavePublicRoom rv e p d \<sigma>)" for d \<sigma>'
    using assms by (simp add: leavePublicRoom_def noEmptyRoom_leaveRoom split: option.splits)
  show "noEmptyRoom (joinPublicRoom rv e p r \<sigma>)"
    using left by (simp add: joinPublicRoom_def noEmptyRoom_joinRoom)
qed

lemma noEmptyRoom_leaveAllSecretRoomsFrom:
  "noEmptyRoom \<sigma> \<Longrightarrow> noEmptyRoom (leaveAllSecretRoomsFrom rv e i p d \<sigma>)"
proof (induction rv e i p d \<sigma> rule: leaveAllSecretRoomsFrom.induct)
  case (1 rv e i peer disconnect \<sigma>)
  show ?case
  proof (cases "i < length (roomSecrets (heap \<sigma> peer))")
    case True
    then show ?thesis
      using "1.IH" "1.prems" by (subst leaveAllSecretRoomsFrom.simps) (simp add: noEmptyRoom_kinds)
  next
    case False
    then show ?thesis
      using "1.prems" by (subst leaveAllSecretRoomsFrom.simps) simp
  qed
qed

lemma noEmptyRoom_disconnect: "noEmptyRoom \<sigma> \<Longrightarrow> noEmptyRoom (disconnect rv e p \<sigma>)"
  by (simp add: disconnect_def Let_def leaveAllSecretRooms_def noEmptyRoom_kinds
                noEmptyRoom_leaveAllSecretRoomsFrom split: revision.splits)

lemma noEmptyRoom_keepAlive: "noEmptyRoom \<sigma> \<Longrightarrow> noEmptyRoom (keepAlive rv e t p \<sigma>)"
  by (simp add: keepAlive_def Let_def noEmptyRoom_disconnect split: option.splits)

lemma noEmptyRoom_onConnection:
  "noEmptyRoom \<sigma> \<Longrightarrow> noEmptyRoom (onConnection rv e t pid ip' name' rtc \<sigma>)"
  by (simp add: onConnection_def Let_def noEmptyRoom_keepAlive)

lemma noEmptyRoom_joinSecretRooms:
  "noEmptyRoom \<sigma> \<Longrightarrow> noEmptyRoom (joinSecretRooms rv e p ss \<sigma>)"
  unfolding joinSecretRooms_def by (rule fold_preserves) (simp_all add: noEmptyRoom_kinds)

lemma noEmptyRoom_deleteSecretRoom:
  "noEmptyRoom \<sigma> \<Longrightarrow> noEmptyRoom (deleteSecretRoom rv e s \<sigma>)"
proof (cases "rooms \<sigma> s")
  case None
  then show "noEmptyRoom \<sigma> \<Longrightarrow> ?thesis" by (simp add: deleteSecretRoom_def)
next
  case (Some room)
  assume "noEmptyRoom \<sigma>"
  then have "noEmptyRoom (fold (\<lambda>peerId \<tau>.
                  case map_of room peerId of
                    None \<Rightarrow> \<tau>
                  | Some peer \<Rightarrow>
                      send rv e (Some peer) (secretRoomDeletedMsg s)
                        (leaveSecretRoom rv e peer s True \<tau>))
               (map fst room) \<sigma>)"
    by (intro fold_preserves [where P = noEmptyRoom]) (simp_all add: noEmptyRoom_kinds split: option.splits)
  then show ?thesis
    using Some by (simp add: deleteSecretRoom_def)
qed

lemma noEmptyRoom_createPairKey:
  "createPairKey draws p s \<sigma> = Some (key, \<tau>) \<Longrightarrow> noEmptyRoom \<tau> = noEmptyRoom \<sigma>"
  by (induction draws) (auto simp add: Let_def noEmptyRoom_def split: if_splits)

lemma noEmptyRoom_errors:
  assumes "noEmptyRoom \<sigma>"
  shows "case_sum (\<lambda>_. True) noEmptyRoom (onRoomSecrets rv e p m \<sigma>)"
    and "case_sum (\<lambda>_. True) noEmptyRoom (onRoomSecretsDeleted rv e p m \<sigma>)"
    and "case_sum (\<lambda>_. True) noEmptyRoom (onPairDeviceInitiate rv e s draws p \<sigma>)"
    and "case_sum (\<lambda>_. True) noEmptyRoom (onJoinPublicRoom rv e lim p m \<sigma>)"
    and "case_sum (\<lambda>_. True) noEmptyRoom (onRegenerateRoomSecret rv e s p m \<sigma>)"
proof -
  show "case_sum (\<lambda>_. True) noEmptyRoom (onRoomSecrets rv e p m \<sigma>)"
    using assms
    by (simp add: onRoomSecrets_def noEmptyRoom_joinSecretRooms split: option.splits json.splits)
  have "noEmptyRoom (fold (deleteSecretRoom rv e) ss \<sigma>)" for ss
    using assms by (intro fold_preserves [where P = noEmptyRoom]) (simp_all add: noEmptyRoom_deleteSecretRoom)
  then show "case_sum (\<lambda>_. True) noEmptyRoom (onRoomSecretsDeleted rv e p m \<sigma>)"
    by (simp add: onRoomSecretsDeleted_def split: option.splits json.splits)
  show "case_sum (\<lambda>_. True) noEmptyRoom (onPairDeviceInitiate rv e s draws p \<sigma>)"
  proof (cases "createPairKey draws p s \<sigma>")
    case None
    then show ?thesis by (simp add: onPairDeviceInitiate_def)
  next
    case (Some made)
    obtain k \<tau> where made: "made = (k, \<tau>)"
      by (cases made)
    have "noEmptyRoom \<tau>"
      using assms Some noEmptyRoom_createPairKey [of draws p s \<sigma> k \<tau>] by (simp add: made)
    then show ?thesis
      using Some
      by (simp add: made onPairDeviceInitiate_def Let_def noEmptyRoom_kinds split: option.splits)
  qed
  show "case_sum (\<lambda>_. True) noEmptyRoom (onJoinPublicRoom rv e lim p m \<sigma>)"
    using assms
    by (simp add: onJoinPublicRoom_def noEmptyRoom_kinds split: option.splits json.splits)
  have loop: "noEmptyRoom (fold (\<lambda>peerId \<tau>.
                       case map_of room peerId of
                         None \<Rightarrow> \<tau>
                       | Some peer \<Rightarrow> updatePeer peer (removeRoomSecret old)
                                        (send rv e (Some peer) msg \<tau>))
                    ks \<sigma>)" for room old msg ks
    using assms by (intro fold_preserves [where P = noEmptyRoom]) (simp_all split: option.splits)
  have drop: "noEmptyRoom (\<upsilon>\<lparr>rooms := (rooms \<upsilon>)(old := None)\<rparr>)" if "noEmptyRoom \<upsilon>" for \<upsilon> old
    using that by (simp add: noEmptyRoom_def)
  show "case_sum (\<lambda>_. True) noEmptyRoom (onRegenerateRoomSecret rv e s p m \<sigma>)"
    using assms
    by (simp add: onRegenerateRoomSecret_def Let_def drop loop split: option.splits json.splits)
qed

lemma noEmptyRoom_handlers:
  assumes "noEmptyRoom \<sigma>"
  shows "noEmptyRoom (onPairDeviceJoin rv e lim p m \<sigma>)"
    and "noEmptyRoom (onPairDeviceCancel rv e p \<sigma>)"
    and "noEmptyRoom (onCreatePublicRoom rv e r p \<sigma>)"
    and "noEmptyRoom (onLeavePublicRoom rv e p \<sigma>)"
    and "noEmptyRoom (signalAndRelay rv e p m \<sigma>)"
    and "noEmptyRoom (relayBinaryMessage e p b \<sigma>)"
    and "noEmptyRoom (setKeepAliveTimerToNow t p \<sigma>)"
    and "noEmptyRoom (onDisconnect rv e p \<sigma>)"
proof -
  show "noEmptyRoom (onPairDeviceJoin rv e lim p m \<sigma>)"
    using assms
    by (simp add: onPairDeviceJoin_def Let_def noEmptyRoom_kinds split: option.splits)
  show "noEmptyRoom (onPairDeviceCancel rv e p \<sigma>)"
    using assms by (simp add: onPairDeviceCancel_def split: option.splits)
  show "noEmptyRoom (onCreatePublicRoom rv e r p \<sigma>)"
    using assms by (simp add: onCreatePublicRoom_def noEmptyRoom_kinds)
  show "noEmptyRoom (onLeavePublicRoom rv e p \<sigma>)"
    using assms by (simp add: onLeavePublicRoom_def noEmptyRoom_kinds)
  show "noEmptyRoom (signalAndRelay rv e p m \<sigma>)"
    using assms by (simp add: signalAndRelay_lookup)
  show "noEmptyRoom (relayBinaryMessage e p b \<sigma>)"
    using assms by (simp add: relayBinaryMessage_lookup split: option.splits)
  show "noEmptyRoom (setKeepAliveTimerToNow t p \<sigma>)"
    using assms by (simp add: setKeepAliveTimerToNow_def split: option.splits)
  show "noEmptyRoom (onDisconnect rv e p \<sigma>)"
    using assms by (simp add: onDisconnect_def noEmptyRoom_disconnect)
qed

lemma noEmptyRoom_dispatch:
  "noEmptyRoom \<sigma> \<Longrightarrow> case_sum (\<lambda>_. True) noEmptyRoom (dispatch rv e amb p m \<sigma>)"
  by (simp add: dispatch_def noEmptyRoom_kinds noEmptyRoom_handlers noEmptyRoom_errors
           split: option.splits json.splits)

lemma noEmptyRoom_onMessage:
  "noEmptyRoom \<sigma> \<Longrightarrow> case_sum (\<lambda>_. True) noEmptyRoom (onMessage rv e amb p fr \<sigma>)"
  by (simp add: onMessage_def noEmptyRoom_handlers noEmptyRoom_dispatch
           split: frame.splits option.splits json.splits)

lemma noEmptyRoom_step:
  "noEmptyRoom \<sigma> \<Longrightarrow> case_sum (\<lambda>_. True) noEmptyRoom (step rv e amb inp \<sigma>)"
  by (simp add: step_def noEmptyRoom_onConnection noEmptyRoom_keepAlive noEmptyRoom_handlers
                noEmptyRoom_onMessage
           split: input.splits revision.splits)

lemma noEmptyRoom_run:
  "noEmptyRoom \<sigma> \<Longrightarrow> case_sum (\<lambda>_. True) noEmptyRoom (run rv e xs \<sigma>)"
proof (induction xs arbitrary: \<sigma>)
  case Nil
  then show ?case by simp
next
  case (Cons x xs)
  show ?case
  proof (cases "step rv e (fst x) (snd x) \<sigma>")
    case (Inl err)
    then show ?thesis by simp
  next
    case (Inr \<tau>)
    then have "noEmptyRoom \<tau>"
      using noEmptyRoom_step [OF Cons.prems, of rv e "fst x" "snd x"] by simp
    then show ?thesis
      using Inr Cons.IH by simp
  qed
qed

lemma arrived_simps:
  "nextRef arrived = 1"
  "heap arrived 0 = newPeer idA ''10.0.0.1'' JNull True"
  "rooms arrived = Map.empty"
  by (simp_all add: arrived_def onConnection_def initial_def keepAlive_def cancelKeepAlive_def
                    Let_def beatFactor_def newPeer_def)

lemma firstJoin_simps:
  "rooms firstJoin ''10.0.0.1'' = Some [(idA, 0)]"
  "peer_id (heap firstJoin 0) = idA"
  by (simp_all add: firstJoin_def joinIpRoom_def arrived_simps newPeer_def rooms_joinRoom)

text \<open>
  Claim C9. After any finite sequence of handler executions on a fresh server, no room id
  of the registry maps to an empty room. When the only member of a room leaves it,
  \<^verbatim>\<open>_leaveRoom\<close> deletes the entry and changes nothing else: the trace is the same, so no
  \<^verbatim>\<open>peer-left\<close> event is sent for that leave.
\<close>

theorem no_empty_room:
  assumes "run rv e xs initial = Inr \<sigma>"
  shows "rooms \<sigma> r \<noteq> Some [] \<and>
         (rooms \<sigma> r = Some [(peer_id (heap \<sigma> p), q)] \<longrightarrow>
            leaveRoom rv e p t r d \<sigma> = \<sigma>\<lparr>rooms := (rooms \<sigma>)(r := None)\<rparr>)"
proof -
  have "noEmptyRoom initial"
    by (simp add: noEmptyRoom_def initial_def)
  then have "noEmptyRoom \<sigma>"
    using noEmptyRoom_run [of initial rv e xs] assms by simp
  then show ?thesis
    by (simp add: noEmptyRoom_def leaveRoom_def)
qed

text \<open>A connects and joins its IP room; it is alone there, and its leaving deletes the room.\<close>

theorem no_empty_room_witness:
  "run Rev2 envOn
     [(quiet, Connection idA ''10.0.0.1'' JNull True),
      (quiet, Message 0 (Text (Some (JObj [(''type'', JStr ''join-ip-room'')]))))]
     initial = Inr firstJoin
   \<and> rooms firstJoin ''10.0.0.1'' = Some [(idA, 0)]
   \<and> leaveRoom Rev2 envOn 0 ''ip'' ''10.0.0.1'' False firstJoin
       = firstJoin\<lparr>rooms := (rooms firstJoin)(''10.0.0.1'' := None)\<rparr>"
proof -
  have ran: "run Rev2 envOn
     [(quiet, Connection idA ''10.0.0.1'' JNull True),
      (quiet, Message 0 (Text (Some (JObj [(''type'', JStr ''join-ip-room'')]))))]
     initial = Inr firstJoin"
    by (simp add: step_def quiet_def arrived_def [symmetric] arrived_simps onMessage_def
                  dispatch_def firstJoin_def)
  show ?thesis
    using no_empty_room [OF ran, of "''10.0.0.1''" 0 0 "''ip''" False] ran
    by (simp add: firstJoin_simps)
qed

section \<open>Room-membership symmetry\<close>

subsection \<open>A reconnection\<close>

lemma onConnection_alive:
  assumes "case keepAliveTimers \<sigma> pid of None \<Rightarrow> True
           | Some k \<Rightarrow> \<not> t - lastBeat k > beatFactor rv * 2000"
  shows "rooms (onConnection rv e t pid a n c \<sigma>) = rooms \<sigma>"
    and "pairKeys (onConnection rv e t pid a n c \<sigma>) = pairKeys \<sigma>"
    and "heap (onConnection rv e t pid a n c \<sigma>) = (heap \<sigma>)(nextRef \<sigma> := newPeer pid a n c)"
    and "nextRef (onConnection rv e t pid a n c \<sigma>) = Suc (nextRef \<sigma>)"
    and "keepAliveTimers (onConnection rv e t pid a n c \<sigma>) pid
           = Some \<lparr>timer = Some (nextRef \<sigma>),
                   lastBeat = (case keepAliveTimers \<sigma> pid of None \<Rightarrow> t | Some k \<Rightarrow> lastBeat k)\<rparr>"
  using assms
  by (auto simp add: onConnection_def keepAlive_def Let_def newPeer_def beatFactor_def
           split: option.splits revision.splits)

lemma isRoomSecret_secretS: "isRoomSecret secretS"
  by (simp add: isRoomSecret_def secretS_def list_all_length)

lemma arrived_more:
  "pairKeys arrived = Map.empty"
  "keepAliveTimers arrived idA = Some \<lparr>timer = Some 0, lastBeat = 1000\<rparr>"
  by (simp_all add: arrived_def onConnection_alive initial_def)

lemma secretJoined_simps:
  "nextRef secretJoined = 1"
  "rooms secretJoined = [secretS \<mapsto> [(idA, 0)]]"
  "pairKeys secretJoined = Map.empty"
  "keepAliveTimers secretJoined idA = Some \<lparr>timer = Some 0, lastBeat = 1000\<rparr>"
  "heap secretJoined 0 = (newPeer idA ''10.0.0.1'' JNull True)\<lparr>roomSecrets := [secretS]\<rparr>"
  by (simp_all add: secretJoined_def joinSecretRoom_def arrived_simps arrived_more rooms_joinRoom
                    newPeer_def addRoomSecret_def)

lemma reconnected_simps:
  "nextRef reconnected = 2"
  "rooms reconnected = [secretS \<mapsto> [(idA, 0)]]"
  "pairKeys reconnected = Map.empty"
  "heap reconnected 0 = (newPeer idA ''10.0.0.1'' JNull True)\<lparr>roomSecrets := [secretS]\<rparr>"
  "heap reconnected (Suc 0) = newPeer idA ''10.0.0.1'' JNull True"
  by (simp_all add: reconnected_def onConnection_alive secretJoined_simps beatFactor_def)

lemma secretRejoined_simps:
  "nextRef secretRejoined = 2"
  "rooms secretRejoined = [secretS \<mapsto> [(idA, 1)]]"
  "pairKeys secretRejoined = Map.empty"
  "heap secretRejoined 0 = (newPeer idA ''10.0.0.1'' JNull True)\<lparr>roomSecrets := [secretS]\<rparr>"
  "heap secretRejoined (Suc 0) = (newPeer idA ''10.0.0.1'' JNull True)\<lparr>roomSecrets := [secretS]\<rparr>"
  by (simp_all add: secretRejoined_def joinSecretRoom_def reconnected_simps rooms_joinRoom
                    newPeer_def addRoomSecret_def)

lemma leaveAllSecretRooms_one:
  assumes "roomSecrets (heap \<sigma> p) = [a]"
  shows "leaveAllSecretRooms rv e p d \<sigma> = leaveSecretRoom rv e p a d \<sigma>"
proof -
  have after: "roomSecrets (heap (leaveSecretRoom rv e p a d \<sigma>) p) = []"
    using assms by simp
  have "leaveAllSecretRoomsFrom rv e 0 p d \<sigma>
          = leaveAllSecretRoomsFrom rv e 1 p d (leaveSecretRoom rv e p a d \<sigma>)"
    using assms by (subst leaveAllSecretRoomsFrom.simps) simp
  also have "\<dots> = leaveSecretRoom rv e p a d \<sigma>"
    using after by (subst leaveAllSecretRoomsFrom.simps) simp
  finally show ?thesis
    by (simp add: leaveAllSecretRooms_def)
qed

lemma oldGone_simps:
  "nextRef oldGone = 2"
  "rooms oldGone secretS = None"
  "heap oldGone (Suc 0) = (newPeer idA ''10.0.0.1'' JNull True)\<lparr>roomSecrets := [secretS]\<rparr>"
proof -
  define \<sigma>1 where "\<sigma>1 = removePairKey (nullableKey (pairKey (heap secretRejoined 0))) secretRejoined"
  define \<sigma>2 where "\<sigma>2 = updatePeer 0 (\<lambda>p. p\<lparr>pairKey := None\<rparr>) \<sigma>1"
  define \<sigma>3 where "\<sigma>3 = cancelKeepAlive 0 \<sigma>2"
  define \<sigma>4 where "\<sigma>4 = \<sigma>3\<lparr>keepAliveTimers := (keepAliveTimers \<sigma>3)(peer_id (heap \<sigma>3 0) := None)\<rparr>"
  define \<sigma>5 where "\<sigma>5 = leaveIpRoom Rev2 envOn 0 True \<sigma>4"
  define \<sigma>6 where "\<sigma>6 = leaveAllSecretRooms Rev2 envOn 0 True \<sigma>5"
  define \<sigma>7 where "\<sigma>7 = leavePublicRoom Rev2 envOn 0 True \<sigma>6"
  have s1: "\<sigma>1 = secretRejoined"
    by (simp add: \<sigma>1_def removePairKey_def secretRejoined_simps)
  have obs4: "rooms \<sigma>4 = [secretS \<mapsto> [(idA, Suc 0)]]" "nextRef \<sigma>4 = 2"
    "heap \<sigma>4 0 = (newPeer idA ''10.0.0.1'' JNull True)\<lparr>roomSecrets := [secretS]\<rparr>"
    "heap \<sigma>4 (Suc 0) = (newPeer idA ''10.0.0.1'' JNull True)\<lparr>roomSecrets := [secretS]\<rparr>"
    by (simp_all add: \<sigma>4_def \<sigma>3_def \<sigma>2_def s1 secretRejoined_simps newPeer_def)
  have "lookup \<sigma>4 ''10.0.0.1'' idA = None"
    by (simp add: lookup_def obs4)
  then have s5: "\<sigma>5 = \<sigma>4"
    by (simp add: \<sigma>5_def leaveIpRoom_def obs4 newPeer_def leaveRoom_absent)
  have s6: "\<sigma>6 = leaveSecretRoom Rev2 envOn 0 secretS True \<sigma>4"
    unfolding \<sigma>6_def s5 by (rule leaveAllSecretRooms_one) (simp add: obs4 newPeer_def)
  have obs6: "rooms \<sigma>6 secretS = None" "nextRef \<sigma>6 = 2"
    "heap \<sigma>6 (Suc 0) = (newPeer idA ''10.0.0.1'' JNull True)\<lparr>roomSecrets := [secretS]\<rparr>"
    "publicRoomId (heap \<sigma>6 0) = None"
    by (simp_all add: s6 obs4 rooms_leaveRoom newPeer_def)
  have s7: "\<sigma>7 = \<sigma>6"
    by (simp add: \<sigma>7_def leavePublicRoom_none obs6)
  have unfolded: "oldGone = (if readyState (heap \<sigma>7 0) = 1 then emit (Terminate 0) \<sigma>7 else \<sigma>7)"
    unfolding oldGone_def disconnect_def Let_def \<sigma>7_def \<sigma>6_def \<sigma>5_def \<sigma>4_def \<sigma>3_def \<sigma>2_def \<sigma>1_def
    by simp
  show "nextRef oldGone = 2" "rooms oldGone secretS = None"
    "heap oldGone (Suc 0) = (newPeer idA ''10.0.0.1'' JNull True)\<lparr>roomSecrets := [secretS]\<rparr>"
    by (simp_all add: unfolded s7 obs6)
qed


subsection \<open>Joins and leaves of peers with distinct ids\<close>

lemma symmetricD:
  assumes "symmetric S R \<sigma>" "p < nextRef \<sigma>"
  shows "\<And>q. q < nextRef \<sigma> \<Longrightarrow> peer_id (heap \<sigma> q) = peer_id (heap \<sigma> p) \<Longrightarrow> q = p"
    and "ip (heap \<sigma> p) \<notin> S" and "ip (heap \<sigma> p) \<notin> R"
    and "\<And>s. s \<in> set (roomSecrets (heap \<sigma> p)) \<Longrightarrow> s \<in> S"
    and "\<And>r. publicRoomId (heap \<sigma> p) = Some r \<Longrightarrow> r \<in> R"
    and "\<And>s. s \<in> S \<Longrightarrow>
           (s \<in> set (roomSecrets (heap \<sigma> p))) = (lookup \<sigma> s (peer_id (heap \<sigma> p)) \<noteq> None)"
    and "\<And>r. r \<in> R \<Longrightarrow>
           (publicRoomId (heap \<sigma> p) = Some r) = (lookup \<sigma> r (peer_id (heap \<sigma> p)) \<noteq> None)"
  using assms unfolding symmetric_def by blast+

lemma symmetricI:
  assumes "\<And>p q. p < nextRef \<sigma> \<Longrightarrow> q < nextRef \<sigma> \<Longrightarrow>
             peer_id (heap \<sigma> q) = peer_id (heap \<sigma> p) \<Longrightarrow> q = p"
    and "\<And>p. p < nextRef \<sigma> \<Longrightarrow> ip (heap \<sigma> p) \<notin> S \<union> R"
    and "\<And>p s. p < nextRef \<sigma> \<Longrightarrow> s \<in> set (roomSecrets (heap \<sigma> p)) \<Longrightarrow> s \<in> S"
    and "\<And>p r. p < nextRef \<sigma> \<Longrightarrow> publicRoomId (heap \<sigma> p) = Some r \<Longrightarrow> r \<in> R"
    and "\<And>p s. p < nextRef \<sigma> \<Longrightarrow> s \<in> S \<Longrightarrow>
           (s \<in> set (roomSecrets (heap \<sigma> p))) = (lookup \<sigma> s (peer_id (heap \<sigma> p)) \<noteq> None)"
    and "\<And>p r. p < nextRef \<sigma> \<Longrightarrow> r \<in> R \<Longrightarrow>
           (publicRoomId (heap \<sigma> p) = Some r) = (lookup \<sigma> r (peer_id (heap \<sigma> p)) \<noteq> None)"
  shows "symmetric S R \<sigma>"
  unfolding symmetric_def using assms by blast

lemma symmetric_step:
  assumes inv: "symmetric S R \<sigma>" and p: "p < nextRef \<sigma>"
    and n: "nextRef \<tau> = nextRef \<sigma>"
    and ids: "\<And>q. peer_id (heap \<tau> q) = peer_id (heap \<sigma> q)"
    and ips: "\<And>q. ip (heap \<tau> q) = ip (heap \<sigma> q)"
    and others: "\<And>q. q \<noteq> p \<Longrightarrow> roomSecrets (heap \<tau> q) = roomSecrets (heap \<sigma> q)"
      "\<And>q. q \<noteq> p \<Longrightarrow> publicRoomId (heap \<tau> q) = publicRoomId (heap \<sigma> q)"
    and look: "\<And>r k. k \<noteq> peer_id (heap \<sigma> p) \<Longrightarrow> lookup \<tau> r k = lookup \<sigma> r k"
    and secrets: "\<And>s. s \<in> set (roomSecrets (heap \<tau> p)) \<Longrightarrow> s \<in> S"
    and public: "\<And>r. publicRoomId (heap \<tau> p) = Some r \<Longrightarrow> r \<in> R"
    and symS: "\<And>s. s \<in> S \<Longrightarrow>
                 (s \<in> set (roomSecrets (heap \<tau> p))) = (lookup \<tau> s (peer_id (heap \<sigma> p)) \<noteq> None)"
    and symR: "\<And>r. r \<in> R \<Longrightarrow>
                 (publicRoomId (heap \<tau> p) = Some r) = (lookup \<tau> r (peer_id (heap \<sigma> p)) \<noteq> None)"
  shows "symmetric S R \<tau>"
proof (rule symmetricI)
  fix a b
  assume "a < nextRef \<tau>" "b < nextRef \<tau>" "peer_id (heap \<tau> b) = peer_id (heap \<tau> a)"
  then show "b = a"
    using symmetricD(1) [OF inv, of a b] by (simp add: n ids)
next
  fix a
  assume "a < nextRef \<tau>"
  then show "ip (heap \<tau> a) \<notin> S \<union> R"
    using symmetricD(2,3) [OF inv, of a] by (simp add: n ips)
next
  fix a s
  assume a: "a < nextRef \<tau>" and s: "s \<in> set (roomSecrets (heap \<tau> a))"
  show "s \<in> S"
  proof (cases "a = p")
    case True
    then show ?thesis using s secrets by simp
  next
    case False
    then show ?thesis
      using symmetricD(4) [OF inv, of a s] a s by (simp add: n others)
  qed
next
  fix a r
  assume a: "a < nextRef \<tau>" and r: "publicRoomId (heap \<tau> a) = Some r"
  show "r \<in> R"
  proof (cases "a = p")
    case True
    then show ?thesis using r public by simp
  next
    case False
    then show ?thesis
      using symmetricD(5) [OF inv, of a r] a r by (simp add: n others)
  qed
next
  fix a s
  assume a: "a < nextRef \<tau>" and s: "s \<in> S"
  show "(s \<in> set (roomSecrets (heap \<tau> a))) = (lookup \<tau> s (peer_id (heap \<tau> a)) \<noteq> None)"
  proof (cases "a = p")
    case True
    then show ?thesis using symS [OF s] by (simp add: ids)
  next
    case False
    have "peer_id (heap \<sigma> a) \<noteq> peer_id (heap \<sigma> p)"
      using symmetricD(1) [OF inv p, of a] a False by (auto simp add: n)
    then have "lookup \<tau> s (peer_id (heap \<tau> a)) = lookup \<sigma> s (peer_id (heap \<sigma> a))"
      by (simp add: ids look)
    then show ?thesis
      using symmetricD(6) [OF inv, of a s] a s False by (simp add: n others)
  qed
next
  fix a r
  assume a: "a < nextRef \<tau>" and r: "r \<in> R"
  show "(publicRoomId (heap \<tau> a) = Some r) = (lookup \<tau> r (peer_id (heap \<tau> a)) \<noteq> None)"
  proof (cases "a = p")
    case True
    then show ?thesis using symR [OF r] by (simp add: ids)
  next
    case False
    have "peer_id (heap \<sigma> a) \<noteq> peer_id (heap \<sigma> p)"
      using symmetricD(1) [OF inv p, of a] a False by (auto simp add: n)
    then have "lookup \<tau> r (peer_id (heap \<tau> a)) = lookup \<sigma> r (peer_id (heap \<sigma> a))"
      by (simp add: ids look)
    then show ?thesis
      using symmetricD(7) [OF inv, of a r] a r False by (simp add: n others)
  qed
qed

lemma lookup_updatePeer [simp]: "lookup (updatePeer p f \<sigma>) r k = lookup \<sigma> r k"
  by (simp add: lookup_def)

lemma addRoomSecret_fields [simp]:
  "peer_id (addRoomSecret s p) = peer_id p" "ip (addRoomSecret s p) = ip p"
  "publicRoomId (addRoomSecret s p) = publicRoomId p"
  "set (roomSecrets (addRoomSecret s p)) = insert s (set (roomSecrets p))"
  by (auto simp add: addRoomSecret_def)

lemma symmetric_joinRoom_other:
  assumes inv: "symmetric S R \<sigma>" and p: "p < nextRef \<sigma>" and r: "r \<notin> S" "r \<notin> R"
  shows "symmetric S R (joinRoom rv e p t r \<sigma>)"
proof (rule symmetric_step [OF inv p])
  fix s assume "s \<in> S"
  then show "(s \<in> set (roomSecrets (heap (joinRoom rv e p t r \<sigma>) p)))
               = (lookup (joinRoom rv e p t r \<sigma>) s (peer_id (heap \<sigma> p)) \<noteq> None)"
    using symmetricD(6) [OF inv p, of s] r by (auto simp add: lookup_joinRoom)
next
  fix r' assume "r' \<in> R"
  then show "(publicRoomId (heap (joinRoom rv e p t r \<sigma>) p) = Some r')
               = (lookup (joinRoom rv e p t r \<sigma>) r' (peer_id (heap \<sigma> p)) \<noteq> None)"
    using symmetricD(7) [OF inv p, of r'] r by (auto simp add: lookup_joinRoom)
next
  fix s assume "s \<in> set (roomSecrets (heap (joinRoom rv e p t r \<sigma>) p))"
  then show "s \<in> S"
    using symmetricD(4) [OF inv p, of s] by simp
next
  fix r' assume "publicRoomId (heap (joinRoom rv e p t r \<sigma>) p) = Some r'"
  then show "r' \<in> R"
    using symmetricD(5) [OF inv p, of r'] by simp
qed (simp_all add: lookup_joinRoom)

lemma symmetric_leaveRoom_other:
  assumes inv: "symmetric S R \<sigma>" and p: "p < nextRef \<sigma>" and r: "r \<notin> S" "r \<notin> R"
  shows "symmetric S R (leaveRoom rv e p t r d \<sigma>)"
proof (rule symmetric_step [OF inv p])
  fix s assume "s \<in> S"
  then show "(s \<in> set (roomSecrets (heap (leaveRoom rv e p t r d \<sigma>) p)))
               = (lookup (leaveRoom rv e p t r d \<sigma>) s (peer_id (heap \<sigma> p)) \<noteq> None)"
    using symmetricD(6) [OF inv p, of s] r by (auto simp add: lookup_leaveRoom)
next
  fix r' assume "r' \<in> R"
  then show "(publicRoomId (heap (leaveRoom rv e p t r d \<sigma>) p) = Some r')
               = (lookup (leaveRoom rv e p t r d \<sigma>) r' (peer_id (heap \<sigma> p)) \<noteq> None)"
    using symmetricD(7) [OF inv p, of r'] r by (auto simp add: lookup_leaveRoom)
next
  fix s assume "s \<in> set (roomSecrets (heap (leaveRoom rv e p t r d \<sigma>) p))"
  then show "s \<in> S"
    using symmetricD(4) [OF inv p, of s] by simp
next
  fix r' assume "publicRoomId (heap (leaveRoom rv e p t r d \<sigma>) p) = Some r'"
  then show "r' \<in> R"
    using symmetricD(5) [OF inv p, of r'] by simp
qed (simp_all add: lookup_leaveRoom)

lemma symmetric_joinSecretRoom:
  assumes inv: "symmetric S R \<sigma>" and p: "p < nextRef \<sigma>" and s: "s \<in> S" and types: "S \<inter> R = {}"
  shows "symmetric S R (joinSecretRoom rv e p s \<sigma>)"
proof (rule symmetric_step [OF inv p])
  fix s' assume "s' \<in> S"
  then show "(s' \<in> set (roomSecrets (heap (joinSecretRoom rv e p s \<sigma>) p)))
               = (lookup (joinSecretRoom rv e p s \<sigma>) s' (peer_id (heap \<sigma> p)) \<noteq> None)"
    using symmetricD(6) [OF inv p, of s'] by (auto simp add: joinSecretRoom_def lookup_joinRoom)
next
  fix r' assume "r' \<in> R"
  then have "r' \<noteq> s"
    using s types by blast
  then show "(publicRoomId (heap (joinSecretRoom rv e p s \<sigma>) p) = Some r')
               = (lookup (joinSecretRoom rv e p s \<sigma>) r' (peer_id (heap \<sigma> p)) \<noteq> None)"
    using symmetricD(7) [OF inv p, of r'] \<open>r' \<in> R\<close>
    by (auto simp add: joinSecretRoom_def lookup_joinRoom)
next
  fix s' assume "s' \<in> set (roomSecrets (heap (joinSecretRoom rv e p s \<sigma>) p))"
  then show "s' \<in> S"
    using symmetricD(4) [OF inv p, of s'] s by (auto simp add: joinSecretRoom_def)
next
  fix r' assume "publicRoomId (heap (joinSecretRoom rv e p s \<sigma>) p) = Some r'"
  then show "r' \<in> R"
    using symmetricD(5) [OF inv p, of r'] by (simp add: joinSecretRoom_def)
qed (simp_all add: joinSecretRoom_def lookup_joinRoom)

lemma symmetric_leaveSecretRoom:
  assumes inv: "symmetric S R \<sigma>" and p: "p < nextRef \<sigma>" and s: "s \<in> S" and types: "S \<inter> R = {}"
  shows "symmetric S R (leaveSecretRoom rv e p s d \<sigma>)"
proof (rule symmetric_step [OF inv p])
  fix s' assume "s' \<in> S"
  then show "(s' \<in> set (roomSecrets (heap (leaveSecretRoom rv e p s d \<sigma>) p)))
               = (lookup (leaveSecretRoom rv e p s d \<sigma>) s' (peer_id (heap \<sigma> p)) \<noteq> None)"
    using symmetricD(6) [OF inv p, of s'] by (auto simp add: leaveSecretRoom_def lookup_leaveRoom)
next
  fix r' assume "r' \<in> R"
  then have "r' \<noteq> s"
    using s types by blast
  then show "(publicRoomId (heap (leaveSecretRoom rv e p s d \<sigma>) p) = Some r')
               = (lookup (leaveSecretRoom rv e p s d \<sigma>) r' (peer_id (heap \<sigma> p)) \<noteq> None)"
    using symmetricD(7) [OF inv p, of r'] \<open>r' \<in> R\<close>
    by (auto simp add: leaveSecretRoom_def lookup_leaveRoom)
next
  fix s' assume "s' \<in> set (roomSecrets (heap (leaveSecretRoom rv e p s d \<sigma>) p))"
  then show "s' \<in> S"
    using symmetricD(4) [OF inv p, of s'] by (auto simp add: leaveSecretRoom_def)
next
  fix r' assume "publicRoomId (heap (leaveSecretRoom rv e p s d \<sigma>) p) = Some r'"
  then show "r' \<in> R"
    using symmetricD(5) [OF inv p, of r'] by (simp add: leaveSecretRoom_def)
qed (simp_all add: leaveSecretRoom_def lookup_leaveRoom)

lemma symmetric_leaveAllSecretRoomsFrom:
  assumes "symmetric S R \<sigma>" "p < nextRef \<sigma>" "S \<inter> R = {}"
  shows "symmetric S R (leaveAllSecretRoomsFrom rv e i p d \<sigma>)"
  using assms
proof (induction rv e i p d \<sigma> rule: leaveAllSecretRoomsFrom.induct)
  case (1 rv e i peer disconnect \<sigma>)
  show ?case
  proof (cases "i < length (roomSecrets (heap \<sigma> peer))")
    case True
    then have "roomSecrets (heap \<sigma> peer) ! i \<in> S"
      using symmetricD(4) [OF "1.prems"(1,2)] nth_mem by blast
    then have "symmetric S R (leaveSecretRoom rv e peer (roomSecrets (heap \<sigma> peer) ! i) disconnect \<sigma>)"
      using "1.prems" by (intro symmetric_leaveSecretRoom)
    then have "symmetric S R
                 (leaveAllSecretRoomsFrom rv e (i + 1) peer disconnect
                    (leaveSecretRoom rv e peer (roomSecrets (heap \<sigma> peer) ! i) disconnect \<sigma>))"
      using "1.IH" [OF True] "1.prems"(2,3) by simp
    then show ?thesis
      using True by (subst leaveAllSecretRoomsFrom.simps) simp
  next
    case False
    then show ?thesis
      using "1.prems"(1) by (subst leaveAllSecretRoomsFrom.simps) simp
  qed
qed

lemma symmetric_leavePublicRoom:
  assumes inv: "symmetric S R \<sigma>" and p: "p < nextRef \<sigma>"
    and types: "S \<inter> R = {}" "[] \<notin> R"
  shows "symmetric S R (leavePublicRoom rv e p d \<sigma>)
         \<and> publicRoomId (heap (leavePublicRoom rv e p d \<sigma>) p) = None"
proof (cases "publicRoomId (heap \<sigma> p)")
  case None
  then show ?thesis
    using inv by (simp add: leavePublicRoom_def)
next
  case (Some r0)
  then have r0: "r0 \<in> R"
    using symmetricD(5) [OF inv p] by blast
  then have "r0 \<noteq> []"
    using types(2) by blast
  then have unfolded: "leavePublicRoom rv e p d \<sigma>
                 = updatePeer p (\<lambda>p. p\<lparr>publicRoomId := None\<rparr>) (leaveRoom rv e p ''public-id'' r0 d \<sigma>)"
    using Some by (simp add: leavePublicRoom_def)
  have "symmetric S R (updatePeer p (\<lambda>p. p\<lparr>publicRoomId := None\<rparr>)
                         (leaveRoom rv e p ''public-id'' r0 d \<sigma>))"
  proof (rule symmetric_step [OF inv p])
    fix s assume s: "s \<in> S"
    then have "s \<noteq> r0"
      using r0 types(1) by blast
    then show "(s \<in> set (roomSecrets (heap (updatePeer p (\<lambda>p. p\<lparr>publicRoomId := None\<rparr>)
                                               (leaveRoom rv e p ''public-id'' r0 d \<sigma>)) p)))
                 = (lookup (updatePeer p (\<lambda>p. p\<lparr>publicRoomId := None\<rparr>)
                              (leaveRoom rv e p ''public-id'' r0 d \<sigma>)) s (peer_id (heap \<sigma> p)) \<noteq> None)"
      using symmetricD(6) [OF inv p s] by (simp add: lookup_leaveRoom)
  next
    fix r assume r: "r \<in> R"
    show "(publicRoomId (heap (updatePeer p (\<lambda>p. p\<lparr>publicRoomId := None\<rparr>)
                                 (leaveRoom rv e p ''public-id'' r0 d \<sigma>)) p) = Some r)
            = (lookup (updatePeer p (\<lambda>p. p\<lparr>publicRoomId := None\<rparr>)
                         (leaveRoom rv e p ''public-id'' r0 d \<sigma>)) r (peer_id (heap \<sigma> p)) \<noteq> None)"
      using symmetricD(7) [OF inv p r] Some by (auto simp add: lookup_leaveRoom)
  next
    fix s assume "s \<in> set (roomSecrets (heap (updatePeer p (\<lambda>p. p\<lparr>publicRoomId := None\<rparr>)
                                                 (leaveRoom rv e p ''public-id'' r0 d \<sigma>)) p))"
    then show "s \<in> S"
      using symmetricD(4) [OF inv p, of s] by simp
  qed (simp_all add: lookup_leaveRoom)
  then show ?thesis
    by (simp add: unfolded)
qed

lemma symmetric_joinPublicRoom:
  assumes inv: "symmetric S R \<sigma>" and p: "p < nextRef \<sigma>" and r: "r \<in> R"
    and types: "S \<inter> R = {}" "[] \<notin> R"
  shows "symmetric S R (joinPublicRoom rv e p r \<sigma>)"
proof -
  define \<sigma>' where "\<sigma>' = leavePublicRoom rv e p False \<sigma>"
  have inv': "symmetric S R \<sigma>'" and none: "publicRoomId (heap \<sigma>' p) = None"
    using symmetric_leavePublicRoom [OF inv p types, of rv e False] by (simp_all add: \<sigma>'_def)
  have p': "p < nextRef \<sigma>'"
    using p by (simp add: \<sigma>'_def)
  have absent: "lookup \<sigma>' r' (peer_id (heap \<sigma>' p)) = None" if "r' \<in> R" for r'
    using symmetricD(7) [OF inv' p' that] none by simp
  have "symmetric S R (updatePeer p (\<lambda>p. p\<lparr>publicRoomId := Some r\<rparr>)
                         (joinRoom rv e p ''public-id'' r \<sigma>'))"
  proof (rule symmetric_step [OF inv' p'])
    fix s assume s: "s \<in> S"
    then have "s \<noteq> r"
      using r types(1) by blast
    then show "(s \<in> set (roomSecrets (heap (updatePeer p (\<lambda>p. p\<lparr>publicRoomId := Some r\<rparr>)
                                               (joinRoom rv e p ''public-id'' r \<sigma>')) p)))
                 = (lookup (updatePeer p (\<lambda>p. p\<lparr>publicRoomId := Some r\<rparr>)
                              (joinRoom rv e p ''public-id'' r \<sigma>')) s (peer_id (heap \<sigma>' p)) \<noteq> None)"
      using symmetricD(6) [OF inv' p' s] by (simp add: lookup_joinRoom)
  next
    fix r' assume r': "r' \<in> R"
    show "(publicRoomId (heap (updatePeer p (\<lambda>p. p\<lparr>publicRoomId := Some r\<rparr>)
                                 (joinRoom rv e p ''public-id'' r \<sigma>')) p) = Some r')
            = (lookup (updatePeer p (\<lambda>p. p\<lparr>publicRoomId := Some r\<rparr>)
                         (joinRoom rv e p ''public-id'' r \<sigma>')) r' (peer_id (heap \<sigma>' p)) \<noteq> None)"
      using absent [OF r'] by (auto simp add: lookup_joinRoom)
  next
    fix s assume "s \<in> set (roomSecrets (heap (updatePeer p (\<lambda>p. p\<lparr>publicRoomId := Some r\<rparr>)
                                                 (joinRoom rv e p ''public-id'' r \<sigma>')) p))"
    then show "s \<in> S"
      using symmetricD(4) [OF inv' p', of s] by simp
  next
    fix r' assume "publicRoomId (heap (updatePeer p (\<lambda>p. p\<lparr>publicRoomId := Some r\<rparr>)
                                         (joinRoom rv e p ''public-id'' r \<sigma>')) p) = Some r'"
    then show "r' \<in> R"
      using r by simp
  qed (simp_all add: lookup_joinRoom)
  then show ?thesis
    by (simp add: joinPublicRoom_def \<sigma>'_def)
qed

lemma nextRef_join [simp]:
  "nextRef (joinSecretRoom rv e p s \<sigma>) = nextRef \<sigma>"
  "nextRef (joinPublicRoom rv e p r \<sigma>) = nextRef \<sigma>"
  "nextRef (joinIpRoom rv e p \<sigma>) = nextRef \<sigma>"
  by (simp_all add: joinSecretRoom_def joinPublicRoom_def joinIpRoom_def)

lemma symmetric_applyRoomOp:
  assumes inv: "symmetric S R \<sigma>" and op: "roomOpTyped S R (nextRef \<sigma>) op"
    and types: "S \<inter> R = {}" "[] \<notin> R"
  shows "symmetric S R (applyRoomOp rv e op \<sigma>) \<and> nextRef (applyRoomOp rv e op \<sigma>) = nextRef \<sigma>"
proof (cases op)
  case (JoinIp p)
  then show ?thesis
    using inv op symmetricD(2,3) [OF inv, of p]
    by (simp add: joinIpRoom_def symmetric_joinRoom_other)
next
  case (LeaveIp p d)
  then show ?thesis
    using inv op symmetricD(2,3) [OF inv, of p]
    by (simp add: leaveIpRoom_def symmetric_leaveRoom_other)
next
  case (JoinSecret p s)
  then show ?thesis
    using inv op types by (simp add: symmetric_joinSecretRoom)
next
  case (LeaveSecret p s d)
  then show ?thesis
    using inv op types by (simp add: symmetric_leaveSecretRoom)
next
  case (LeaveAllSecret p d)
  then show ?thesis
    using inv op types by (simp add: leaveAllSecretRooms_def symmetric_leaveAllSecretRoomsFrom
                                     leaveAllSecretRoomsFrom_frame)
next
  case (JoinPublic p r)
  then show ?thesis
    using inv op types by (simp add: symmetric_joinPublicRoom)
next
  case (LeavePublic p d)
  then show ?thesis
    using inv op types symmetric_leavePublicRoom [of S R \<sigma> p rv e d] by simp
qed

lemma symmetric_fold:
  assumes "symmetric S R \<sigma>" "\<forall>op\<in>set ops. roomOpTyped S R (nextRef \<sigma>) op"
    and "S \<inter> R = {}" "[] \<notin> R"
  shows "symmetric S R (fold (applyRoomOp rv e) ops \<sigma>)
         \<and> nextRef (fold (applyRoomOp rv e) ops \<sigma>) = nextRef \<sigma>"
  using assms
proof (induction ops arbitrary: \<sigma>)
  case Nil
  then show ?case by simp
next
  case (Cons op ops)
  have typed: "roomOpTyped S R (nextRef \<sigma>) op"
    using Cons.prems(2) by simp
  have step: "symmetric S R (applyRoomOp rv e op \<sigma>)"
    "nextRef (applyRoomOp rv e op \<sigma>) = nextRef \<sigma>"
    using symmetric_applyRoomOp [OF Cons.prems(1) typed Cons.prems(3,4), of rv e] by simp_all
  have "\<forall>x\<in>set ops. roomOpTyped S R (nextRef (applyRoomOp rv e op \<sigma>)) x"
    using Cons.prems(2) by (simp add: step(2))
  then show ?case
    using Cons.IH [OF step(1) _ Cons.prems(3,4)] by (simp add: step(2))
qed

lemma fresh_symmetric:
  assumes types: "S \<inter> R = {}" "[] \<notin> R"
    and ids: "\<forall>p<nextRef \<sigma>. \<forall>q<nextRef \<sigma>. peer_id (heap \<sigma> q) = peer_id (heap \<sigma> p) \<longrightarrow> q = p"
    and fresh: "rooms \<sigma> = Map.empty"
      "\<forall>p<nextRef \<sigma>. ip (heap \<sigma> p) \<notin> S \<union> R \<and> roomSecrets (heap \<sigma> p) = []
                       \<and> publicRoomId (heap \<sigma> p) = None"
  shows "symmetric S R \<sigma>"
proof (rule symmetricI)
  fix p q
  assume "p < nextRef \<sigma>" "q < nextRef \<sigma>" "peer_id (heap \<sigma> q) = peer_id (heap \<sigma> p)"
  then show "q = p"
    using ids by blast
next
  fix p assume "p < nextRef \<sigma>"
  then show "ip (heap \<sigma> p) \<notin> S \<union> R"
    using fresh(2) by blast
next
  fix p s assume "p < nextRef \<sigma>" "s \<in> set (roomSecrets (heap \<sigma> p))"
  then show "s \<in> S"
    using fresh(2) by simp
next
  fix p r assume "p < nextRef \<sigma>" "publicRoomId (heap \<sigma> p) = Some r"
  then show "r \<in> R"
    using fresh(2) by simp
next
  fix p s assume "p < nextRef \<sigma>" "s \<in> S"
  then show "(s \<in> set (roomSecrets (heap \<sigma> p))) = (lookup \<sigma> s (peer_id (heap \<sigma> p)) \<noteq> None)"
    using fresh by (simp add: lookup_def)
next
  fix p r assume "p < nextRef \<sigma>" "r \<in> R"
  then show "(publicRoomId (heap \<sigma> p) = Some r) = (lookup \<sigma> r (peer_id (heap \<sigma> p)) \<noteq> None)"
    using fresh by (simp add: lookup_def)
qed

lemma fold_applyRoomOp_ids:
  "peer_id (heap (fold (applyRoomOp rv e) ops \<sigma>) q) = peer_id (heap \<sigma> q)"
proof (induction ops arbitrary: \<sigma>)
  case Nil
  then show ?case by simp
next
  case (Cons op ops)
  have "peer_id (heap (applyRoomOp rv e op \<sigma>) q) = peer_id (heap \<sigma> q)"
    by (cases op)
       (simp_all add: joinIpRoom_def joinSecretRoom_def joinPublicRoom_def)
  then show ?case
    using Cons.IH by simp
qed


lemma secretS_not_roomA [simp]: "secretS \<noteq> roomA" "roomA \<noteq> secretS"
proof -
  have "length secretS \<noteq> length roomA"
    by (simp add: secretS_def roomA_def)
  then show "secretS \<noteq> roomA" "roomA \<noteq> secretS"
    by metis+
qed


end
